(* ===== verification/Prelude.thy ===== *)
theory Prelude
  imports Main "HOL-Library.Sublist"
begin

text \<open>
  Shared vocabulary of the model of \<^verbatim>\<open>src/function.py\<close>: the Python values that the
  code reads from MongoDB documents and from the YouTube JSON response (\<open>jval\<close>),
  Python dictionaries as association lists in insertion order (\<open>pydict\<close>, with
  \<open>dget\<close>, \<open>dset\<close>, \<open>ddel\<close> and the abstraction \<open>map_of\<close>), the exceptions the code
  can raise or catch (\<open>py_exc\<close>), Python truthiness (\<open>py_truthy\<close>), Python's \<open>==\<close> on
  these values (\<open>py_eq\<close>, which identifies \<open>True\<close> with \<open>1\<close> and ignores the key order
  of dictionaries) and \<open>str()\<close> of an integer.  The generic lemmas are collected in
  the named theorem list \<open>py_simps\<close>, which the component theories pass to the
  simplifier.
\<close>

named_theorems py_simps "simplification rules for the Python value layer"

section \<open>Python exceptions\<close>

text \<open>The exceptions the modelled code raises, propagates or swallows.  Exceptions of
  external collaborators whose kind does not matter are \<open>ExtError\<close>.\<close>

datatype py_exc =
    KeyError
  | IndexError
  | TypeError
  | ValueError
  | DuplicateKeyError
  | WriteError
  | ExtError string

section \<open>Python/JSON values\<close>

text \<open>JSON numbers are modelled as integers; floats do not occur in the modelled paths.\<close>

datatype jval =
    JNull
  | JBool bool
  | JInt int
  | JStr string
  | JArr "jval list"
  | JObj "(string \<times> jval) list"

section \<open>Dictionaries\<close>

text \<open>A Python \<open>dict\<close> keeps its keys unique and in insertion order: assigning an existing
  key overwrites in place, a new key is appended, \<open>del\<close> removes the entry.\<close>

type_synonym ('k, 'v) pydict = "('k \<times> 'v) list"

definition dget :: "('k, 'v) pydict \<Rightarrow> 'k \<Rightarrow> 'v option" where
  "dget d k = map_of d k"

fun dset :: "'k \<Rightarrow> 'v \<Rightarrow> ('k, 'v) pydict \<Rightarrow> ('k, 'v) pydict" where
  "dset k v [] = [(k, v)]"
| "dset k v ((a, b) # ps) = (if a = k then (k, v) # ps else (a, b) # dset k v ps)"

fun ddel :: "'k \<Rightarrow> ('k, 'v) pydict \<Rightarrow> ('k, 'v) pydict" where
  "ddel k [] = []"
| "ddel k ((a, b) # ps) = (if a = k then ps else (a, b) # ddel k ps)"

definition dkeys :: "('k, 'v) pydict \<Rightarrow> 'k list" where
  "dkeys d = map fst d"

text \<open>\<open>d.get(k)\<close>: the value, or \<open>None\<close> for a missing key.\<close>

definition py_get :: "(string, jval) pydict \<Rightarrow> string \<Rightarrow> jval" where
  "py_get d k = (case map_of d k of None \<Rightarrow> JNull | Some v \<Rightarrow> v)"

section \<open>Truthiness and equality\<close>

fun py_truthy :: "jval \<Rightarrow> bool" where
  "py_truthy JNull = False"
| "py_truthy (JBool b) = b"
| "py_truthy (JInt i) = (i \<noteq> 0)"
| "py_truthy (JStr s) = (s \<noteq> [])"
| "py_truthy (JArr xs) = (xs \<noteq> [])"
| "py_truthy (JObj kvs) = (kvs \<noteq> [])"

text \<open>Python's \<open>==\<close>: \<open>bool\<close> is a subtype of \<open>int\<close> (\<open>True == 1\<close>), lists compare
  element-wise, dictionaries compare as maps (same keys, equal values, any order).\<close>

fun py_eq :: "jval \<Rightarrow> jval \<Rightarrow> bool"
  and py_eq_list :: "jval list \<Rightarrow> jval list \<Rightarrow> bool"
  and py_eq_sub :: "(string \<times> jval) list \<Rightarrow> (string \<times> jval) list \<Rightarrow> bool" where
  "py_eq JNull y = (y = JNull)"
| "py_eq (JBool b) y =
     (case y of JBool c \<Rightarrow> b = c | JInt i \<Rightarrow> i = (if b then 1 else 0) | _ \<Rightarrow> False)"
| "py_eq (JInt i) y =
     (case y of JInt j \<Rightarrow> i = j | JBool c \<Rightarrow> i = (if c then 1 else 0) | _ \<Rightarrow> False)"
| "py_eq (JStr s) y = (y = JStr s)"
| "py_eq (JArr xs) y = (case y of JArr ys \<Rightarrow> py_eq_list xs ys | _ \<Rightarrow> False)"
| "py_eq (JObj a) y =
     (case y of JObj b \<Rightarrow> set (map fst a) = set (map fst b) \<and> py_eq_sub a b | _ \<Rightarrow> False)"
| "py_eq_list [] ys = (ys = [])"
| "py_eq_list (x # xs) ys =
     (case ys of [] \<Rightarrow> False | y # ys' \<Rightarrow> py_eq x y \<and> py_eq_list xs ys')"
| "py_eq_sub [] b = True"
| "py_eq_sub ((k, v) # a) b =
     ((case map_of b k of None \<Rightarrow> False | Some w \<Rightarrow> py_eq v w) \<and> py_eq_sub a b)"

section \<open>Subscript and membership with a string key\<close>

text \<open>\<open>x[k]\<close> for a string \<open>k\<close>: a dictionary looks it up (\<^verbatim>\<open>KeyError\<close> when
  missing); lists, strings and scalars raise \<^verbatim>\<open>TypeError\<close>.\<close>

fun py_getitem :: "jval \<Rightarrow> string \<Rightarrow> py_exc + jval" where
  "py_getitem (JObj kvs) k = (case map_of kvs k of Some v \<Rightarrow> Inr v | None \<Rightarrow> Inl KeyError)"
| "py_getitem _ k = Inl TypeError"

text \<open>\<open>k in x\<close> for a string \<open>k\<close>: key membership for a dictionary, element
  membership for a list, substring for a string, \<^verbatim>\<open>TypeError\<close> otherwise.\<close>

fun py_in :: "string \<Rightarrow> jval \<Rightarrow> py_exc + bool" where
  "py_in k (JObj kvs) = Inr (k \<in> set (map fst kvs))"
| "py_in k (JArr xs) = Inr (JStr k \<in> set xs)"
| "py_in k (JStr s) = Inr (sublist k s)"
| "py_in k _ = Inl TypeError"

section \<open>Decimal rendering\<close>

text \<open>\<open>str(n)\<close> and \<open>f"{n}"\<close> of a Python int.\<close>

fun string_of_nat :: "nat \<Rightarrow> string" where
  "string_of_nat n =
     (if n < 10 then [char_of (48 + n)]
      else string_of_nat (n div 10) @ [char_of (48 + n mod 10)])"

definition string_of_int :: "int \<Rightarrow> string" where
  "string_of_int i =
     (if i < 0 then CHR ''-'' # string_of_nat (nat (- i)) else string_of_nat (nat i))"

declare string_of_nat.simps [simp del]

text \<open>\<open>str(x)\<close> of a JSON value, as an f-string renders it.  Containers render as their
  \<open>repr\<close>; the quoting of strings inside containers is simplified to single quotes
  without escapes.\<close>

fun py_repr :: "jval \<Rightarrow> string"
  and py_repr_list :: "jval list \<Rightarrow> string"
  and py_repr_obj :: "(string \<times> jval) list \<Rightarrow> string" where
  "py_repr JNull = ''None''"
| "py_repr (JBool b) = (if b then ''True'' else ''False'')"
| "py_repr (JInt i) = string_of_int i"
| "py_repr (JStr s) = CHR 0x27 # s @ [CHR 0x27]"
| "py_repr (JArr xs) = CHR ''['' # py_repr_list xs @ '']''"
| "py_repr (JObj kvs) = CHR ''{'' # py_repr_obj kvs @ ''}''"
| "py_repr_list [] = []"
| "py_repr_list [x] = py_repr x"
| "py_repr_list (x # y # ys) = py_repr x @ '', '' @ py_repr_list (y # ys)"
| "py_repr_obj [] = []"
| "py_repr_obj [(k, v)] = py_repr (JStr k) @ '': '' @ py_repr v"
| "py_repr_obj ((k, v) # kv # kvs) = py_repr (JStr k) @ '': '' @ py_repr v @ '', '' @ py_repr_obj (kv # kvs)"

fun py_str :: "jval \<Rightarrow> string" where
  "py_str (JStr s) = s"
| "py_str v = py_repr v"


section \<open>Dictionary lemmas\<close>

lemma map_of_dset [py_simps]: "map_of (dset k v d) = (map_of d)(k \<mapsto> v)"
  by (induction d rule: dset.induct) (auto simp: fun_eq_iff)

lemma keys_dset [py_simps]: "set (map fst (dset k v d)) = insert k (set (map fst d))"
  by (induction d rule: dset.induct) auto

lemma set_dset_sub: "set (dset k v d) \<subseteq> insert (k, v) (set d)"
  by (induction d rule: dset.induct) auto

lemma distinct_dset [py_simps]:
  "distinct (map fst d) \<Longrightarrow> distinct (map fst (dset k v d))"
  by (induction d rule: dset.induct) (force dest: subsetD [OF set_dset_sub])+

lemma dset_order:
  "map fst (dset k v d) = (if k \<in> set (map fst d) then map fst d else map fst d @ [k])"
  by (induction d rule: dset.induct) auto

lemma dset_ne [py_simps]: "dset k v d \<noteq> []"
  by (induction d rule: dset.induct) auto

lemma set_ddel_sub: "set (ddel k d) \<subseteq> set d"
  by (induction d rule: ddel.induct) auto

lemma map_of_ddel [py_simps]:
  "distinct (map fst d) \<Longrightarrow> map_of (ddel k d) = (map_of d)(k := None)"
proof (induction d rule: ddel.induct)
  case (1 k)
  then show ?case by simp
next
  case (2 k a b ps)
  show ?case
  proof (cases "a = k")
    case True
    with "2.prems" have "map_of ps k = None"
      by (simp add: map_of_eq_None_iff)
    with True show ?thesis by (auto simp: fun_eq_iff)
  next
    case False
    with "2.IH" "2.prems" show ?thesis by (auto simp: fun_eq_iff)
  qed
qed

lemma map_of_ddel_other: "distinct (map fst d) \<Longrightarrow> k \<noteq> k' \<Longrightarrow> map_of (ddel k' d) k = map_of d k"
  by (simp add: map_of_ddel)

lemma distinct_ddel [py_simps]:
  "distinct (map fst d) \<Longrightarrow> distinct (map fst (ddel k d))"
  by (induction d rule: ddel.induct) (force dest: subsetD [OF set_ddel_sub])+

lemma dget_dset [py_simps]: "dget (dset k v d) k' = (if k' = k then Some v else dget d k')"
  by (simp add: dget_def map_of_dset)

lemma py_get_dset [py_simps]: "py_get (dset k v d) k' = (if k' = k then v else py_get d k')"
  by (simp add: py_get_def map_of_dset)

section \<open>Well-formed values\<close>

text \<open>Values that come from JSON or BSON have unique keys in every object.\<close>

fun wf_jval :: "jval \<Rightarrow> bool"
  and wf_list :: "jval list \<Rightarrow> bool"
  and wf_obj :: "(string \<times> jval) list \<Rightarrow> bool" where
  "wf_jval (JArr xs) = wf_list xs"
| "wf_jval (JObj kvs) = (distinct (map fst kvs) \<and> wf_obj kvs)"
| "wf_jval _ = True"
| "wf_list [] = True"
| "wf_list (x # xs) = (wf_jval x \<and> wf_list xs)"
| "wf_obj [] = True"
| "wf_obj ((k, v) # kvs) = (wf_jval v \<and> wf_obj kvs)"

lemma py_eq_refl_mutual:
  "wf_jval x \<Longrightarrow> py_eq x x"
  "wf_list xs \<Longrightarrow> py_eq_list xs xs"
  "wf_obj a \<Longrightarrow> (\<forall>(k, v) \<in> set a. map_of b k = Some v) \<Longrightarrow> py_eq_sub a b"
proof (induction x and xs and a arbitrary: and and b rule: wf_jval_wf_list_wf_obj.induct)
  case (2 kvs)
  then show ?case by auto
qed (auto split: jval.splits)

lemma py_eq_refl [py_simps]: "wf_jval x \<Longrightarrow> py_eq x x"
  by (rule py_eq_refl_mutual(1))

lemma py_eq_JStr [py_simps]: "py_eq (JStr s) y \<longleftrightarrow> y = JStr s"
  by simp

lemma py_eq_JStr_right: "py_eq x (JStr s) \<longleftrightarrow> x = JStr s"
  by (cases x) auto

lemma wf_obj_iff: "wf_obj kvs \<longleftrightarrow> (\<forall>(k, v) \<in> set kvs. wf_jval v)"
  by (induction kvs) auto

lemma wf_list_iff: "wf_list xs \<longleftrightarrow> (\<forall>x \<in> set xs. wf_jval x)"
  by (induction xs) auto

lemma wf_obj_dset [py_simps]: "wf_obj d \<Longrightarrow> wf_jval v \<Longrightarrow> wf_obj (dset k v d)"
  using set_dset_sub [of k v d] by (auto simp: wf_obj_iff)

lemma wf_obj_ddel [py_simps]: "wf_obj d \<Longrightarrow> wf_obj (ddel k d)"
  using set_ddel_sub [of k d] by (auto simp: wf_obj_iff)

lemma wf_obj_map_of: "wf_obj d \<Longrightarrow> map_of d k = Some v \<Longrightarrow> wf_jval v"
  by (auto simp: wf_obj_iff dest: map_of_SomeD)

end
