(* ===== verification/Mongo.thy ===== *)
theory Mongo
  imports Prelude
begin

text \<open>
  The backing store that \<^verbatim>\<open>src/function.py\<close> talks to through pymongo: a collection is
  a dictionary from \<open>_id\<close> to document, a document a dictionary of fields.  This layer
  is not code of the repository; it is modelled from the spec (section 4.2: \<open>$set\<close>,
  \<open>$unset\<close>, \<open>$push\<close>, \<open>$pull\<close>, field-level paths written with dots) and from MongoDB's
  documented semantics: a dotted key is a path into nested documents; \<open>$set\<close> and
  \<open>$push\<close> create missing intermediate documents and fail on a non-document on the
  way; \<open>$unset\<close> and \<open>$pull\<close> are no-ops on a missing path; an update of one document
  is atomic (an error leaves the document unchanged); an update touching \<open>_id\<close> fails;
  \<open>insert_one\<close> of an existing \<open>_id\<close> raises \<open>DuplicateKeyError\<close>.  Not modelled:
  positional array paths, \<open>$pull\<close> with query documents (values are matched by
  equality), the field order MongoDB gives to fields added by one update.
\<close>

type_synonym doc = "(string, jval) pydict"
type_synonym 'i collection = "('i, doc) pydict"

abbreviation wf_doc :: "doc \<Rightarrow> bool" where
  "wf_doc d \<equiv> wf_jval (JObj d)"

section \<open>Paths\<close>

fun split_dot :: "string \<Rightarrow> string list" where
  "split_dot [] = [[]]"
| "split_dot (c # cs) =
     (let r = split_dot cs in if c = CHR ''.'' then [] # r else (c # hd r) # tl r)"

text \<open>Reading a path: \<open>None\<close> when a component is missing or not a document.\<close>

fun get_path :: "string list \<Rightarrow> doc \<Rightarrow> jval option" where
  "get_path [] d = None"
| "get_path [k] d = dget d k"
| "get_path (k # k' # ks) d =
     (case dget d k of Some (JObj d') \<Rightarrow> get_path (k' # ks) d' | _ \<Rightarrow> None)"

text \<open>
  The traversal shared by the four update operators.  \<open>f\<close> maps the old value at the
  end of the path (\<open>None\<close>: absent) to the new one (\<open>None\<close>: remove the field) or to an
  error; \<open>create\<close> says whether missing intermediate documents are created (and a
  non-document on the way is an error) or the update is a no-op there.
\<close>

fun modify_path ::
  "(jval option \<Rightarrow> py_exc + jval option) \<Rightarrow> bool \<Rightarrow> string list \<Rightarrow> doc \<Rightarrow> py_exc + doc" where
  "modify_path f create [] d = Inl WriteError"
| "modify_path f create [k] d =
     (if k = [] then Inl WriteError
      else (case f (dget d k) of
              Inl e \<Rightarrow> Inl e
            | Inr None \<Rightarrow> Inr (ddel k d)
            | Inr (Some v) \<Rightarrow> Inr (dset k v d)))"
| "modify_path f create (k # k' # ks) d =
     (if k = [] then Inl WriteError
      else (case dget d k of
              None \<Rightarrow>
                (if create
                 then (case modify_path f create (k' # ks) [] of
                         Inl e \<Rightarrow> Inl e
                       | Inr d'' \<Rightarrow> Inr (dset k (JObj d'') d))
                 else Inr d)
            | Some (JObj d') \<Rightarrow>
                (case modify_path f create (k' # ks) d' of
                   Inl e \<Rightarrow> Inl e
                 | Inr d'' \<Rightarrow> Inr (dset k (JObj d'') d))
            | Some _ \<Rightarrow> (if create then Inl WriteError else Inr d)))"

section \<open>Update operators\<close>

datatype update_op = USet | UUnset | UPush | UPull

text \<open>\<open>$push\<close> appends one value, or every value of a \<open>{"$each": [...]}\<close> modifier.\<close>

definition push_values :: "jval \<Rightarrow> jval list" where
  "push_values v = (case v of JObj [(k, JArr vs)] \<Rightarrow> if k = ''$each'' then vs else [v] | _ \<Rightarrow> [v])"

fun push_leaf :: "jval \<Rightarrow> jval option \<Rightarrow> py_exc + jval option" where
  "push_leaf v None = Inr (Some (JArr (push_values v)))"
| "push_leaf v (Some (JArr xs)) = Inr (Some (JArr (xs @ push_values v)))"
| "push_leaf v (Some _) = Inl WriteError"

fun pull_leaf :: "jval \<Rightarrow> jval option \<Rightarrow> py_exc + jval option" where
  "pull_leaf v None = Inr None"
| "pull_leaf v (Some (JArr xs)) = Inr (Some (JArr (filter (\<lambda>x. x \<noteq> v) xs)))"
| "pull_leaf v (Some _) = Inl WriteError"

fun op_path :: "update_op \<Rightarrow> string list \<Rightarrow> jval \<Rightarrow> doc \<Rightarrow> py_exc + doc" where
  "op_path USet p v = modify_path (\<lambda>_. Inr (Some v)) True p"
| "op_path UUnset p v = modify_path (\<lambda>_. Inr None) False p"
| "op_path UPush p v = modify_path (push_leaf v) True p"
| "op_path UPull p v = modify_path (pull_leaf v) False p"

text \<open>The fields of one update document, applied in order; the first error aborts.\<close>

fun apply_fields :: "update_op \<Rightarrow> (string, jval) pydict \<Rightarrow> doc \<Rightarrow> py_exc + doc" where
  "apply_fields op [] d = Inr d"
| "apply_fields op ((k, v) # rest) d =
     (let p = split_dot k in
      if hd p = ''_id'' then Inl WriteError
      else (case op_path op p v d of
              Inl e \<Rightarrow> Inl e
            | Inr d' \<Rightarrow> apply_fields op rest d'))"

section \<open>Collection operations\<close>

datatype update_result = UpdateResult (matched_count: nat) (modified_count: nat)

text \<open>\<open>find_one({"_id": i})\<close>.\<close>

definition find_one :: "'i collection \<Rightarrow> 'i \<Rightarrow> doc option" where
  "find_one c i = dget c i"

text \<open>\<open>insert_one(doc)\<close> of a document whose \<open>_id\<close> is \<open>i\<close>.\<close>

definition insert_one :: "'i \<Rightarrow> doc \<Rightarrow> 'i collection \<Rightarrow> (py_exc + unit) \<times> 'i collection" where
  "insert_one i d c =
     (if i \<in> set (map fst c) then (Inl DuplicateKeyError, c) else (Inr (), c @ [(i, d)]))"

text \<open>\<open>update_one({"_id": i}, {op: data})\<close>: no match is not an error.\<close>

definition update_one ::
  "'i \<Rightarrow> update_op \<Rightarrow> (string, jval) pydict \<Rightarrow> 'i collection
   \<Rightarrow> (py_exc + update_result) \<times> 'i collection" where
  "update_one i op data c =
     (case dget c i of
        None \<Rightarrow> (Inr (UpdateResult 0 0), c)
      | Some d \<Rightarrow>
          (case apply_fields op data d of
             Inl e \<Rightarrow> (Inl e, c)
           | Inr d' \<Rightarrow> (Inr (UpdateResult 1 (if d' = d then 0 else 1)), dset i d' c)))"

text \<open>A path along which \<open>$set\<close> cannot fail: non-empty components, and every
  proper prefix absent or a document.\<close>

fun path_clear :: "string list \<Rightarrow> doc \<Rightarrow> bool" where
  "path_clear [] d = False"
| "path_clear [k] d = (k \<noteq> [])"
| "path_clear (k # k' # ks) d =
     (k \<noteq> [] \<and> (case dget d k of
                   None \<Rightarrow> path_clear (k' # ks) []
                 | Some (JObj d') \<Rightarrow> path_clear (k' # ks) d'
                 | Some _ \<Rightarrow> False))"

section \<open>Path lemmas\<close>

lemma get_path_empty_doc [simp]: "get_path p [] = None"
  by (cases "(p, [] :: doc)" rule: get_path.cases) (simp_all add: dget_def)

lemma modify_path_get:
  assumes "modify_path f c p d = Inr d'" "wf_doc d" "\<not> c \<longrightarrow> f None = Inr None"
  shows "f (get_path p d) = Inr (get_path p d')"
  using assms
proof (induction f c p d arbitrary: d' rule: modify_path.induct)
  case (2 f create k d)
  then show ?case
    by (auto simp: dget_def map_of_dset map_of_ddel split: if_splits sum.splits option.splits)
next
  case (3 f create k k' ks d)
  show ?case
  proof (cases "dget d k")
    case None
    with "3" show ?thesis
      by (auto simp: dget_def map_of_dset split: if_splits sum.splits)
  next
    case (Some x)
    then show ?thesis
    proof (cases x)
      case (JObj d0)
      with Some "3.prems" have wf0: "wf_doc d0"
        by (auto simp: dget_def dest: wf_obj_map_of)
      show ?thesis
        using "3.IH"(2) [OF _ Some JObj _ wf0] "3.prems" Some JObj
        by (auto simp: dget_def map_of_dset split: if_splits sum.splits)
    qed (use "3" Some in \<open>auto split: if_splits\<close>)
  qed
qed simp

lemma modify_path_wf:
  assumes "modify_path f c p d = Inr d'" "wf_doc d"
    and "\<And>x r. f x = Inr (Some r) \<Longrightarrow> (\<forall>y. x = Some y \<longrightarrow> wf_jval y) \<Longrightarrow> wf_jval r"
  shows "wf_doc d'"
  using assms
proof (induction f c p d arbitrary: d' rule: modify_path.induct)
  case (2 f create k d)
  have "wf_jval r" if "f (dget d k) = Inr (Some r)" for r
    using "2.prems"(3) [OF that] "2.prems"(2) by (simp add: dget_def wf_obj_iff) blast
  with "2.prems"(1,2) show ?case
    by (auto simp: distinct_dset distinct_ddel wf_obj_dset wf_obj_ddel
        split: if_splits sum.splits option.splits)
next
  case (3 f create k k' ks d)
  show ?case
  proof (cases "dget d k")
    case None
    with "3.IH"(1) [OF _ None] "3.prems" show ?thesis
      by (auto simp: dget_def distinct_dset wf_obj_dset split: if_splits sum.splits)
  next
    case (Some x)
    then show ?thesis
    proof (cases x)
      case (JObj d0)
      with Some "3.prems" have wf0: "wf_doc d0"
        by (auto simp: dget_def dest: wf_obj_map_of)
      show ?thesis
        using "3.IH"(2) [OF _ Some JObj _ wf0] "3.prems" Some JObj
        by (auto simp: dget_def distinct_dset wf_obj_dset split: if_splits sum.splits)
    qed (use "3" Some in \<open>auto split: if_splits\<close>)
  qed
qed simp


lemma apply_fields_single:
  "apply_fields op [(k, v)] d =
     (if hd (split_dot k) = ''_id'' then Inl WriteError else op_path op (split_dot k) v d)"
  by (simp add: Let_def split: sum.splits)

lemma apply_fields_append:
  "apply_fields op (xs @ ys) d =
     (case apply_fields op xs d of Inl e \<Rightarrow> Inl e | Inr d' \<Rightarrow> apply_fields op ys d')"
  by (induction op xs d rule: apply_fields.induct) (auto simp: Let_def split: sum.splits)

lemma modify_path_clear:
  "path_clear p d \<Longrightarrow> (\<And>x. \<exists>r. f x = Inr r) \<Longrightarrow> \<exists>d'. modify_path f True p d = Inr d'"
proof (induction f True p d rule: modify_path.induct)
  case (2 f k d)
  then show ?case by (auto split: sum.splits option.splits) (metis sum.distinct(1))
next
  case (3 f k k' ks d)
  then show ?case by (auto split: option.splits jval.splits sum.splits)
qed simp

lemma modify_path_existing:
  "get_path p d = Some x \<Longrightarrow> [] \<notin> set p \<Longrightarrow> f (Some x) = Inr r \<Longrightarrow>
   \<exists>d'. modify_path f c p d = Inr d'"
proof (induction f c p d rule: modify_path.induct)
  case (2 f create k d)
  then show ?case by (cases r) auto
next
  case (3 f create k k' ks d)
  then show ?case by (cases create) (auto split: option.splits jval.splits sum.splits)
qed simp

lemma modify_path_unset_total:
  "p \<noteq> [] \<Longrightarrow> [] \<notin> set p \<Longrightarrow> \<exists>d'. modify_path (\<lambda>_. Inr None) False p d = Inr d'"
proof (induction "\<lambda>_::jval option. Inr None :: py_exc + jval option" False p d rule: modify_path.induct)
  case (3 k k' ks d)
  then show ?case by (auto split: option.splits jval.splits sum.splits)
qed auto

lemma split_dot_plain: "CHR ''.'' \<notin> set k \<Longrightarrow> split_dot k = [k]"
  by (induction k) (auto simp: Let_def)

section \<open>Collection lemmas\<close>

lemma update_one_missing:
  "dget c i = None \<Longrightarrow> update_one i op data c = (Inr (UpdateResult 0 0), c)"
  by (simp add: update_one_def)

lemma update_one_error_atomic:
  "fst (update_one i op data c) = Inl e \<Longrightarrow> snd (update_one i op data c) = c"
  by (auto simp: update_one_def split: option.splits sum.splits)

lemma update_one_applied:
  "dget c i = Some d \<Longrightarrow> apply_fields op data d = Inr d' \<Longrightarrow>
   update_one i op data c = (Inr (UpdateResult 1 (if d' = d then 0 else 1)), dset i d' c)"
  by (simp add: update_one_def)

lemma update_one_other:
  "j \<noteq> i \<Longrightarrow> dget (snd (update_one i op data c)) j = dget c j"
  by (auto simp: update_one_def dget_dset split: option.splits sum.splits)

lemma update_one_single:
  "find_one c uid = Some d \<Longrightarrow> hd (split_dot k) \<noteq> ''_id'' \<Longrightarrow> op_path op (split_dot k) v d = Inr d' \<Longrightarrow>
   update_one uid op [(k, v)] c = (Inr (UpdateResult 1 (if d' = d then 0 else 1)), dset uid d' c)"
  by (simp add: update_one_def find_one_def apply_fields_single)

lemma insert_one_fresh:
  "dget c i = None \<Longrightarrow> insert_one i d c = (Inr (), c @ [(i, d)])"
  by (simp add: insert_one_def dget_def map_of_eq_None_iff)

lemma insert_one_existing:
  "dget c i = Some d0 \<Longrightarrow> insert_one i d c = (Inl DuplicateKeyError, c)"
  by (auto simp: insert_one_def dget_def intro: rev_image_eqI dest: map_of_SomeD)

lemma dget_append_fresh [py_simps]:
  "dget (c @ [(i, d)]) j = (case dget c j of None \<Rightarrow> (if j = i then Some d else None) | Some x \<Rightarrow> Some x)"
  by (simp add: dget_def map_add_def split: option.splits)

section \<open>Well-formedness of documents\<close>

lemma push_values_wf: "wf_jval v \<Longrightarrow> \<forall>x \<in> set (push_values v). wf_jval x"
proof (cases "\<exists>vs. v = JObj [(''$each'', JArr vs)]")
  case True
  then obtain vs where "v = JObj [(''$each'', JArr vs)]" by blast
  moreover assume "wf_jval v"
  ultimately show ?thesis by (simp add: push_values_def wf_list_iff)
next
  case False
  assume "wf_jval v"
  moreover from False have "push_values v = [v]"
    by (auto simp: push_values_def split: jval.splits list.splits prod.splits)
  ultimately show ?thesis by simp
qed

lemma push_leaf_wf:
  "push_leaf v x = Inr (Some r) \<Longrightarrow> (\<forall>y. x = Some y \<longrightarrow> wf_jval y) \<Longrightarrow> wf_jval v \<Longrightarrow> wf_jval r"
  by (cases "(v, x)" rule: push_leaf.cases) (use push_values_wf [of v] in \<open>auto simp: wf_list_iff\<close>)

lemma pull_leaf_wf:
  "pull_leaf v x = Inr (Some r) \<Longrightarrow> (\<forall>y. x = Some y \<longrightarrow> wf_jval y) \<Longrightarrow> wf_jval r"
  by (cases "(v, x)" rule: pull_leaf.cases) (auto simp: wf_list_iff)

lemma op_path_wf:
  assumes "op_path op p v d = Inr d'" "wf_doc d" "wf_jval v"
  shows "wf_doc d'"
proof (cases op)
  case USet
  with assms(1) have "modify_path (\<lambda>_. Inr (Some v)) True p d = Inr d'" by simp
  then show ?thesis by (rule modify_path_wf) (use assms(2,3) in auto)
next
  case UUnset
  with assms(1) have "modify_path (\<lambda>_. Inr None) False p d = Inr d'" by simp
  then show ?thesis by (rule modify_path_wf) (use assms(2) in auto)
next
  case UPush
  with assms(1) have "modify_path (push_leaf v) True p d = Inr d'" by simp
  then show ?thesis by (rule modify_path_wf) (use assms(2,3) push_leaf_wf in blast)+
next
  case UPull
  with assms(1) have "modify_path (pull_leaf v) False p d = Inr d'" by simp
  then show ?thesis by (rule modify_path_wf) (use assms(2) pull_leaf_wf in blast)+
qed

lemma apply_fields_wf:
  "apply_fields op data d = Inr d' \<Longrightarrow> wf_doc d \<Longrightarrow> list_all (\<lambda>(k, v). wf_jval v) data \<Longrightarrow> wf_doc d'"
  by (induction op data d rule: apply_fields.induct)
     (auto simp: Let_def split: if_splits sum.splits dest: op_path_wf)

end
