(* ===== verification/Settings.thy ===== *)
theory Settings
  imports Mongo
begin

text \<open>
  ConfigStore: \<^verbatim>\<open>get_settings\<close>, \<^verbatim>\<open>update_settings\<close> and \<^verbatim>\<open>get_lang\<close> of
  \<^verbatim>\<open>src/function.py\<close> (lines 64--86, 120--122).  The state is the module-level cache
  \<^verbatim>\<open>guild_settings\<close> (guild id to settings dictionary), the MongoDB collection
  \<^verbatim>\<open>Settings\<close>, and the sequence of calls made on that collection, so that claims
  about store traffic (no read on a cache hit, one insert for a new guild) can be stated.
  The code holds the cached dictionary and the local \<^verbatim>\<open>settings\<close> as one object;
  the model threads that dictionary through the loops of \<^verbatim>\<open>update_settings\<close> and
  writes it back into the cache, which \<open>get_settings_cache\<close> shows to be the same
  thing.  Python truthiness of the dictionaries (\<^verbatim>\<open>if not settings\<close>) is kept: an
  empty cached dictionary counts as a miss.
\<close>

type_synonym bag = "(string, jval) pydict"

datatype store_call = FindOne int | InsertOne int | UpdateOne int update_op

record settings_state =
  guild_settings :: "(int, bag) pydict"
  settings_coll :: "int collection"
  store_log :: "store_call list"

definition log_call :: "store_call \<Rightarrow> settings_state \<Rightarrow> settings_state" where
  "log_call c s = s\<lparr>store_log := store_log s @ [c]\<rparr>"

section \<open>get_settings\<close>

text \<open>The miss branch (lines 66--71): read the store; if there is no document, insert
  \<^verbatim>\<open>{"_id": guild_id}\<close> and use \<^verbatim>\<open>{}\<close>; cache what was found.\<close>

definition insert_default :: "int \<Rightarrow> settings_state \<Rightarrow> (py_exc + bag) \<times> settings_state" where
  "insert_default gid s =
     (let s1 = log_call (InsertOne gid) s in
      case insert_one gid [(''_id'', JInt gid)] (settings_coll s1) of
        (Inl e, c) \<Rightarrow> (Inl e, s1\<lparr>settings_coll := c\<rparr>)
      | (Inr _, c) \<Rightarrow>
          (Inr [], s1\<lparr>settings_coll := c, guild_settings := dset gid [] (guild_settings s1)\<rparr>))"

definition load_settings :: "int \<Rightarrow> settings_state \<Rightarrow> (py_exc + bag) \<times> settings_state" where
  "load_settings gid s =
     (let s1 = log_call (FindOne gid) s in
      case find_one (settings_coll s1) gid of
        Some d \<Rightarrow>
          (if d \<noteq> [] then (Inr d, s1\<lparr>guild_settings := dset gid d (guild_settings s1)\<rparr>)
           else insert_default gid s1)
      | None \<Rightarrow> insert_default gid s1)"

definition get_settings :: "int \<Rightarrow> settings_state \<Rightarrow> (py_exc + bag) \<times> settings_state" where
  "get_settings gid s =
     (case dget (guild_settings s) gid of
        Some b \<Rightarrow> (if b \<noteq> [] then (Inr b, s) else load_settings gid s)
      | None \<Rightarrow> load_settings gid s)"

section \<open>update_settings\<close>

text \<open>The \<^verbatim>\<open>Set\<close> loop (lines 77--79) on the cached dictionary.\<close>

fun set_loop :: "(string, jval) pydict \<Rightarrow> bag \<Rightarrow> bag" where
  "set_loop [] b = b"
| "set_loop ((k, v) # rest) b =
     set_loop rest (if \<not> py_eq (py_get b k) v then dset k v b else b)"

text \<open>The \<^verbatim>\<open>Delete\<close> loop (lines 82--84): \<^verbatim>\<open>del\<close> of a missing key raises
  \<^verbatim>\<open>KeyError\<close>, leaving the deletions already made in place.\<close>

fun del_loop :: "(string, jval) pydict \<Rightarrow> bag \<Rightarrow> (py_exc + unit) \<times> bag" where
  "del_loop [] b = (Inr (), b)"
| "del_loop ((k, v) # rest) b =
     (if \<not> py_eq (py_get b k) v
      then (if k \<in> set (map fst b) then del_loop rest (ddel k b) else (Inl KeyError, b))
      else del_loop rest b)"

definition store_update ::
  "int \<Rightarrow> update_op \<Rightarrow> (string, jval) pydict \<Rightarrow> settings_state \<Rightarrow> (py_exc + unit) \<times> settings_state" where
  "store_update gid op data s =
     (let s1 = log_call (UpdateOne gid op) s in
      case update_one gid op data (settings_coll s1) of
        (Inl e, c) \<Rightarrow> (Inl e, s1\<lparr>settings_coll := c\<rparr>)
      | (Inr _, c) \<Rightarrow> (Inr (), s1\<lparr>settings_coll := c\<rparr>))"

definition update_settings ::
  "int \<Rightarrow> (string, jval) pydict \<Rightarrow> string \<Rightarrow> settings_state \<Rightarrow> (py_exc + unit) \<times> settings_state" where
  "update_settings gid data mode s =
     (case get_settings gid s of
        (Inl e, s1) \<Rightarrow> (Inl e, s1)
      | (Inr b, s1) \<Rightarrow>
          (if mode = ''Set'' then
             store_update gid USet data
               (s1\<lparr>guild_settings := dset gid (set_loop data b) (guild_settings s1)\<rparr>)
           else if mode = ''Delete'' then
             (case del_loop data b of
                (Inl e, b') \<Rightarrow> (Inl e, s1\<lparr>guild_settings := dset gid b' (guild_settings s1)\<rparr>)
              | (Inr _, b') \<Rightarrow>
                  store_update gid UUnset data
                    (s1\<lparr>guild_settings := dset gid b' (guild_settings s1)\<rparr>))
           else (Inr (), s1)))"

section \<open>get_lang\<close>

text \<open>\<^verbatim>\<open>langs.get(lang, langs["EN"])[key]\<close>: the default \<^verbatim>\<open>langs["EN"]\<close> is evaluated
  before the call, so a missing \<^verbatim>\<open>EN\<close> table raises even when \<^verbatim>\<open>lang\<close> is found; a
  non-string \<^verbatim>\<open>lang\<close> value is not a key (an unhashable one raises \<^verbatim>\<open>TypeError\<close>).\<close>

type_synonym lang_tables = "(string, (string, string) pydict) pydict"

definition get_lang ::
  "lang_tables \<Rightarrow> int \<Rightarrow> string \<Rightarrow> settings_state \<Rightarrow> (py_exc + string) \<times> settings_state" where
  "get_lang langs gid key s =
     (case get_settings gid s of
        (Inl e, s1) \<Rightarrow> (Inl e, s1)
      | (Inr b, s1) \<Rightarrow>
          (let lang = (case dget b ''lang'' of Some v \<Rightarrow> v | None \<Rightarrow> JStr ''EN'') in
           case dget langs ''EN'' of
             None \<Rightarrow> (Inl KeyError, s1)
           | Some en \<Rightarrow>
               (case (case lang of
                        JStr l \<Rightarrow> Inr (case dget langs l of Some t \<Rightarrow> t | None \<Rightarrow> en)
                      | JArr _ \<Rightarrow> Inl TypeError
                      | JObj _ \<Rightarrow> Inl TypeError
                      | _ \<Rightarrow> Inr en) of
                  Inl e \<Rightarrow> (Inl e, s1)
                | Inr table \<Rightarrow>
                    (case dget table key of
                       None \<Rightarrow> (Inl KeyError, s1)
                     | Some txt \<Rightarrow> (Inr txt, s1)))))"

section \<open>Coherence of cache and store\<close>

text \<open>
  \<open>store_ok\<close>: every stored settings document carries its own \<^verbatim>\<open>_id\<close> and is
  well formed.  \<open>agree b d\<close>: the cached dictionary \<open>b\<close> and the stored document \<open>d\<close>
  have Python-equal values (absent read as \<^verbatim>\<open>None\<close>) at every key but \<^verbatim>\<open>_id\<close>.
  \<open>settings_inv\<close>: every non-empty cache entry is well formed and agrees with the
  stored document of its guild.  Keys written by \<^verbatim>\<open>update_settings\<close> are
  \<open>simple_key\<close>s when they are non-empty, contain no dot (MongoDB would read a path)
  and are not \<^verbatim>\<open>_id\<close>.
\<close>

definition store_ok :: "int collection \<Rightarrow> bool" where
  "store_ok c \<longleftrightarrow> distinct (map fst c) \<and>
     (\<forall>gid d. dget c gid = Some d \<longrightarrow> dget d ''_id'' = Some (JInt gid) \<and> wf_doc d)"

definition simple_key :: "string \<Rightarrow> bool" where
  "simple_key k \<longleftrightarrow> k \<noteq> [] \<and> CHR ''.'' \<notin> set k \<and> k \<noteq> ''_id''"

definition agree :: "bag \<Rightarrow> doc \<Rightarrow> bool" where
  "agree b d \<longleftrightarrow> (\<forall>k. k \<noteq> ''_id'' \<longrightarrow> py_eq (py_get b k) (py_get d k))"

definition settings_inv :: "settings_state \<Rightarrow> bool" where
  "settings_inv s \<longleftrightarrow> store_ok (settings_coll s) \<and>
     (\<forall>gid b. dget (guild_settings s) gid = Some b \<longrightarrow> b \<noteq> [] \<longrightarrow>
        wf_doc b \<and> (\<exists>d. dget (settings_coll s) gid = Some d \<and> agree b d))"

text \<open>The abstract ConfigStore of the specification (section 4.1): the bag of a tenant is
  its stored document, and the empty bag when there is none.  Bags are compared with
  \<open>agree\<close>, that is key by key with Python equality and the \<^verbatim>\<open>_id\<close> field aside.\<close>

definition store_view :: "settings_state \<Rightarrow> int \<Rightarrow> doc" where
  "store_view s gid = (case dget (settings_coll s) gid of Some d \<Rightarrow> d | None \<Rightarrow> [])"

section \<open>Lemmas\<close>

lemma insert_default_fresh:
  "dget (settings_coll s) gid = None \<Longrightarrow>
   insert_default gid s =
     (Inr [], s\<lparr>settings_coll := settings_coll s @ [(gid, [(''_id'', JInt gid)])],
               guild_settings := dset gid [] (guild_settings s),
               store_log := store_log s @ [InsertOne gid]\<rparr>)"
  by (simp add: insert_default_def log_call_def insert_one_fresh Let_def)

lemma load_settings_found:
  "dget (settings_coll s) gid = Some d \<Longrightarrow> d \<noteq> [] \<Longrightarrow>
   load_settings gid s =
     (Inr d, s\<lparr>guild_settings := dset gid d (guild_settings s),
               store_log := store_log s @ [FindOne gid]\<rparr>)"
  by (simp add: load_settings_def log_call_def find_one_def)

lemma load_settings_missing:
  "dget (settings_coll s) gid = None \<Longrightarrow>
   load_settings gid s =
     (Inr [], s\<lparr>settings_coll := settings_coll s @ [(gid, [(''_id'', JInt gid)])],
               guild_settings := dset gid [] (guild_settings s),
               store_log := store_log s @ [FindOne gid, InsertOne gid]\<rparr>)"
  by (simp add: load_settings_def log_call_def find_one_def insert_default_fresh)

lemma store_ok_doc_ne: "store_ok c \<Longrightarrow> dget c gid = Some d \<Longrightarrow> d \<noteq> []"
proof -
  assume "store_ok c" "dget c gid = Some d"
  then have "dget d ''_id'' = Some (JInt gid)" by (simp add: store_ok_def)
  then show "d \<noteq> []" by (auto simp: dget_def)
qed

lemma get_settings_cases:
  assumes "store_ok (settings_coll s)"
  obtains (hit) b where "dget (guild_settings s) gid = Some b" "b \<noteq> []" "get_settings gid s = (Inr b, s)"
  | (load) d where "dget (settings_coll s) gid = Some d" "d \<noteq> []"
      "get_settings gid s = (Inr d, s\<lparr>guild_settings := dset gid d (guild_settings s),
               store_log := store_log s @ [FindOne gid]\<rparr>)"
  | (fresh) "dget (settings_coll s) gid = None"
      "get_settings gid s = (Inr [], s\<lparr>settings_coll := settings_coll s @ [(gid, [(''_id'', JInt gid)])],
               guild_settings := dset gid [] (guild_settings s),
               store_log := store_log s @ [FindOne gid, InsertOne gid]\<rparr>)"
proof (cases "\<exists>b. dget (guild_settings s) gid = Some b \<and> b \<noteq> []")
  case True
  then show ?thesis using hit by (auto simp: get_settings_def)
next
  case False
  then have g: "get_settings gid s = load_settings gid s"
    by (auto simp: get_settings_def split: option.splits)
  show ?thesis
  proof (cases "dget (settings_coll s) gid")
    case None
    then show ?thesis using fresh g load_settings_missing by simp
  next
    case (Some d)
    with assms have "d \<noteq> []" by (rule store_ok_doc_ne)
    then show ?thesis using load g load_settings_found Some by simp
  qed
qed

lemma dset_same: "map_of c k = Some v \<Longrightarrow> dset k v c = c"
  by (induction c rule: dset.induct) auto

lemma get_settings_cache:
  "store_ok (settings_coll s) \<Longrightarrow> get_settings gid s = (Inr b, s') \<Longrightarrow>
   dget (guild_settings s') gid = Some b"
  by (cases rule: get_settings_cases [of s gid]) (auto simp: dget_dset)

lemma set_loop_get:
  "distinct (map fst data) \<Longrightarrow>
   py_get (set_loop data b) k =
     (case map_of data k of
        None \<Rightarrow> py_get b k
      | Some v \<Rightarrow> if py_eq (py_get b k) v then py_get b k else v)"
proof (induction data arbitrary: b)
  case Nil
  then show ?case by simp
next
  case (Cons kv rest)
  obtain k' v' where kv: "kv = (k', v')" by fastforce
  with Cons.prems have fresh: "map_of rest k' = None" and d: "distinct (map fst rest)"
    by (auto simp: map_of_eq_None_iff)
  show ?case
  proof (cases "k = k'")
    case True
    with Cons.IH [OF d] kv fresh show ?thesis by (simp add: py_get_dset)
  next
    case False
    with Cons.IH [OF d] kv show ?thesis by (simp add: py_get_dset split: option.splits)
  qed
qed

lemma apply_fields_set_simple:
  "\<forall>k \<in> set (map fst data). simple_key k \<Longrightarrow>
   apply_fields USet data d = Inr (fold (\<lambda>(k, v). dset k v) data d)"
  by (induction data arbitrary: d) (auto simp: simple_key_def split_dot_plain)

lemma apply_fields_unset_simple:
  "\<forall>k \<in> set (map fst data). simple_key k \<Longrightarrow>
   apply_fields UUnset data d = Inr (fold (\<lambda>(k, v). ddel k) data d)"
  by (induction data arbitrary: d) (auto simp: simple_key_def split_dot_plain)

lemma fold_dset_get:
  "distinct (map fst data) \<Longrightarrow>
   py_get (fold (\<lambda>(k, v). dset k v) data d) k =
     (case map_of data k of None \<Rightarrow> py_get d k | Some v \<Rightarrow> v)"
proof (induction data arbitrary: d)
  case (Cons kv rest)
  obtain k' v' where kv: "kv = (k', v')" by fastforce
  with Cons.prems have fresh: "map_of rest k' = None" and d: "distinct (map fst rest)"
    by (auto simp: map_of_eq_None_iff)
  show ?case
    using Cons.IH [OF d] kv fresh by (auto simp: py_get_dset split: option.splits)
qed simp

lemma wf_py_get: "wf_doc d \<Longrightarrow> wf_jval (py_get d k)"
  by (auto simp: py_get_def dest: wf_obj_map_of split: option.splits)

lemma agree_refl: "wf_doc d \<Longrightarrow> agree d d"
  by (simp add: agree_def py_eq_refl wf_py_get)

lemma agree_fresh: "agree [] [(''_id'', JInt gid)]"
  by (simp add: agree_def py_get_def)

lemma store_ok_append:
  "store_ok c \<Longrightarrow> dget c gid = None \<Longrightarrow> store_ok (c @ [(gid, [(''_id'', JInt gid)])])"
  by (auto simp: store_ok_def dget_append_fresh dget_def map_of_eq_None_iff split: option.splits if_splits)

lemma store_ok_dset:
  "store_ok c \<Longrightarrow> dget c gid = Some d \<Longrightarrow> dget d' ''_id'' = dget d ''_id'' \<Longrightarrow> wf_doc d' \<Longrightarrow>
   store_ok (dset gid d' c)"
  by (auto simp: store_ok_def dget_dset distinct_dset)

lemma get_settings_inv:
  assumes "settings_inv s" "get_settings gid s = (Inr b, s1)"
  shows "settings_inv s1 \<and> dget (guild_settings s1) gid = Some b \<and> wf_doc b \<and>
         (\<exists>d. dget (settings_coll s1) gid = Some d \<and> agree b d)"
proof -
  from assms(1) have ok: "store_ok (settings_coll s)" by (simp add: settings_inv_def)
  show ?thesis
  proof (cases rule: get_settings_cases [OF ok, of gid, case_names hit load fresh])
    case (hit b')
    with assms show ?thesis by (auto simp: settings_inv_def)
  next
    case (load d)
    with ok have wf: "wf_doc d" by (simp add: store_ok_def)
    with load assms show ?thesis
      by (auto simp: settings_inv_def dget_dset agree_refl)
  next
    case fresh
    have ok': "store_ok (settings_coll s @ [(gid, [(''_id'', JInt gid)])])"
      using ok fresh(1) by (rule store_ok_append)
    have rest: "wf_doc b' \<and> (\<exists>d. dget (settings_coll s @ [(gid, [(''_id'', JInt gid)])]) g = Some d \<and> agree b' d)"
      if "dget (dset gid [] (guild_settings s)) g = Some b'" "b' \<noteq> []" for g b'
    proof -
      from that have "dget (guild_settings s) g = Some b'"
        by (auto simp: dget_dset split: if_splits)
      with that(2) assms(1) obtain d where "wf_doc b'" "dget (settings_coll s) g = Some d" "agree b' d"
        by (auto simp: settings_inv_def)
      then show ?thesis by (auto simp: dget_append_fresh)
    qed
    from fresh assms(2) show ?thesis
      using ok' agree_fresh rest by (auto simp: settings_inv_def dget_dset dget_append_fresh)
  qed
qed

lemma fold_dset_map_of:
  "map_of (fold (\<lambda>(k, v). dset k v) data d) k =
     (case map_of (rev data) k of None \<Rightarrow> map_of d k | Some v \<Rightarrow> Some v)"
  by (induction data arbitrary: d) (auto simp: map_of_dset map_add_def split: option.splits)

lemma fold_dset_wf:
  "wf_doc d \<Longrightarrow> \<forall>v \<in> set (map snd data). wf_jval v \<Longrightarrow> wf_doc (fold (\<lambda>(k, v). dset k v) data d)"
  by (induction data arbitrary: d) (auto simp: distinct_dset wf_obj_dset)

lemma set_loop_wf:
  "wf_doc b \<Longrightarrow> \<forall>v \<in> set (map snd data). wf_jval v \<Longrightarrow> wf_doc (set_loop data b)"
  by (induction data arbitrary: b) (auto simp: distinct_dset wf_obj_dset)

lemma agree_set:
  assumes "agree b d" "distinct (map fst data)" "\<forall>v \<in> set (map snd data). wf_jval v"
  shows "agree (set_loop data b) (fold (\<lambda>(k, v). dset k v) data d)"
  unfolding agree_def
proof (intro allI impI)
  fix k assume "k \<noteq> ''_id''"
  with assms(1) have old: "py_eq (py_get b k) (py_get d k)" by (simp add: agree_def)
  show "py_eq (py_get (set_loop data b) k) (py_get (fold (\<lambda>(k, v). dset k v) data d) k)"
  proof (cases "map_of data k")
    case None
    with old assms(2) show ?thesis by (simp add: set_loop_get fold_dset_get)
  next
    case (Some v)
    then have "(k, v) \<in> set data" by (rule map_of_SomeD)
    with assms(3) have "wf_jval v" by force
    with Some assms(2) show ?thesis by (simp add: set_loop_get fold_dset_get py_eq_refl)
  qed
qed

lemma store_update_set_simple:
  assumes "dget (settings_coll s) gid = Some d" "\<forall>k \<in> set (map fst data). simple_key k"
  shows "store_update gid USet data s =
    (Inr (), s\<lparr>store_log := store_log s @ [UpdateOne gid USet],
               settings_coll := dset gid (fold (\<lambda>(k, v). dset k v) data d) (settings_coll s)\<rparr>)"
  using assms by (simp add: store_update_def log_call_def update_one_def apply_fields_set_simple Let_def)

lemma store_update_error:
  "fst (update_one gid op data (settings_coll s)) = Inl e \<Longrightarrow>
   store_update gid op data s = (Inl e, s\<lparr>store_log := store_log s @ [UpdateOne gid op]\<rparr>)"
  using update_one_error_atomic [of gid op data "settings_coll s" e]
  by (cases "update_one gid op data (settings_coll s)") (simp add: store_update_def log_call_def Let_def)

lemma update_settings_set_inv:
  assumes inv: "settings_inv s"
    and keys: "\<forall>k \<in> set (map fst data). simple_key k" "distinct (map fst data)"
    and vals: "\<forall>v \<in> set (map snd data). wf_jval v"
    and run: "update_settings gid data ''Set'' s = (r, s')"
  shows "settings_inv s' \<and> r = Inr ()"
proof -
  from inv have "store_ok (settings_coll s)" by (simp add: settings_inv_def)
  then obtain b s1 where g: "get_settings gid s = (Inr b, s1)"
    by (cases rule: get_settings_cases [of s gid]) auto
  with inv obtain d where inv1: "settings_inv s1" and wfb: "wf_doc b"
    and d: "dget (settings_coll s1) gid = Some d" and ag: "agree b d"
    using get_settings_inv by blast
  let ?b' = "set_loop data b" and ?d' = "fold (\<lambda>(k, v). dset k v) data d"
  have s': "s' = s1\<lparr>guild_settings := dset gid ?b' (guild_settings s1),
                    store_log := store_log s1 @ [UpdateOne gid USet],
                    settings_coll := dset gid ?d' (settings_coll s1)\<rparr>" and r: "r = Inr ()"
    using run g d keys(1) by (simp_all add: update_settings_def store_update_set_simple)
  from inv1 d have wfd: "wf_doc d" by (simp add: settings_inv_def store_ok_def)
  have "map_of (rev data) ''_id'' = None"
    using keys(1) by (force simp: map_of_eq_None_iff simple_key_def)
  then have idk: "map_of ?d' ''_id'' = map_of d ''_id''"
    by (simp add: fold_dset_map_of)
  have ok': "store_ok (settings_coll s')"
    using inv1 d idk fold_dset_wf [OF wfd vals] s'
    by (auto simp: settings_inv_def dget_def intro!: store_ok_dset [unfolded dget_def])
  have ag': "agree ?b' ?d'" using ag keys(2) vals by (rule agree_set)
  have wfb': "wf_doc ?b'" using wfb vals by (rule set_loop_wf)
  show ?thesis
    using inv1 ok' ag' wfb' r unfolding s'
    by (auto simp: settings_inv_def dget_dset)
qed

lemma get_settings_nonempty_hit:
  "dget (guild_settings s) g = Some b \<Longrightarrow> b \<noteq> [] \<Longrightarrow> get_settings g s = (Inr b, s)"
  by (simp add: get_settings_def)

lemma store_view_agree_refl:
  assumes ok: "store_ok (settings_coll s)"
  shows "agree (store_view s g) (store_view s g)"
proof (cases "dget (settings_coll s) g")
  case None
  then show ?thesis by (simp add: store_view_def agree_def py_get_def)
next
  case (Some d)
  with ok have "wf_doc d" by (simp add: store_ok_def)
  with Some show ?thesis by (simp add: store_view_def agree_refl)
qed

lemma agree_id_only: "agree [(''_id'', JInt gid)] []"
  by (simp add: agree_def py_get_def)

section \<open>Properties of the ConfigStore\<close>

text \<open>C6. A cache hit: when the cached dictionary of the guild is non-empty,
  \<^verbatim>\<open>get_settings\<close> returns it and changes nothing; in particular it makes no call
  on the store.\<close>

theorem get_settings_hit:
  "dget (guild_settings s) gid = Some b \<Longrightarrow> b \<noteq> [] \<Longrightarrow> get_settings gid s = (Inr b, s)"
  by (simp add: get_settings_def)

text \<open>C7. \<^verbatim>\<open>get_settings\<close> never raises when every stored document carries its
  \<^verbatim>\<open>_id\<close>: the insert of the miss branch only happens when the store has no
  document for the guild.\<close>

theorem get_settings_never_raises:
  "store_ok (settings_coll s) \<Longrightarrow> \<exists>b s'. get_settings gid s = (Inr b, s')"
  by (cases rule: get_settings_cases [of s gid]) auto

text \<open>C5. A guild never seen before: the first \<^verbatim>\<open>get_settings\<close> reads the store,
  inserts \<^verbatim>\<open>{"_id": gid}\<close> and returns \<^verbatim>\<open>{}\<close>; because the cached \<^verbatim>\<open>{}\<close> is falsy,
  the second call reads the store again and returns the stored document
  \<^verbatim>\<open>{"_id": gid}\<close>.  Two reads, one insert, and two different results.\<close>

theorem fresh_guild_two_gets:
  assumes "dget (guild_settings s) gid = None" "dget (settings_coll s) gid = None"
  shows "\<exists>s1 s2. get_settings gid s = (Inr [], s1) \<and>
           get_settings gid s1 = (Inr [(''_id'', JInt gid)], s2) \<and>
           store_log s2 = store_log s @ [FindOne gid, InsertOne gid, FindOne gid]"
proof -
  let ?s1 = "s\<lparr>settings_coll := settings_coll s @ [(gid, [(''_id'', JInt gid)])],
               guild_settings := dset gid [] (guild_settings s),
               store_log := store_log s @ [FindOne gid, InsertOne gid]\<rparr>"
  have first: "get_settings gid s = (Inr [], ?s1)"
    using assms by (simp add: get_settings_def load_settings_missing)
  have "dget (settings_coll ?s1) gid = Some [(''_id'', JInt gid)]"
    using assms(2) by (simp add: dget_append_fresh)
  then have "get_settings gid ?s1 =
      (Inr [(''_id'', JInt gid)], ?s1\<lparr>guild_settings := dset gid [(''_id'', JInt gid)] (guild_settings ?s1),
                                      store_log := store_log ?s1 @ [FindOne gid]\<rparr>)"
    by (simp add: get_settings_def dget_dset load_settings_found)
  with first show ?thesis by auto
qed

text \<open>C4. Write-through of \<^verbatim>\<open>Set\<close>: after \<^verbatim>\<open>update_settings(gid, {k: v}, "Set")\<close>
  the next \<^verbatim>\<open>get_settings(gid)\<close> is a cache hit whose value at \<open>k\<close> equals \<open>v\<close> in
  Python's sense, whether or not \<open>v\<close> equalled the old value and whether or not the
  store write succeeded.  (\<open>v\<close> is not \<^verbatim>\<open>None\<close>: writing \<^verbatim>\<open>None\<close> into an empty
  cached dictionary leaves it empty, and the next read goes to the store.)\<close>

theorem set_then_get_reflects:
  assumes "store_ok (settings_coll s)" "wf_jval v" "v \<noteq> JNull"
    and "update_settings gid [(k, v)] ''Set'' s = (r, s1)"
  shows "\<exists>b. get_settings gid s1 = (Inr b, s1) \<and> py_eq (py_get b k) v"
proof -
  obtain b0 s0 where g: "get_settings gid s = (Inr b0, s0)"
    using assms(1) by (cases rule: get_settings_cases [of s gid]) auto
  let ?b = "if \<not> py_eq (py_get b0 k) v then dset k v b0 else b0"
  have s1: "guild_settings s1 = dset gid ?b (guild_settings s0)"
    using assms(4) g
    by (auto simp: update_settings_def store_update_def log_call_def Let_def split: prod.splits sum.splits)
  have ne: "?b \<noteq> []"
    using assms(3) by (auto simp: dset_ne py_get_def)
  have eq: "py_eq (py_get ?b k) v"
    using assms(2) by (simp add: py_get_dset py_eq_refl)
  from s1 ne have "get_settings gid s1 = (Inr ?b, s1)"
    by (simp add: get_settings_def dget_dset)
  with eq show ?thesis by blast
qed

text \<open>C10. \<^verbatim>\<open>Delete\<close> does not keep the cache coherent: a key whose cached value
  equals the value passed in is kept in the cache, while \<^verbatim>\<open>$unset\<close> removes it from
  the store.  A concrete coherent state and call.\<close>

theorem delete_breaks_coherence:
  assumes inv: "settings_inv s"
    and cached: "dget (guild_settings s) g = Some b" "b \<noteq> []"
    and k: "simple_key k" and v: "py_eq (py_get b k) v" "v \<noteq> JNull"
  shows "\<exists>s' d'. update_settings g [(k, v)] ''Delete'' s = (Inr (), s') \<and>
           dget (guild_settings s') g = Some b \<and> dget (settings_coll s') g = Some d' \<and>
           py_get d' k = JNull \<and> \<not> settings_inv s'"
proof -
  from inv cached obtain d where d: "dget (settings_coll s) g = Some d" "agree b d"
    by (auto simp: settings_inv_def)
  from inv d(1) have dist: "distinct (map fst d)" by (simp add: settings_inv_def store_ok_def)
  have hit: "py_get b k \<noteq> JNull" using v by auto
  have g: "get_settings g s = (Inr b, s)" using cached by (simp add: get_settings_def)
  have cache: "dset g b (guild_settings s) = guild_settings s"
    using cached by (simp add: dget_def dset_same)
  define s' where "s' = s\<lparr>store_log := store_log s @ [UpdateOne g UUnset],
                          settings_coll := dset g (ddel k d) (settings_coll s)\<rparr>"
  have "apply_fields UUnset [(k, v)] d = Inr (ddel k d)"
    using k apply_fields_unset_simple [of "[(k, v)]" d] by simp
  from update_one_applied [OF d(1) this] obtain r where
    uo: "update_one g UUnset [(k, v)] (settings_coll s) = (Inr r, dset g (ddel k d) (settings_coll s))"
    by blast
  have upd: "update_settings g [(k, v)] ''Delete'' s = (Inr (), s')"
    using g v cache uo by (simp add: update_settings_def store_update_def log_call_def s'_def Let_def)
  have gone: "py_get (ddel k d) k = JNull" using dist by (simp add: py_get_def map_of_ddel)
  have c': "dget (guild_settings s') g = Some b" using cached by (simp add: s'_def)
  have d': "dget (settings_coll s') g = Some (ddel k d)" by (simp add: s'_def dget_dset)
  have "\<not> settings_inv s'"
  proof
    assume "settings_inv s'"
    then have "\<exists>d0. dget (settings_coll s') g = Some d0 \<and> agree b d0"
      using c' cached(2) unfolding settings_inv_def by blast
    with d' have "agree b (ddel k d)" by auto
    with k gone have "py_eq (py_get b k) JNull" by (auto simp: agree_def simple_key_def)
    with hit show False by (cases "py_get b k") auto
  qed
  with upd c' d' gone show ?thesis by blast
qed

text \<open>C11. \<^verbatim>\<open>Delete\<close> of a key that is not in the cached dictionary, with a value
  other than \<^verbatim>\<open>None\<close>, raises \<^verbatim>\<open>KeyError\<close> from \<^verbatim>\<open>del\<close> before the store is
  written: the call fails and nothing changes, not even the store log.\<close>

theorem delete_missing_key_raises:
  assumes "dget (guild_settings s) gid = Some b" "b \<noteq> []" "k \<notin> set (map fst b)" "v \<noteq> JNull"
  shows "update_settings gid [(k, v)] ''Delete'' s = (Inl KeyError, s)"
proof -
  have "map_of b k = None" using assms(3) by (simp add: map_of_eq_None_iff)
  then have "py_get b k = JNull" by (simp add: py_get_def)
  with assms(4) have "\<not> py_eq (py_get b k) v" by simp
  with assms show ?thesis
    by (simp add: update_settings_def get_settings_def dset_same [unfolded dget_def] dget_def)
qed

text \<open>C9. The cache settles: from any state whose stored documents carry their \<^verbatim>\<open>_id\<close>,
  after at most two \<^verbatim>\<open>get_settings(g)\<close> calls the cached dictionary of \<open>g\<close> is non-empty,
  and the next call is a hit that changes nothing and makes no store call.\<close>

theorem get_settings_settles:
  assumes "store_ok (settings_coll s)"
  shows "\<exists>b. b \<noteq> [] \<and>
    get_settings g (snd (get_settings g (snd (get_settings g s)))) =
      (Inr b, snd (get_settings g (snd (get_settings g s))))"
proof (cases rule: get_settings_cases [OF assms, of g, case_names hit load fresh])
  case (hit b)
  then show ?thesis by auto
next
  case (load d)
  then show ?thesis by (auto simp: get_settings_nonempty_hit dget_dset)
next
  case fresh
  let ?s1 = "snd (get_settings g s)"
  have ok1: "store_ok (settings_coll ?s1)" using fresh assms by (simp add: store_ok_append)
  have d1: "dget (settings_coll ?s1) g = Some [(''_id'', JInt g)]"
    using fresh by (simp add: dget_append_fresh)
  then show ?thesis
  proof (cases rule: get_settings_cases [OF ok1, of g, case_names hit load fresh])
    case (hit b)
    then show ?thesis by auto
  next
    case (load d)
    then show ?thesis by (auto simp: get_settings_nonempty_hit dget_dset)
  next
    case fresh
    with d1 show ?thesis by simp
  qed
qed

text \<open>C12. The cache is written before the store: when \<^verbatim>\<open>collection.update_one\<close> rejects
  the \<^verbatim>\<open>$set\<close> (a \<^verbatim>\<open>WriteError\<close>, e.g. a dotted key through a field that is not a
  document), \<^verbatim>\<open>update_settings\<close> raises that error, but the cached dictionary already
  holds the result of the \<^verbatim>\<open>Set\<close> loop while the stored document is unchanged.\<close>

theorem update_settings_store_error:
  assumes "get_settings g s = (Inr b, s1)"
    and "fst (update_one g USet data (settings_coll s1)) = Inl e"
  shows "update_settings g data ''Set'' s =
           (Inl e, s1\<lparr>guild_settings := dset g (set_loop data b) (guild_settings s1),
                    store_log := store_log s1 @ [UpdateOne g USet]\<rparr>)"
  using assms store_update_error [of g USet data "s1\<lparr>guild_settings := dset g (set_loop data b) (guild_settings s1)\<rparr>" e]
  by (simp add: update_settings_def)

text \<open>C13. \<^verbatim>\<open>get_lang\<close> needs the \<^verbatim>\<open>EN\<close> table even when it does not use it: the default
  argument \<^verbatim>\<open>langs["EN"]\<close> of \<^verbatim>\<open>langs.get\<close> is evaluated before the lookup, so without an
  \<^verbatim>\<open>EN\<close> table every call raises \<^verbatim>\<open>KeyError\<close>, whatever language the guild has set and
  whatever that table holds.\<close>

theorem get_lang_requires_en:
  assumes "store_ok (settings_coll s)" "dget langs ''EN'' = None"
  shows "fst (get_lang langs g key s) = Inl KeyError"
  using assms by (cases rule: get_settings_cases [of s g]) (simp_all add: get_lang_def)

text \<open>C8. The cache refines the specification's ConfigStore: from any coherent state,
  \<^verbatim>\<open>get_settings\<close> returns, up to Python equality and the \<^verbatim>\<open>_id\<close> field, the bag the
  abstract store holds for the tenant (its document, or the empty bag), keeps the cache
  coherent, and leaves the abstract store unchanged for every tenant.\<close>

theorem get_settings_refines:
  assumes inv: "settings_inv s"
  shows "\<exists>b s'. get_settings gid s = (Inr b, s') \<and> agree b (store_view s gid) \<and> settings_inv s' \<and>
           (\<forall>g. agree (store_view s' g) (store_view s g))"
proof -
  from inv have ok: "store_ok (settings_coll s)" by (simp add: settings_inv_def)
  then obtain b s' where g: "get_settings gid s = (Inr b, s')"
    by (cases rule: get_settings_cases [of s gid]) auto
  from get_settings_inv [OF inv g] obtain d where inv': "settings_inv s'" and wf: "wf_doc b"
    and d: "dget (settings_coll s') gid = Some d" "agree b d" by blast
  show ?thesis
  proof (cases rule: get_settings_cases [OF ok, of gid, case_names hit load fresh])
    case (hit b')
    with g d have "agree b (store_view s gid)" by (simp add: store_view_def)
    with hit g ok inv show ?thesis by (auto simp: store_view_agree_refl)
  next
    case (load d')
    with g wf have "agree b (store_view s gid)" by (simp add: store_view_def agree_refl)
    moreover have "store_view s' = store_view s" using load g by (auto simp: store_view_def)
    ultimately show ?thesis using g inv' ok by (auto simp: store_view_agree_refl)
  next
    case fresh
    with g have b: "b = []" and s': "settings_coll s' = settings_coll s @ [(gid, [(''_id'', JInt gid)])]" by auto
    have "agree (store_view s' g) (store_view s g)" for g
    proof (cases "g = gid")
      case True
      with fresh s' show ?thesis by (simp add: store_view_def dget_append_fresh agree_id_only)
    next
      case False
      with s' have "store_view s' g = store_view s g"
        by (auto simp: store_view_def dget_def map_add_def split: option.splits)
      with ok show ?thesis by (simp add: store_view_agree_refl)
    qed
    moreover have "agree b (store_view s gid)" using b fresh by (simp add: store_view_def agree_def py_get_def)
    ultimately show ?thesis using g inv' by blast
  qed
qed

section \<open>Witnesses\<close>

text \<open>The hypotheses of the properties above hold together at concrete states.\<close>

theorem get_settings_hit_witness:
  "dget (guild_settings \<lparr>guild_settings = [(7, [(''lang'', JStr ''FR'')])], settings_coll = [],
                          store_log = []\<rparr>) 7 = Some [(''lang'', JStr ''FR'')] \<and>
   [(''lang'', JStr ''FR'')] \<noteq> [] \<and>
   get_settings 7 \<lparr>guild_settings = [(7, [(''lang'', JStr ''FR'')])], settings_coll = [], store_log = []\<rparr> =
     (Inr [(''lang'', JStr ''FR'')],
      \<lparr>guild_settings = [(7, [(''lang'', JStr ''FR'')])], settings_coll = [], store_log = []\<rparr>)"
  using get_settings_hit [of "\<lparr>guild_settings = [(7, [(''lang'', JStr ''FR'')])], settings_coll = [],
                               store_log = []\<rparr>" 7 "[(''lang'', JStr ''FR'')]"]
  by (simp add: dget_def)

theorem get_settings_never_raises_witness:
  "store_ok (settings_coll \<lparr>guild_settings = [], settings_coll = [], store_log = []\<rparr>) \<and>
   (\<exists>b s'. get_settings 7 \<lparr>guild_settings = [], settings_coll = [], store_log = []\<rparr> = (Inr b, s'))"
proof -
  have ok: "store_ok (settings_coll \<lparr>guild_settings = [], settings_coll = [], store_log = []\<rparr>)"
    by (simp add: store_ok_def dget_def)
  show ?thesis using ok get_settings_never_raises [OF ok, of 7] by simp
qed

theorem fresh_guild_two_gets_witness:
  "dget (guild_settings \<lparr>guild_settings = [], settings_coll = [], store_log = []\<rparr>) 7 = None \<and>
   dget (settings_coll \<lparr>guild_settings = [], settings_coll = [], store_log = []\<rparr>) 7 = None \<and>
   (\<exists>s1 s2. get_settings 7 \<lparr>guild_settings = [], settings_coll = [], store_log = []\<rparr> = (Inr [], s1) \<and>
      get_settings 7 s1 = (Inr [(''_id'', JInt 7)], s2) \<and>
      store_log s2 = [FindOne 7, InsertOne 7, FindOne 7])"
  using fresh_guild_two_gets [of "\<lparr>guild_settings = [], settings_coll = [], store_log = []\<rparr>" 7]
  by (simp add: dget_def)

theorem set_then_get_reflects_witness:
  "store_ok (settings_coll \<lparr>guild_settings = [], settings_coll = [], store_log = []\<rparr>) \<and>
   wf_jval (JStr ''FR'') \<and> JStr ''FR'' \<noteq> JNull \<and>
   (\<exists>b. get_settings 7 (snd (update_settings 7 [(''lang'', JStr ''FR'')] ''Set''
                               \<lparr>guild_settings = [], settings_coll = [], store_log = []\<rparr>)) =
          (Inr b, snd (update_settings 7 [(''lang'', JStr ''FR'')] ''Set''
                               \<lparr>guild_settings = [], settings_coll = [], store_log = []\<rparr>)) \<and>
        py_eq (py_get b ''lang'') (JStr ''FR''))"
proof -
  have ok: "store_ok (settings_coll \<lparr>guild_settings = [], settings_coll = [], store_log = []\<rparr>)"
    by (simp add: store_ok_def dget_def)
  show ?thesis
    using ok set_then_get_reflects [OF ok, of "JStr ''FR''" 7 "''lang''"
      "fst (update_settings 7 [(''lang'', JStr ''FR'')] ''Set''
              \<lparr>guild_settings = [], settings_coll = [], store_log = []\<rparr>)"
      "snd (update_settings 7 [(''lang'', JStr ''FR'')] ''Set''
              \<lparr>guild_settings = [], settings_coll = [], store_log = []\<rparr>)"]
    by simp
qed

theorem delete_missing_key_raises_witness:
  "dget (guild_settings \<lparr>guild_settings = [(7, [(''lang'', JStr ''FR'')])], settings_coll = [],
                          store_log = []\<rparr>) 7 = Some [(''lang'', JStr ''FR'')] \<and>
   [(''lang'', JStr ''FR'')] \<noteq> [] \<and> ''dj'' \<notin> set (map fst [(''lang'', JStr ''FR'')]) \<and> JInt 1 \<noteq> JNull \<and>
   update_settings 7 [(''dj'', JInt 1)] ''Delete''
     \<lparr>guild_settings = [(7, [(''lang'', JStr ''FR'')])], settings_coll = [], store_log = []\<rparr> =
     (Inl KeyError, \<lparr>guild_settings = [(7, [(''lang'', JStr ''FR'')])], settings_coll = [], store_log = []\<rparr>)"
  using delete_missing_key_raises [of "\<lparr>guild_settings = [(7, [(''lang'', JStr ''FR'')])], settings_coll = [],
      store_log = []\<rparr>" 7 "[(''lang'', JStr ''FR'')]" "''dj''" "JInt 1"]
  by (simp add: dget_def)

theorem get_settings_settles_witness:
  "store_ok (settings_coll \<lparr>guild_settings = [], settings_coll = [], store_log = []\<rparr>) \<and>
   (\<exists>b. b \<noteq> [] \<and>
     get_settings 3 (snd (get_settings 3 (snd (get_settings 3 \<lparr>guild_settings = [], settings_coll = [], store_log = []\<rparr>)))) =
       (Inr b, snd (get_settings 3 (snd (get_settings 3 \<lparr>guild_settings = [], settings_coll = [], store_log = []\<rparr>)))))"
proof -
  have h: "store_ok (settings_coll \<lparr>guild_settings = [], settings_coll = [], store_log = []\<rparr>)"
    by (simp add: store_ok_def dget_def)
  show ?thesis using h get_settings_settles [OF h, of 3] by blast
qed


theorem update_settings_store_error_witness:
  "get_settings 1 \<lparr>guild_settings = [(1, [(''_id'', JInt 1), (''vol'', JInt 5)])],
       settings_coll = [(1, [(''_id'', JInt 1), (''vol'', JInt 5)])], store_log = []\<rparr> =
     (Inr [(''_id'', JInt 1), (''vol'', JInt 5)],
      \<lparr>guild_settings = [(1, [(''_id'', JInt 1), (''vol'', JInt 5)])],
       settings_coll = [(1, [(''_id'', JInt 1), (''vol'', JInt 5)])], store_log = []\<rparr>) \<and>
   fst (update_one (1::int) USet [(''vol.x'', JInt 1)] [(1, [(''_id'', JInt 1), (''vol'', JInt 5)])]) = Inl WriteError \<and>
   update_settings 1 [(''vol.x'', JInt 1)] ''Set''
     \<lparr>guild_settings = [(1, [(''_id'', JInt 1), (''vol'', JInt 5)])],
      settings_coll = [(1, [(''_id'', JInt 1), (''vol'', JInt 5)])], store_log = []\<rparr> =
   (Inl WriteError,
    \<lparr>guild_settings = [(1, [(''_id'', JInt 1), (''vol'', JInt 5), (''vol.x'', JInt 1)])],
     settings_coll = [(1, [(''_id'', JInt 1), (''vol'', JInt 5)])], store_log = [UpdateOne 1 USet]\<rparr>)"
proof -
  have h: "get_settings 1 \<lparr>guild_settings = [(1, [(''_id'', JInt 1), (''vol'', JInt 5)])],
       settings_coll = [(1, [(''_id'', JInt 1), (''vol'', JInt 5)])], store_log = []\<rparr> =
     (Inr [(''_id'', JInt 1), (''vol'', JInt 5)],
      \<lparr>guild_settings = [(1, [(''_id'', JInt 1), (''vol'', JInt 5)])],
       settings_coll = [(1, [(''_id'', JInt 1), (''vol'', JInt 5)])], store_log = []\<rparr>)"
    "fst (update_one 1 USet [(''vol.x'', JInt 1)]
       (settings_coll \<lparr>guild_settings = [(1, [(''_id'', JInt 1), (''vol'', JInt 5)])],
          settings_coll = [(1, [(''_id'', JInt 1), (''vol'', JInt 5)])], store_log = []\<rparr>)) = Inl WriteError"
    by (simp_all add: get_settings_def dget_def update_one_def)
  show ?thesis using h update_settings_store_error [OF h]
    by (simp add: py_get_def)
qed


theorem get_lang_requires_en_witness:
  "store_ok [] \<and> dget [(''FR'', [(''noChannel'', ''Rejoignez un salon'')])] ''EN'' = None \<and>
   fst (get_lang [(''FR'', [(''noChannel'', ''Rejoignez un salon'')])] 1 ''noChannel''
     \<lparr>guild_settings = [(1, [(''lang'', JStr ''FR'')])], settings_coll = [], store_log = []\<rparr>) = Inl KeyError"
proof -
  have h: "store_ok (settings_coll \<lparr>guild_settings = [(1::int, [(''lang'', JStr ''FR'')])], settings_coll = [], store_log = []\<rparr>)"
    "dget [(''FR'', [(''noChannel'', ''Rejoignez un salon'')])] ''EN'' = None"
    by (simp_all add: store_ok_def dget_def)
  show ?thesis using h get_lang_requires_en [OF h] by simp
qed


theorem get_settings_refines_witness:
  "settings_inv \<lparr>guild_settings = [], settings_coll = [(1, [(''_id'', JInt 1), (''lang'', JStr ''FR'')])], store_log = []\<rparr> \<and>
   (\<exists>b s'. get_settings 1 \<lparr>guild_settings = [], settings_coll = [(1, [(''_id'', JInt 1), (''lang'', JStr ''FR'')])], store_log = []\<rparr> = (Inr b, s') \<and>
      agree b (store_view \<lparr>guild_settings = [], settings_coll = [(1, [(''_id'', JInt 1), (''lang'', JStr ''FR'')])], store_log = []\<rparr> 1) \<and>
      settings_inv s' \<and>
      (\<forall>g. agree (store_view s' g) (store_view \<lparr>guild_settings = [], settings_coll = [(1, [(''_id'', JInt 1), (''lang'', JStr ''FR'')])], store_log = []\<rparr> g)))"
proof -
  have h: "settings_inv \<lparr>guild_settings = [], settings_coll = [(1, [(''_id'', JInt 1), (''lang'', JStr ''FR'')])], store_log = []\<rparr>"
    by (simp add: settings_inv_def store_ok_def dget_def)
  show ?thesis using h get_settings_refines [OF h, of 1] by blast
qed


theorem delete_breaks_coherence_witness:
  "settings_inv \<lparr>guild_settings = [(1, [(''_id'', JInt 1), (''dj'', JInt 5)])],
                 settings_coll = [(1, [(''_id'', JInt 1), (''dj'', JInt 5)])], store_log = []\<rparr> \<and>
   dget [(1::int, [(''_id'', JInt 1), (''dj'', JInt 5)])] 1 = Some [(''_id'', JInt 1), (''dj'', JInt 5)] \<and>
   [(''_id'', JInt 1), (''dj'', JInt 5)] \<noteq> [] \<and> simple_key ''dj'' \<and>
   py_eq (py_get [(''_id'', JInt 1), (''dj'', JInt 5)] ''dj'') (JInt 5) \<and> JInt 5 \<noteq> JNull \<and>
   (\<exists>s' d'. update_settings 1 [(''dj'', JInt 5)] ''Delete''
        \<lparr>guild_settings = [(1, [(''_id'', JInt 1), (''dj'', JInt 5)])],
         settings_coll = [(1, [(''_id'', JInt 1), (''dj'', JInt 5)])], store_log = []\<rparr> = (Inr (), s') \<and>
      dget (guild_settings s') 1 = Some [(''_id'', JInt 1), (''dj'', JInt 5)] \<and>
      dget (settings_coll s') 1 = Some d' \<and> py_get d' ''dj'' = JNull \<and> \<not> settings_inv s')"
proof -
  have h: "settings_inv \<lparr>guild_settings = [(1, [(''_id'', JInt 1), (''dj'', JInt 5)])],
                 settings_coll = [(1, [(''_id'', JInt 1), (''dj'', JInt 5)])], store_log = []\<rparr>"
    "dget (guild_settings \<lparr>guild_settings = [(1::int, [(''_id'', JInt 1), (''dj'', JInt 5)])],
                 settings_coll = [(1, [(''_id'', JInt 1), (''dj'', JInt 5)])], store_log = []\<rparr>) 1 =
       Some [(''_id'', JInt 1), (''dj'', JInt 5)]"
    "[(''_id'', JInt 1), (''dj'', JInt 5)] \<noteq> []" "simple_key ''dj''"
    "py_eq (py_get [(''_id'', JInt 1), (''dj'', JInt 5)] ''dj'') (JInt 5)" "JInt 5 \<noteq> JNull"
    by (simp_all add: settings_inv_def store_ok_def agree_def dget_def py_get_def simple_key_def)
  show ?thesis using h delete_breaks_coherence [OF h] by simp
qed

end
