(* ===== verification/Playlist.thy ===== *)
theory Playlist
  imports Mongo
begin

text \<open>
  PlaylistStore and AccountProvisioner: \<^verbatim>\<open>create_account\<close>, \<^verbatim>\<open>get_playlist\<close>,
  \<^verbatim>\<open>update_playlist\<close>, \<^verbatim>\<open>update_inbox\<close> and \<^verbatim>\<open>checkroles\<close> of
  \<^verbatim>\<open>src/function.py\<close> (lines 132--179).  The state is the MongoDB collection
  \<^verbatim>\<open>Playlist\<close> (user id to document); there is no cache.  The confirmation dialog of
  \<^verbatim>\<open>create_account\<close> (embed, \<^verbatim>\<open>CreateView\<close>, \<^verbatim>\<open>view.wait()\<close>) is an external
  collaborator: the model takes the author's id, if there is an author, and the value
  \<^verbatim>\<open>view.value\<close> the dialog ended with (\<^verbatim>\<open>None\<close> on a timeout).
\<close>

type_synonym playlists = "int collection"

section \<open>AccountProvisioner\<close>

text \<open>The document inserted for a new user (line 148).\<close>

definition default_playlist_doc :: "int \<Rightarrow> doc" where
  "default_playlist_doc uid =
     [(''_id'', JInt uid),
      (''playlist'', JObj [(''200'', JObj [(''tracks'', JArr []),
                                          (''perms'', JObj [(''read'', JArr []), (''write'', JArr []),
                                                            (''remove'', JArr [])]),
                                          (''name'', JStr ''Favourite''),
                                          (''type'', JStr ''playlist'')])]),
      (''inbox'', JArr [])]"

text \<open>Lines 133--150: no author, or a dialog that did not end with a truthy value,
  creates nothing; an error of the insert (a duplicate \<^verbatim>\<open>_id\<close>) is swallowed.\<close>

definition create_account :: "int option \<Rightarrow> jval \<Rightarrow> playlists \<Rightarrow> playlists" where
  "create_account author view_value c =
     (case author of
        None \<Rightarrow> c
      | Some uid \<Rightarrow>
          (if py_truthy view_value
           then snd (insert_one uid (default_playlist_doc uid) c)
           else c))"

section \<open>PlaylistStore\<close>

text \<open>Lines 152--160.  \<^verbatim>\<open>find_one(..., {"_id": 0})\<close> drops the \<^verbatim>\<open>_id\<close> field; an empty
  result is falsy; \<^verbatim>\<open>user[dType]\<close> raises \<^verbatim>\<open>KeyError\<close> for a missing field.  \<open>None\<close>
  in the result is Python's \<^verbatim>\<open>None\<close>.\<close>

definition playlist_entry :: "doc \<Rightarrow> string \<Rightarrow> string \<Rightarrow> py_exc + jval option" where
  "playlist_entry user t i =
     (case py_getitem (JObj user) t of
        Inl e \<Rightarrow> Inl e
      | Inr sub \<Rightarrow>
          (case py_in i sub of
             Inl e \<Rightarrow> Inl e
           | Inr True \<Rightarrow> (case py_getitem sub i of Inl e \<Rightarrow> Inl e | Inr v \<Rightarrow> Inr (Some v))
           | Inr False \<Rightarrow> Inr None))"

definition get_playlist ::
  "int \<Rightarrow> string option \<Rightarrow> string option \<Rightarrow> playlists \<Rightarrow> py_exc + jval option" where
  "get_playlist userid dType dId c =
     (case find_one c userid of
        None \<Rightarrow> Inr None
      | Some d \<Rightarrow>
          (let user = ddel ''_id'' d;
               field = (\<lambda>t. case py_getitem (JObj user) t of Inl e \<Rightarrow> Inl e | Inr v \<Rightarrow> Inr (Some v))
           in if user = [] then Inr None
              else (case dType of
                      None \<Rightarrow> Inr (Some (JObj user))
                    | Some t \<Rightarrow>
                        (if t = [] then Inr (Some (JObj user))
                         else (case dId of
                                 Some i \<Rightarrow>
                                   (if i \<noteq> [] \<and> t = ''playlist'' then playlist_entry user t i
                                    else field t)
                               | None \<Rightarrow> field t)))))"

text \<open>Lines 162--171: the four shapes.  \<^verbatim>\<open>mode is True\<close> is an identity test: only the
  object \<^verbatim>\<open>True\<close> selects the first branch, so another truthy mode (\<^verbatim>\<open>1\<close>, a string) takes
  the \<^verbatim>\<open>else\<close> branch; \<^verbatim>\<open>if push\<close> and \<^verbatim>\<open>if pull\<close> test truthiness.  \<^verbatim>\<open>$push\<close> and \<^verbatim>\<open>$pull\<close> return the
  \<^verbatim>\<open>UpdateResult\<close>; \<^verbatim>\<open>$set\<close> and \<^verbatim>\<open>$unset\<close> return \<^verbatim>\<open>None\<close>.  Errors of the store
  propagate to the caller.\<close>

definition update_playlist ::
  "int \<Rightarrow> (string, jval) pydict \<Rightarrow> jval \<Rightarrow> jval \<Rightarrow> jval \<Rightarrow> playlists
   \<Rightarrow> (py_exc + update_result option) \<times> playlists" where
  "update_playlist userid data push pull mode c =
     (let op = (if mode = JBool True then (if py_truthy push then UPush else USet)
                else (if py_truthy pull then UPull else UUnset));
          (r, c') = update_one userid op data c
      in (case r of
            Inl e \<Rightarrow> (Inl e, c')
          | Inr res \<Rightarrow> (Inr (if op = UPush \<or> op = UPull then Some res else None), c')))"

text \<open>Line 174: append one entry to the user's inbox.\<close>

definition update_inbox :: "int \<Rightarrow> jval \<Rightarrow> playlists \<Rightarrow> (py_exc + update_result) \<times> playlists" where
  "update_inbox userid data c = update_one userid UPush [(''inbox'', data)] c"

text \<open>Lines 176--179: every user has the same plan.\<close>

definition checkroles :: "int \<Rightarrow> string \<times> nat \<times> nat" where
  "checkroles userid = (''Normal'', 5, 500)"

section \<open>Properties\<close>

text \<open>C14. Provisioning a new user twice (dialog accepted) leaves exactly one document for the
  user, and its \<^verbatim>\<open>playlist\<close> field holds exactly the playlist \<^verbatim>\<open>"200"\<close>, the empty
  \<^verbatim>\<open>Favourite\<close>.\<close>

theorem create_account_twice_single_doc:
  assumes "dget c uid = None" "py_truthy v"
  shows "length (filter (\<lambda>p. fst p = uid) (create_account (Some uid) v (create_account (Some uid) v c))) = 1 \<and>
         get_playlist uid (Some ''playlist'') None (create_account (Some uid) v (create_account (Some uid) v c)) =
           Inr (Some (JObj [(''200'', JObj [(''tracks'', JArr []),
                                          (''perms'', JObj [(''read'', JArr []), (''write'', JArr []),
                                                            (''remove'', JArr [])]),
                                          (''name'', JStr ''Favourite''),
                                          (''type'', JStr ''playlist'')])]))"
proof -
  have c1: "create_account (Some uid) v c = c @ [(uid, default_playlist_doc uid)]"
    using assms by (simp add: create_account_def insert_one_fresh)
  have c2: "create_account (Some uid) v (c @ [(uid, default_playlist_doc uid)]) = c @ [(uid, default_playlist_doc uid)]"
    using assms(2) by (simp add: create_account_def insert_one_def)
  have "uid \<notin> set (map fst c)" using assms(1) by (simp add: dget_def map_of_eq_None_iff)
  then have cnt: "length (filter (\<lambda>p. fst p = uid) (c @ [(uid, default_playlist_doc uid)])) = 1"
    by (force simp: filter_empty_conv)
  have "find_one (c @ [(uid, default_playlist_doc uid)]) uid = Some (default_playlist_doc uid)"
    using assms(1) by (simp add: find_one_def dget_append_fresh)
  then show ?thesis using c1 c2 cnt
    by (simp add: get_playlist_def default_playlist_doc_def)
qed

text \<open>A declined or timed-out dialog (a falsy \<^verbatim>\<open>view.value\<close>) creates nothing.\<close>

theorem create_account_declined: "\<not> py_truthy v \<Longrightarrow> create_account a v c = c"
  by (cases a) (simp_all add: create_account_def)

text \<open>C15. \<^verbatim>\<open>update_playlist(..., push=True)\<close> on an existing array field appends the value
  (or the values of a \<^verbatim>\<open>$each\<close>) and returns the store's update result, which matched the
  user's document.\<close>

theorem update_playlist_push_appends:
  assumes "find_one c uid = Some d" "wf_doc d" "[] \<notin> set (split_dot k)" "hd (split_dot k) \<noteq> ''_id''"
    and "get_path (split_dot k) d = Some (JArr xs)"
  shows "\<exists>res d'. update_playlist uid [(k, v)] (JBool True) (JBool False) (JBool True) c = (Inr (Some res), dset uid d' c) \<and>
           matched_count res = 1 \<and> get_path (split_dot k) d' = Some (JArr (xs @ push_values v))"
proof -
  obtain d' where m: "modify_path (push_leaf v) True (split_dot k) d = Inr d'"
    using modify_path_existing [OF assms(5) assms(3), of "push_leaf v"] by auto
  have "push_leaf v (get_path (split_dot k) d) = Inr (get_path (split_dot k) d')"
    using modify_path_get [OF m assms(2)] by simp
  with assms(5) have g: "get_path (split_dot k) d' = Some (JArr (xs @ push_values v))" by simp
  from m have "update_one uid UPush [(k, v)] c = (Inr (UpdateResult 1 (if d' = d then 0 else 1)), dset uid d' c)"
    using update_one_single [OF assms(1) assms(4)] by simp
  with g show ?thesis by (simp add: update_playlist_def) blast
qed

text \<open>C16. \<^verbatim>\<open>mode is True\<close> is an identity test: any other mode, truthy ones such as \<^verbatim>\<open>1\<close> or
  \<^verbatim>\<open>"Set"\<close> included, takes the deleting branch, and with a falsy \<^verbatim>\<open>pull\<close> the call
  \<^verbatim>\<open>$unset\<close>s the given fields and returns \<^verbatim>\<open>None\<close>.\<close>

theorem update_playlist_mode_not_true_unsets:
  assumes "mode \<noteq> JBool True" "\<not> py_truthy pull"
  shows "update_playlist uid data push pull mode c =
           (case update_one uid UUnset data c of
              (Inl e, c') \<Rightarrow> (Inl e, c')
            | (Inr _, c') \<Rightarrow> (Inr None, c'))"
  using assms by (simp add: update_playlist_def split: prod.splits sum.splits)

text \<open>\<^verbatim>\<open>update_playlist\<close> in plain set mode returns \<^verbatim>\<open>None\<close> and the value is stored at
  the dotted path, whenever the path can be created.\<close>

theorem update_playlist_set_writes:
  assumes "find_one c uid = Some d" "wf_doc d" "path_clear (split_dot k) d" "hd (split_dot k) \<noteq> ''_id''"
  shows "\<exists>d'. update_playlist uid [(k, v)] (JBool False) (JBool False) (JBool True) c = (Inr None, dset uid d' c) \<and>
           get_path (split_dot k) d' = Some v"
proof -
  obtain d' where m: "modify_path (\<lambda>_. Inr (Some v)) True (split_dot k) d = Inr d'"
    using modify_path_clear [OF assms(3), of "\<lambda>_. Inr (Some v)"] by auto
  have g: "get_path (split_dot k) d' = Some v"
    using modify_path_get [OF m assms(2)] by simp
  from m have "update_one uid USet [(k, v)] c = (Inr (UpdateResult 1 (if d' = d then 0 else 1)), dset uid d' c)"
    using update_one_single [OF assms(1) assms(4)] by simp
  with g show ?thesis by (simp add: update_playlist_def) blast
qed

text \<open>\<^verbatim>\<open>update_playlist(..., pull=True, mode=False)\<close> removes every element equal to the
  value from the array field and returns the update result.\<close>

theorem update_playlist_pull_removes:
  assumes "find_one c uid = Some d" "wf_doc d" "[] \<notin> set (split_dot k)" "hd (split_dot k) \<noteq> ''_id''"
    and "get_path (split_dot k) d = Some (JArr xs)"
  shows "\<exists>res d'. update_playlist uid [(k, v)] (JBool False) (JBool True) (JBool False) c = (Inr (Some res), dset uid d' c) \<and>
           matched_count res = 1 \<and> get_path (split_dot k) d' = Some (JArr (filter (\<lambda>x. x \<noteq> v) xs))"
proof -
  obtain d' where m: "modify_path (pull_leaf v) False (split_dot k) d = Inr d'"
    using modify_path_existing [OF assms(5) assms(3), of "pull_leaf v"] by auto
  have "pull_leaf v (get_path (split_dot k) d) = Inr (get_path (split_dot k) d')"
    using modify_path_get [OF m assms(2)] by simp
  with assms(5) have g: "get_path (split_dot k) d' = Some (JArr (filter (\<lambda>x. x \<noteq> v) xs))" by simp
  from m have "update_one uid UPull [(k, v)] c = (Inr (UpdateResult 1 (if d' = d then 0 else 1)), dset uid d' c)"
    using update_one_single [OF assms(1) assms(4)] by simp
  with g show ?thesis by (simp add: update_playlist_def) blast
qed

text \<open>C17. \<^verbatim>\<open>update_inbox\<close> appends the entry to the inbox, and a later
  \<^verbatim>\<open>get_playlist(uid, "inbox")\<close> reads the old entries followed by the new one.\<close>

theorem update_inbox_appends:
  assumes "find_one c uid = Some d" "wf_doc d" "dget d ''inbox'' = Some (JArr xs)" "push_values e = [e]"
  shows "\<exists>d'. update_inbox uid e c = (Inr (UpdateResult 1 1), dset uid d' c) \<and>
           get_playlist uid (Some ''inbox'') None (dset uid d' c) = Inr (Some (JArr (xs @ [e])))"
proof -
  let ?d' = "dset ''inbox'' (JArr (xs @ [e])) d"
  have sp: "split_dot ''inbox'' = [''inbox'']" by (simp add: split_dot_plain)
  have m: "op_path UPush (split_dot ''inbox'') e d = Inr ?d'"
    using assms(3,4) by (simp add: sp)
  have "dget ?d' ''inbox'' \<noteq> dget d ''inbox''"
    using assms(3) by (simp add: dget_dset)
  then have ne: "?d' \<noteq> d" by metis
  have u: "update_inbox uid e c = (Inr (UpdateResult 1 1), dset uid ?d' c)"
    using update_one_single [OF assms(1), of "''inbox''" UPush e ?d'] m ne
    by (simp add: update_inbox_def sp)
  have dis: "distinct (map fst ?d')" using assms(2) by (simp add: distinct_dset)
  have user: "map_of (ddel ''_id'' ?d') ''inbox'' = Some (JArr (xs @ [e]))"
    using map_of_ddel_other [OF dis, of "''inbox''" "''_id''"] by (simp add: map_of_dset)
  then have "ddel ''_id'' ?d' \<noteq> []" by auto
  with user have "get_playlist uid (Some ''inbox'') None (dset uid ?d' c) = Inr (Some (JArr (xs @ [e])))"
    by (simp add: get_playlist_def find_one_def dget_dset)
  with u show ?thesis by blast
qed

text \<open>C18. The single-playlist read of the specification (section 4.2): for a user whose
  document (without \<^verbatim>\<open>_id\<close>) is non-empty and holds a \<^verbatim>\<open>playlist\<close> dictionary,
  \<^verbatim>\<open>get_playlist(uid, "playlist", i)\<close> returns the entry under \<open>i\<close>, and \<^verbatim>\<open>None\<close> when
  the id is absent.\<close>

theorem get_playlist_entry:
  assumes "find_one c uid = Some d" "ddel ''_id'' d \<noteq> []"
    and "map_of (ddel ''_id'' d) ''playlist'' = Some (JObj pls)" "i \<noteq> []"
  shows "get_playlist uid (Some ''playlist'') (Some i) c = Inr (map_of pls i)"
proof (cases "map_of pls i")
  case None
  then have "i \<notin> fst ` set pls" by (simp add: map_of_eq_None_iff)
  with assms None show ?thesis by (simp add: get_playlist_def playlist_entry_def Let_def)
next
  case (Some v)
  then have "i \<in> fst ` set pls" by (auto dest: map_of_SomeD intro: rev_image_eqI)
  with assms Some show ?thesis by (simp add: get_playlist_def playlist_entry_def Let_def)
qed

text \<open>C19. \<^verbatim>\<open>get_playlist(uid, dType)\<close> for a field the user's document does not have
  raises \<^verbatim>\<open>KeyError\<close> instead of returning an absence signal.\<close>

theorem get_playlist_missing_field_raises:
  assumes "find_one c uid = Some d" "ddel ''_id'' d \<noteq> []" "t \<noteq> []" "t \<notin> set (map fst d)"
  shows "get_playlist uid (Some t) None c = Inl KeyError"
proof -
  have "t \<notin> set (map fst (ddel ''_id'' d))"
    using assms(4) set_ddel_sub [of "''_id''" d] by auto
  then have "map_of (ddel ''_id'' d) t = None" by (simp add: map_of_eq_None_iff)
  with assms(1-3) show ?thesis by (simp add: get_playlist_def)
qed

text \<open>\<^verbatim>\<open>get_playlist(uid, "playlist", pid)\<close> for a playlist id the user does not have
  returns \<^verbatim>\<open>None\<close>.\<close>

theorem get_playlist_unknown_id:
  assumes "find_one c uid = Some d" "wf_doc d" "dget d ''playlist'' = Some (JObj pls)"
    and "pid \<notin> set (map fst pls)" "pid \<noteq> []"
  shows "get_playlist uid (Some ''playlist'') (Some pid) c = Inr None"
proof -
  have "map_of (ddel ''_id'' d) ''playlist'' = Some (JObj pls)"
    using assms(2,3) map_of_ddel_other [of d "''playlist''" "''_id''"] by (simp add: dget_def)
  moreover then have "ddel ''_id'' d \<noteq> []" by auto
  ultimately show ?thesis
    using assms(1,4,5) by (simp add: get_playlist_def playlist_entry_def)
qed

lemma update_playlist_state: "snd (update_playlist uid data push pull mode c) =
   snd (update_one uid (if mode = JBool True then (if py_truthy push then UPush else USet)
                        else (if py_truthy pull then UPull else UUnset)) data c)"
  by (simp add: update_playlist_def Let_def split: prod.splits sum.splits)

section \<open>Witnesses\<close>

theorem create_account_twice_single_doc_witness:
  "dget ([] :: playlists) 5 = None \<and> py_truthy (JBool True) \<and>
   length (filter (\<lambda>p. fst p = 5) (create_account (Some 5) (JBool True) (create_account (Some 5) (JBool True) []))) = 1 \<and>
   get_playlist 5 (Some ''playlist'') None (create_account (Some 5) (JBool True) (create_account (Some 5) (JBool True) [])) =
     Inr (Some (JObj [(''200'', JObj [(''tracks'', JArr []),
                                    (''perms'', JObj [(''read'', JArr []), (''write'', JArr []),
                                                      (''remove'', JArr [])]),
                                    (''name'', JStr ''Favourite''),
                                    (''type'', JStr ''playlist'')])]))"
proof -
  have h: "dget ([] :: playlists) 5 = None" "py_truthy (JBool True)" by (simp_all add: dget_def)
  show ?thesis using h create_account_twice_single_doc [OF h] by blast
qed

theorem create_account_declined_witness:
  "\<not> py_truthy JNull \<and> create_account (Some 5) JNull [] = []"
  using create_account_declined [of JNull "Some 5" "[]"] by simp

theorem update_playlist_push_appends_witness:
  "find_one [(5, default_playlist_doc 5)] 5 = Some (default_playlist_doc 5) \<and>
   wf_doc (default_playlist_doc 5) \<and> [] \<notin> set (split_dot ''playlist.200.tracks'') \<and>
   hd (split_dot ''playlist.200.tracks'') \<noteq> ''_id'' \<and>
   get_path (split_dot ''playlist.200.tracks'') (default_playlist_doc 5) = Some (JArr []) \<and>
   (\<exists>res d'. update_playlist 5 [(''playlist.200.tracks'', JStr ''t1'')] (JBool True) (JBool False) (JBool True)
                [(5, default_playlist_doc 5)] = (Inr (Some res), dset 5 d' [(5, default_playlist_doc 5)]) \<and>
      matched_count res = 1 \<and>
      get_path (split_dot ''playlist.200.tracks'') d' = Some (JArr ([] @ push_values (JStr ''t1''))))"
proof -
  have h: "find_one [(5, default_playlist_doc 5)] 5 = Some (default_playlist_doc 5)"
    "wf_doc (default_playlist_doc 5)" "[] \<notin> set (split_dot ''playlist.200.tracks'')"
    "hd (split_dot ''playlist.200.tracks'') \<noteq> ''_id''"
    "get_path (split_dot ''playlist.200.tracks'') (default_playlist_doc 5) = Some (JArr [])"
    by (simp_all add: find_one_def dget_def default_playlist_doc_def)
  show ?thesis using h update_playlist_push_appends [OF h, of "JStr ''t1''"] by blast
qed

theorem update_playlist_set_writes_witness:
  "find_one [(5, default_playlist_doc 5)] 5 = Some (default_playlist_doc 5) \<and>
   wf_doc (default_playlist_doc 5) \<and> path_clear (split_dot ''playlist.201'') (default_playlist_doc 5) \<and>
   hd (split_dot ''playlist.201'') \<noteq> ''_id'' \<and>
   (\<exists>d'. update_playlist 5 [(''playlist.201'', JObj [(''name'', JStr ''Mix'')])] (JBool False) (JBool False) (JBool True)
            [(5, default_playlist_doc 5)] = (Inr None, dset 5 d' [(5, default_playlist_doc 5)]) \<and>
      get_path (split_dot ''playlist.201'') d' = Some (JObj [(''name'', JStr ''Mix'')]))"
proof -
  have h: "find_one [(5, default_playlist_doc 5)] 5 = Some (default_playlist_doc 5)"
    "wf_doc (default_playlist_doc 5)" "path_clear (split_dot ''playlist.201'') (default_playlist_doc 5)"
    "hd (split_dot ''playlist.201'') \<noteq> ''_id''"
    by (simp_all add: find_one_def dget_def default_playlist_doc_def)
  show ?thesis using h update_playlist_set_writes [OF h, of "JObj [(''name'', JStr ''Mix'')]"] by blast
qed

theorem update_playlist_pull_removes_witness:
  "find_one [(5, [(''_id'', JInt 5), (''inbox'', JArr [JStr ''a'', JStr ''b'', JStr ''a''])])] 5 =
     Some [(''_id'', JInt 5), (''inbox'', JArr [JStr ''a'', JStr ''b'', JStr ''a''])] \<and>
   wf_doc [(''_id'', JInt 5), (''inbox'', JArr [JStr ''a'', JStr ''b'', JStr ''a''])] \<and>
   [] \<notin> set (split_dot ''inbox'') \<and> hd (split_dot ''inbox'') \<noteq> ''_id'' \<and>
   get_path (split_dot ''inbox'') [(''_id'', JInt 5), (''inbox'', JArr [JStr ''a'', JStr ''b'', JStr ''a''])] =
     Some (JArr [JStr ''a'', JStr ''b'', JStr ''a'']) \<and>
   (\<exists>res d'. update_playlist 5 [(''inbox'', JStr ''a'')] (JBool False) (JBool True) (JBool False)
                [(5, [(''_id'', JInt 5), (''inbox'', JArr [JStr ''a'', JStr ''b'', JStr ''a''])])] =
                (Inr (Some res), dset 5 d' [(5, [(''_id'', JInt 5), (''inbox'', JArr [JStr ''a'', JStr ''b'', JStr ''a''])])]) \<and>
      matched_count res = 1 \<and> get_path (split_dot ''inbox'') d' = Some (JArr [JStr ''b'']))"
proof -
  have h: "find_one [(5, [(''_id'', JInt 5), (''inbox'', JArr [JStr ''a'', JStr ''b'', JStr ''a''])])] 5 =
      Some [(''_id'', JInt 5), (''inbox'', JArr [JStr ''a'', JStr ''b'', JStr ''a''])]"
    "wf_doc [(''_id'', JInt 5), (''inbox'', JArr [JStr ''a'', JStr ''b'', JStr ''a''])]"
    "[] \<notin> set (split_dot ''inbox'')" "hd (split_dot ''inbox'') \<noteq> ''_id''"
    "get_path (split_dot ''inbox'') [(''_id'', JInt 5), (''inbox'', JArr [JStr ''a'', JStr ''b'', JStr ''a''])] =
       Some (JArr [JStr ''a'', JStr ''b'', JStr ''a''])"
    by (simp_all add: find_one_def dget_def)
  show ?thesis using h update_playlist_pull_removes [OF h, of "JStr ''a''"] by simp
qed

theorem update_inbox_appends_witness:
  "find_one [(5, default_playlist_doc 5)] 5 = Some (default_playlist_doc 5) \<and>
   wf_doc (default_playlist_doc 5) \<and> dget (default_playlist_doc 5) ''inbox'' = Some (JArr []) \<and>
   push_values (JStr ''hi'') = [JStr ''hi''] \<and>
   (\<exists>d'. update_inbox 5 (JStr ''hi'') [(5, default_playlist_doc 5)] =
            (Inr (UpdateResult 1 1), dset 5 d' [(5, default_playlist_doc 5)]) \<and>
      get_playlist 5 (Some ''inbox'') None (dset 5 d' [(5, default_playlist_doc 5)]) =
        Inr (Some (JArr ([] @ [JStr ''hi'']))))"
proof -
  have h: "find_one [(5, default_playlist_doc 5)] 5 = Some (default_playlist_doc 5)"
    "wf_doc (default_playlist_doc 5)" "dget (default_playlist_doc 5) ''inbox'' = Some (JArr [])"
    "push_values (JStr ''hi'') = [JStr ''hi'']"
    by (simp_all add: find_one_def dget_def default_playlist_doc_def push_values_def)
  show ?thesis using h update_inbox_appends [OF h] by blast
qed

theorem get_playlist_missing_field_raises_witness:
  "find_one [(5, default_playlist_doc 5)] 5 = Some (default_playlist_doc 5) \<and>
   ddel ''_id'' (default_playlist_doc 5) \<noteq> [] \<and> ''history'' \<noteq> [] \<and>
   ''history'' \<notin> set (map fst (default_playlist_doc 5)) \<and>
   get_playlist 5 (Some ''history'') None [(5, default_playlist_doc 5)] = Inl KeyError"
proof -
  have h: "find_one [(5, default_playlist_doc 5)] 5 = Some (default_playlist_doc 5)"
    "ddel ''_id'' (default_playlist_doc 5) \<noteq> []" "''history'' \<noteq> []"
    "''history'' \<notin> set (map fst (default_playlist_doc 5))"
    by (simp_all add: find_one_def dget_def default_playlist_doc_def)
  show ?thesis using h get_playlist_missing_field_raises [OF h] by blast
qed

theorem get_playlist_unknown_id_witness:
  "find_one [(5, default_playlist_doc 5)] 5 = Some (default_playlist_doc 5) \<and>
   wf_doc (default_playlist_doc 5) \<and>
   dget (default_playlist_doc 5) ''playlist'' =
     Some (JObj [(''200'', JObj [(''tracks'', JArr []),
                                (''perms'', JObj [(''read'', JArr []), (''write'', JArr []), (''remove'', JArr [])]),
                                (''name'', JStr ''Favourite''), (''type'', JStr ''playlist'')])]) \<and>
   ''201'' \<notin> set (map fst [(''200'', JObj [(''tracks'', JArr []),
                                (''perms'', JObj [(''read'', JArr []), (''write'', JArr []), (''remove'', JArr [])]),
                                (''name'', JStr ''Favourite''), (''type'', JStr ''playlist'')])]) \<and>
   ''201'' \<noteq> [] \<and>
   get_playlist 5 (Some ''playlist'') (Some ''201'') [(5, default_playlist_doc 5)] = Inr None"
proof -
  have h: "find_one [(5, default_playlist_doc 5)] 5 = Some (default_playlist_doc 5)"
    "wf_doc (default_playlist_doc 5)"
    "dget (default_playlist_doc 5) ''playlist'' =
       Some (JObj [(''200'', JObj [(''tracks'', JArr []),
                                (''perms'', JObj [(''read'', JArr []), (''write'', JArr []), (''remove'', JArr [])]),
                                (''name'', JStr ''Favourite''), (''type'', JStr ''playlist'')])])"
    "''201'' \<notin> set (map fst [(''200'', JObj [(''tracks'', JArr []),
                                (''perms'', JObj [(''read'', JArr []), (''write'', JArr []), (''remove'', JArr [])]),
                                (''name'', JStr ''Favourite''), (''type'', JStr ''playlist'')])])"
    "''201'' \<noteq> []"
    by (simp_all add: find_one_def dget_def default_playlist_doc_def)
  show ?thesis using h get_playlist_unknown_id [OF h] by blast
qed


theorem update_playlist_mode_not_true_unsets_witness:
  "JInt 1 \<noteq> JBool True \<and> \<not> py_truthy (JBool False) \<and>
   update_playlist 5 [(''inbox'', JStr ''x'')] (JBool True) (JBool False) (JInt 1)
     [(5, [(''_id'', JInt 5), (''inbox'', JArr [JStr ''a''])])] =
   (Inr None, [(5, [(''_id'', JInt 5)])])"
proof -
  have h: "JInt 1 \<noteq> JBool True" "\<not> py_truthy (JBool False)" by simp_all
  have u: "update_one (5::int) UUnset [(''inbox'', JStr ''x'')] [(5, [(''_id'', JInt 5), (''inbox'', JArr [JStr ''a''])])] =
      (Inr (UpdateResult 1 1), [(5, [(''_id'', JInt 5)])])"
    by (simp add: update_one_def dget_def)
  show ?thesis using h update_playlist_mode_not_true_unsets [OF h, of 5 "[(''inbox'', JStr ''x'')]" "JBool True"
      "[(5, [(''_id'', JInt 5), (''inbox'', JArr [JStr ''a''])])]"] u by simp
qed


theorem get_playlist_entry_witness:
  "find_one [(5::int, default_playlist_doc 5)] 5 = Some (default_playlist_doc 5) \<and>
   ddel ''_id'' (default_playlist_doc 5) \<noteq> [] \<and>
   map_of (ddel ''_id'' (default_playlist_doc 5)) ''playlist'' =
     Some (JObj [(''200'', JObj [(''tracks'', JArr []), (''perms'', JObj [(''read'', JArr []),
       (''write'', JArr []), (''remove'', JArr [])]), (''name'', JStr ''Favourite''), (''type'', JStr ''playlist'')])]) \<and>
   ''201'' \<noteq> [] \<and>
   get_playlist 5 (Some ''playlist'') (Some ''201'') [(5, default_playlist_doc 5)] = Inr None"
proof -
  have h: "find_one [(5::int, default_playlist_doc 5)] 5 = Some (default_playlist_doc 5)"
    "ddel ''_id'' (default_playlist_doc 5) \<noteq> []"
    "map_of (ddel ''_id'' (default_playlist_doc 5)) ''playlist'' =
     Some (JObj [(''200'', JObj [(''tracks'', JArr []), (''perms'', JObj [(''read'', JArr []),
       (''write'', JArr []), (''remove'', JArr [])]), (''name'', JStr ''Favourite''), (''type'', JStr ''playlist'')])])"
    "''201'' \<noteq> []"
    by (simp_all add: find_one_def dget_def default_playlist_doc_def)
  show ?thesis using h get_playlist_entry [OF h] by simp
qed

end
