(* ===== verification/Recommend.thy ===== *)
theory Recommend
  imports Prelude
begin

text \<open>
  RecommendationEngine and HTTP fetcher: \<^verbatim>\<open>requests_api\<close> (lines 124--130) and
  \<^verbatim>\<open>similar_track\<close> (lines 181--221) of \<^verbatim>\<open>src/function.py\<close>.  The player object is
  duck-typed in the code; the model keeps what \<^verbatim>\<open>similar_track\<close> reads and writes:
  \<^verbatim>\<open>player.queue.history(incTrack=True)\<close> (\<open>hist\<close>, most recent last) and the pending
  queue \<open>upcoming\<close> that \<^verbatim>\<open>add_track\<close> appends to.  The player's capabilities
  (\<^verbatim>\<open>spotifyRelatedTrack\<close>, \<^verbatim>\<open>get_tracks\<close>) and the network (\<^verbatim>\<open>session.get\<close>)
  are parameters of the model, so that every claim holds for every behaviour of
  them.  \<^verbatim>\<open>random.choice\<close> is the parameter \<open>rnd\<close>: the element at index
  \<open>rnd mod n\<close> of the sample of \<open>n\<close> elements, so quantifying over \<open>rnd\<close> covers
  every choice.  A \<^verbatim>\<open>get_tracks\<close> result of \<^verbatim>\<open>None\<close> is the empty list.
\<close>

record track =
  track_identifier :: string
  source :: string
  spotify :: bool
  artistId :: "string list"
  track_id :: string

record player =
  hist :: "track list"
  upcoming :: "track list"

datatype http_resp = TransportError | Response nat "jval option"

record caps =
  spotify_related :: "string \<Rightarrow> string \<Rightarrow> py_exc + track list"
  get_tracks :: "string \<Rightarrow> py_exc + track list"
  http_get :: "string \<Rightarrow> http_resp"

section \<open>HTTP fetcher\<close>

text \<open>A transport error raises; a status other than 200 gives \<^verbatim>\<open>False\<close>; a body that
  is not JSON (\<open>None\<close>) makes \<^verbatim>\<open>resp.json()\<close> raise.\<close>

definition requests_api :: "(string \<Rightarrow> http_resp) \<Rightarrow> string \<Rightarrow> py_exc + jval" where
  "requests_api get url =
     (case get url of
        TransportError \<Rightarrow> Inl (ExtError ''ClientError'')
      | Response status body \<Rightarrow>
          (if status \<noteq> 200 then Inr (JBool False)
           else (case body of None \<Rightarrow> Inl ValueError | Some j \<Rightarrow> Inr j)))"

section \<open>similar_track\<close>

definition search_url :: "string \<Rightarrow> string \<Rightarrow> string" where
  "search_url vid key =
     ''https://youtube.googleapis.com/youtube/v3/search?part=snippet&relatedToVideoId='' @ vid @
     ''&type=video&videoCategoryId=10&key='' @ key"

definition watch_url :: "string \<Rightarrow> string" where
  "watch_url vid = ''https://www.youtube.com/watch?v='' @ vid"

text \<open>\<^verbatim>\<open>for item in x\<close>: a list yields its elements, a dictionary its keys, a string
  its characters; anything else raises \<^verbatim>\<open>TypeError\<close>.\<close>

fun py_iter :: "jval \<Rightarrow> py_exc + jval list" where
  "py_iter (JArr xs) = Inr xs"
| "py_iter (JObj kvs) = Inr (map (\<lambda>kv. JStr (fst kv)) kvs)"
| "py_iter (JStr s) = Inr (map (\<lambda>c. JStr [c]) s)"
| "py_iter _ = Inl TypeError"

text \<open>The loop of lines 208--213: skip items without \<^verbatim>\<open>snippet\<close>, resolve the first
  one whose \<^verbatim>\<open>id.videoId\<close> is not among the history's YouTube identifiers, and stop.\<close>

fun scan_items :: "caps \<Rightarrow> string list \<Rightarrow> jval list \<Rightarrow> py_exc + track list" where
  "scan_items cs trackids [] = Inr []"
| "scan_items cs trackids (item # rest) =
     (case py_in ''snippet'' item of
        Inl e \<Rightarrow> Inl e
      | Inr has_snippet \<Rightarrow>
          (if \<not> has_snippet then scan_items cs trackids rest
           else (case py_getitem item ''id'' of
                   Inl e \<Rightarrow> Inl e
                 | Inr idv \<Rightarrow>
                     (case py_getitem idv ''videoId'' of
                        Inl e \<Rightarrow> Inl e
                      | Inr vid \<Rightarrow>
                          (if vid \<notin> set (map JStr trackids)
                           then get_tracks cs (watch_url (py_str vid))
                           else scan_items cs trackids rest)))))"

text \<open>The \<^verbatim>\<open>try\<close> block of lines 203--215: every exception, and a falsy response,
  is \<open>None\<close> (\<^verbatim>\<open>return False\<close>); otherwise the tracks the loop resolved.\<close>

definition youtube_related :: "caps \<Rightarrow> string \<Rightarrow> track \<Rightarrow> string list \<Rightarrow> track list option" where
  "youtube_related cs key rt trackids =
     (case requests_api (http_get cs) (search_url (track_identifier rt) key) of
        Inl _ \<Rightarrow> None
      | Inr data \<Rightarrow>
          (if \<not> py_truthy data then None
           else (case py_getitem data ''items'' of
                   Inl _ \<Rightarrow> None
                 | Inr its \<Rightarrow>
                     (case py_iter its of
                        Inl _ \<Rightarrow> None
                      | Inr items \<Rightarrow>
                          (case scan_items cs trackids items of
                             Inl _ \<Rightarrow> None
                           | Inr ts \<Rightarrow> Some ts)))))"

text \<open>\<^verbatim>\<open>player.add_track\<close> appends to the queue (modelled from the spec).\<close>

definition add_track :: "track list \<Rightarrow> player \<Rightarrow> player" where
  "add_track ts p = p\<lparr>upcoming := upcoming p @ ts\<rparr>"

definition finish :: "track list \<Rightarrow> player \<Rightarrow> (py_exc + bool) \<times> player" where
  "finish ts p = (if ts \<noteq> [] then (Inr True, add_track ts p) else (Inr False, p))"

definition youtube_ids :: "track list \<Rightarrow> string list" where
  "youtube_ids h = [track_identifier t. t \<leftarrow> h, source t = ''youtube'']"

text \<open>\<^verbatim>\<open>history[-10:]\<close> and \<^verbatim>\<open>random.choice\<close> on a non-empty list.\<close>

definition last10 :: "'a list \<Rightarrow> 'a list" where
  "last10 xs = drop (length xs - 10) xs"

definition pick :: "nat \<Rightarrow> 'a list \<Rightarrow> 'a" where
  "pick rnd xs = xs ! (rnd mod length xs)"

definition similar_track ::
  "caps \<Rightarrow> string option \<Rightarrow> nat \<Rightarrow> player \<Rightarrow> (py_exc + bool) \<times> player" where
  "similar_track cs youtube_api_key rnd p =
     (let trackids = youtube_ids (hist p);
          sample = last10 (hist p)
      in if sample = [] then (Inl IndexError, p)
         else
           (let rt = pick rnd sample in
            if spotify rt then
              (case artistId rt of
                 [] \<Rightarrow> (Inl IndexError, p)
               | a # _ \<Rightarrow>
                   (case spotify_related cs a (track_id rt) of
                      Inl e \<Rightarrow> (Inl e, p)
                    | Inr ts \<Rightarrow> finish ts p))
            else if source rt \<noteq> ''youtube'' then (Inr False, p)
            else (case youtube_api_key of
                    None \<Rightarrow> (Inr False, p)
                  | Some key \<Rightarrow>
                      (if key = [] then (Inr False, p)
                       else (case youtube_related cs key rt trackids of
                               None \<Rightarrow> (Inr False, p)
                             | Some ts \<Rightarrow> finish ts p)))))"

section \<open>Abstract view of the search loop\<close>

text \<open>\<open>yt_item\<close> reads a search result item of the documented shape
  \<^verbatim>\<open>{"id": {"videoId": v}, ...}\<close> as its video id and whether it has a \<^verbatim>\<open>snippet\<close>;
  \<open>first_fresh\<close> is the specification of the loop on such items.\<close>

definition first_fresh :: "string list \<Rightarrow> (string \<times> bool) list \<Rightarrow> string option" where
  "first_fresh trackids vs = map_option fst (find (\<lambda>(v, sn). sn \<and> v \<notin> set trackids) vs)"

fun yt_item :: "jval \<Rightarrow> (string \<times> bool) option" where
  "yt_item (JObj kvs) =
     (case map_of kvs ''id'' of
        Some (JObj ids) \<Rightarrow>
          (case map_of ids ''videoId'' of
             Some (JStr v) \<Rightarrow> Some (v, ''snippet'' \<in> set (map fst kvs))
           | _ \<Rightarrow> None)
      | _ \<Rightarrow> None)"
| "yt_item _ = None"

section \<open>Properties\<close>

lemma last10_empty [simp]: "last10 xs = [] \<longleftrightarrow> xs = []"
  by (cases xs) (auto simp: last10_def)

lemma pick_in: "xs \<noteq> [] \<Longrightarrow> pick rnd xs \<in> set xs"
  by (simp add: pick_def)

lemma finish_cases:
  "finish ts p = (r, p') \<Longrightarrow> (r = Inr True \<and> ts \<noteq> [] \<and> p' = add_track ts p) \<or> (r = Inr False \<and> p' = p)"
  by (auto simp: finish_def split: if_splits)

text \<open>C20. The queue changes only on success, and only by appending: \<^verbatim>\<open>similar_track\<close>
  returns \<^verbatim>\<open>True\<close> exactly when it appended a non-empty list of tracks; on \<^verbatim>\<open>False\<close>
  or an exception the player is unchanged.\<close>

theorem similar_track_frame:
  "similar_track cs key rnd p = (r, p') \<Longrightarrow>
   (r = Inr True \<and> (\<exists>ts. ts \<noteq> [] \<and> p' = add_track ts p)) \<or> (r \<noteq> Inr True \<and> p' = p)"
  unfolding similar_track_def Let_def
  by (auto split: if_splits list.splits sum.splits option.splits dest!: finish_cases)

text \<open>C21. The loop over the search results refines a specification by \<open>find\<close>: on
  well-shaped items it resolves the first item that has a \<^verbatim>\<open>snippet\<close> and whose video
  id is not in the history, or nothing.\<close>

theorem scan_items_refines:
  "map yt_item items = map Some vs \<Longrightarrow>
   scan_items cs trackids items =
     (case first_fresh trackids vs of None \<Rightarrow> Inr [] | Some v \<Rightarrow> get_tracks cs (watch_url v))"
proof (induction items arbitrary: vs)
  case Nil
  then show ?case by (simp add: first_fresh_def)
next
  case (Cons item rest)
  then obtain v sn vs' where vs: "vs = (v, sn) # vs'" and it: "yt_item item = Some (v, sn)"
    and rest: "map yt_item rest = map Some vs'"
    by (cases vs) auto
  from it obtain kvs ids where item: "item = JObj kvs" and "map_of kvs ''id'' = Some (JObj ids)"
    and "map_of ids ''videoId'' = Some (JStr v)" and "sn = (''snippet'' \<in> set (map fst kvs))"
    by (cases item rule: yt_item.cases) (auto split: option.splits jval.splits)
  with Cons.IH [OF rest] vs show ?case
    by (auto simp: first_fresh_def)
qed

lemma similar_track_sampled:
  "hist p \<noteq> [] \<Longrightarrow>
   similar_track cs key rnd p =
     (let rt = pick rnd (last10 (hist p)) in
      if spotify rt then
        (case artistId rt of
           [] \<Rightarrow> (Inl IndexError, p)
         | a # _ \<Rightarrow> (case spotify_related cs a (track_id rt) of Inl e \<Rightarrow> (Inl e, p) | Inr ts \<Rightarrow> finish ts p))
      else if source rt \<noteq> ''youtube'' then (Inr False, p)
      else (case key of
              None \<Rightarrow> (Inr False, p)
            | Some k \<Rightarrow>
                (if k = [] then (Inr False, p)
                 else (case youtube_related cs k rt (youtube_ids (hist p)) of
                         None \<Rightarrow> (Inr False, p)
                       | Some ts \<Rightarrow> finish ts p))))"
  by (simp add: similar_track_def Let_def)

text \<open>If none of the last ten history entries is a Spotify or YouTube track, the
  call returns \<^verbatim>\<open>False\<close> and leaves the player unchanged, whatever track is sampled.\<close>

theorem similar_track_unsupported:
  assumes "hist p \<noteq> []" "\<forall>t \<in> set (last10 (hist p)). \<not> spotify t \<and> source t \<noteq> ''youtube''"
  shows "similar_track cs key rnd p = (Inr False, p)"
proof -
  have "pick rnd (last10 (hist p)) \<in> set (last10 (hist p))"
    using assms(1) by (simp add: pick_in)
  with assms show ?thesis by (simp add: similar_track_sampled Let_def)
qed

text \<open>Without a YouTube API key (unset or empty) and with no Spotify track among the
  last ten entries, the call returns \<^verbatim>\<open>False\<close> and leaves the player unchanged, for
  every behaviour of the capabilities: no request is made.\<close>

theorem similar_track_no_api_key:
  assumes "hist p \<noteq> []" "\<forall>t \<in> set (last10 (hist p)). \<not> spotify t" "key = None \<or> key = Some []"
  shows "similar_track cs key rnd p = (Inr False, p)"
proof -
  have "pick rnd (last10 (hist p)) \<in> set (last10 (hist p))"
    using assms(1) by (simp add: pick_in)
  with assms show ?thesis by (auto simp: similar_track_sampled Let_def)
qed

text \<open>C22. An empty history makes \<^verbatim>\<open>random.choice\<close> raise \<^verbatim>\<open>IndexError\<close>, outside the
  \<^verbatim>\<open>try\<close> block: the call raises.\<close>

theorem similar_track_empty_history:
  "hist p = [] \<Longrightarrow> similar_track cs key rnd p = (Inl IndexError, p)"
  by (simp add: similar_track_def last10_def)

text \<open>C23. When the search request for the sampled YouTube track does not answer
  with status 200, the call returns \<^verbatim>\<open>False\<close> and the queue does not grow.\<close>

theorem similar_track_http_failure:
  assumes "hist p \<noteq> []" "rt = pick rnd (last10 (hist p))" "\<not> spotify rt" "source rt = ''youtube''"
    and "key = Some k" "k \<noteq> []"
    and "\<forall>body. http_get cs (search_url (track_identifier rt) k) \<noteq> Response 200 body"
  shows "similar_track cs key rnd p = (Inr False, p)"
proof -
  have "youtube_related cs k rt (youtube_ids (hist p)) = None"
    using assms(7) by (auto simp: youtube_related_def requests_api_def split: http_resp.splits)
  with assms(1-6) show ?thesis by (simp add: similar_track_sampled Let_def)
qed

text \<open>In the Spotify branch the related tracks are appended as returned, with no
  deduplication against the history.\<close>

theorem similar_track_spotify_no_dedup:
  assumes "hist p \<noteq> []" "rt = pick rnd (last10 (hist p))" "spotify rt" "artistId rt = a # as"
    and "spotify_related cs a (track_id rt) = Inr ts" "ts \<noteq> []"
  shows "similar_track cs key rnd p = (Inr True, add_track ts p)"
  using assms by (simp add: similar_track_sampled Let_def finish_def)

text \<open>C24. A sampled Spotify track with an empty \<^verbatim>\<open>artistId\<close> list raises
  \<^verbatim>\<open>IndexError\<close> from \<^verbatim>\<open>artistId[0]\<close>, which is not caught.\<close>

theorem similar_track_spotify_no_artist:
  assumes "hist p \<noteq> []" "spotify (pick rnd (last10 (hist p)))" "artistId (pick rnd (last10 (hist p))) = []"
  shows "similar_track cs key rnd p = (Inl IndexError, p)"
  using assms by (simp add: similar_track_sampled Let_def)

text \<open>Deduplication: when the search returns the history's own video \<^verbatim>\<open>A\<close> and then
  \<^verbatim>\<open>B\<close> (both with a \<^verbatim>\<open>snippet\<close>), the track resolved from \<^verbatim>\<open>B\<close>'s URL is appended.\<close>

theorem similar_track_dedup_example:
  assumes "http_get cs (search_url ''A'' key) =
             Response 200 (Some (JObj [(''items'', JArr
               [JObj [(''id'', JObj [(''videoId'', JStr ''A'')]), (''snippet'', JObj [])],
                JObj [(''id'', JObj [(''videoId'', JStr ''B'')]), (''snippet'', JObj [])]])]))"
    and "get_tracks cs (watch_url ''B'') = Inr [tB]" "key \<noteq> []"
  shows "similar_track cs (Some key) rnd
           \<lparr>hist = [\<lparr>track_identifier = ''A'', source = ''youtube'', spotify = False, artistId = [], track_id = []\<rparr>],
            upcoming = q\<rparr> =
         (Inr True,
          \<lparr>hist = [\<lparr>track_identifier = ''A'', source = ''youtube'', spotify = False, artistId = [], track_id = []\<rparr>],
           upcoming = q @ [tB]\<rparr>)"
  using assms
  by (simp add: similar_track_def last10_def pick_def youtube_ids_def youtube_related_def
      requests_api_def finish_def add_track_def)

text \<open>The spec's example response, whose items carry no \<^verbatim>\<open>snippet\<close>, makes the code
  skip both items and return \<^verbatim>\<open>False\<close>: the queue does not grow.\<close>

theorem similar_track_spec_example_no_snippet:
  assumes "http_get cs (search_url ''A'' key) =
             Response 200 (Some (JObj [(''items'', JArr
               [JObj [(''id'', JObj [(''videoId'', JStr ''A'')])],
                JObj [(''id'', JObj [(''videoId'', JStr ''B'')])]])]))"
    and "key \<noteq> []"
  shows "similar_track cs (Some key) rnd
           \<lparr>hist = [\<lparr>track_identifier = ''A'', source = ''youtube'', spotify = False, artistId = [], track_id = []\<rparr>],
            upcoming = q\<rparr> =
         (Inr False,
          \<lparr>hist = [\<lparr>track_identifier = ''A'', source = ''youtube'', spotify = False, artistId = [], track_id = []\<rparr>],
           upcoming = q\<rparr>)"
  using assms
  by (simp add: similar_track_def last10_def pick_def youtube_ids_def youtube_related_def
      requests_api_def finish_def)

section \<open>Witnesses\<close>

theorem similar_track_frame_witness:
  "similar_track \<lparr>spotify_related = (\<lambda>a t. Inr [\<lparr>track_identifier = ''B'', source = ''youtube'', spotify = False, artistId = [], track_id = []\<rparr>]),
                  get_tracks = (\<lambda>u. Inr []), http_get = (\<lambda>u. Response 404 None)\<rparr> (Some ''k'') 0
     \<lparr>hist = [\<lparr>track_identifier = ''S'', source = ''spotify'', spotify = True, artistId = [''art''], track_id = ''sp''\<rparr>], upcoming = []\<rparr> =
   (Inr True, add_track [\<lparr>track_identifier = ''B'', source = ''youtube'', spotify = False, artistId = [], track_id = []\<rparr>]
     \<lparr>hist = [\<lparr>track_identifier = ''S'', source = ''spotify'', spotify = True, artistId = [''art''], track_id = ''sp''\<rparr>], upcoming = []\<rparr>) \<and>
   ((Inr True :: py_exc + bool) = Inr True \<and>
     (\<exists>ts. ts \<noteq> [] \<and>
        add_track [\<lparr>track_identifier = ''B'', source = ''youtube'', spotify = False, artistId = [], track_id = []\<rparr>]
          \<lparr>hist = [\<lparr>track_identifier = ''S'', source = ''spotify'', spotify = True, artistId = [''art''], track_id = ''sp''\<rparr>], upcoming = []\<rparr> =
        add_track ts \<lparr>hist = [\<lparr>track_identifier = ''S'', source = ''spotify'', spotify = True, artistId = [''art''], track_id = ''sp''\<rparr>], upcoming = []\<rparr>))"
proof -
  have run: "similar_track \<lparr>spotify_related = (\<lambda>a t. Inr [\<lparr>track_identifier = ''B'', source = ''youtube'', spotify = False, artistId = [], track_id = []\<rparr>]),
                  get_tracks = (\<lambda>u. Inr []), http_get = (\<lambda>u. Response 404 None)\<rparr> (Some ''k'') 0
     \<lparr>hist = [\<lparr>track_identifier = ''S'', source = ''spotify'', spotify = True, artistId = [''art''], track_id = ''sp''\<rparr>], upcoming = []\<rparr> =
   (Inr True, add_track [\<lparr>track_identifier = ''B'', source = ''youtube'', spotify = False, artistId = [], track_id = []\<rparr>]
     \<lparr>hist = [\<lparr>track_identifier = ''S'', source = ''spotify'', spotify = True, artistId = [''art''], track_id = ''sp''\<rparr>], upcoming = []\<rparr>)"
    by (simp add: similar_track_def last10_def pick_def finish_def)
  from similar_track_frame [OF run] run show ?thesis by blast
qed

theorem scan_items_refines_witness:
  "map yt_item [JObj [(''id'', JObj [(''videoId'', JStr ''A'')]), (''snippet'', JObj [])],
                JObj [(''id'', JObj [(''videoId'', JStr ''B'')]), (''snippet'', JObj [])]] =
     map Some [(''A'', True), (''B'', True)] \<and>
   scan_items \<lparr>spotify_related = (\<lambda>a t. Inr []), get_tracks = (\<lambda>u. Inr [\<lparr>track_identifier = u, source = ''youtube'', spotify = False, artistId = [], track_id = []\<rparr>]),
               http_get = (\<lambda>u. TransportError)\<rparr> [''A'']
     [JObj [(''id'', JObj [(''videoId'', JStr ''A'')]), (''snippet'', JObj [])],
      JObj [(''id'', JObj [(''videoId'', JStr ''B'')]), (''snippet'', JObj [])]] =
     Inr [\<lparr>track_identifier = watch_url ''B'', source = ''youtube'', spotify = False, artistId = [], track_id = []\<rparr>]"
proof -
  have h: "map yt_item [JObj [(''id'', JObj [(''videoId'', JStr ''A'')]), (''snippet'', JObj [])],
                JObj [(''id'', JObj [(''videoId'', JStr ''B'')]), (''snippet'', JObj [])]] =
     map Some [(''A'', True), (''B'', True)]" by simp
  show ?thesis
    using h scan_items_refines [OF h, of "\<lparr>spotify_related = (\<lambda>a t. Inr []),
      get_tracks = (\<lambda>u. Inr [\<lparr>track_identifier = u, source = ''youtube'', spotify = False, artistId = [], track_id = []\<rparr>]),
      http_get = (\<lambda>u. TransportError)\<rparr>" "[''A'']"]
    by (simp add: first_fresh_def)
qed

theorem similar_track_unsupported_witness:
  "hist \<lparr>hist = [\<lparr>track_identifier = ''L'', source = ''soundcloud'', spotify = False, artistId = [], track_id = []\<rparr>], upcoming = []\<rparr> \<noteq> [] \<and>
   similar_track \<lparr>spotify_related = (\<lambda>a t. Inr []), get_tracks = (\<lambda>u. Inr []), http_get = (\<lambda>u. TransportError)\<rparr> (Some ''k'') 3
     \<lparr>hist = [\<lparr>track_identifier = ''L'', source = ''soundcloud'', spotify = False, artistId = [], track_id = []\<rparr>], upcoming = []\<rparr> =
   (Inr False, \<lparr>hist = [\<lparr>track_identifier = ''L'', source = ''soundcloud'', spotify = False, artistId = [], track_id = []\<rparr>], upcoming = []\<rparr>)"
proof -
  have h: "hist \<lparr>hist = [\<lparr>track_identifier = ''L'', source = ''soundcloud'', spotify = False, artistId = [], track_id = []\<rparr>], upcoming = []\<rparr> \<noteq> []"
    "\<forall>t \<in> set (last10 (hist \<lparr>hist = [\<lparr>track_identifier = ''L'', source = ''soundcloud'', spotify = False, artistId = [], track_id = []\<rparr>], upcoming = []\<rparr>)).
      \<not> spotify t \<and> source t \<noteq> ''youtube''"
    by (simp_all add: last10_def)
  show ?thesis using h similar_track_unsupported [OF h] by blast
qed

theorem similar_track_no_api_key_witness:
  "hist \<lparr>hist = [\<lparr>track_identifier = ''A'', source = ''youtube'', spotify = False, artistId = [], track_id = []\<rparr>], upcoming = []\<rparr> \<noteq> [] \<and>
   similar_track \<lparr>spotify_related = (\<lambda>a t. Inr []), get_tracks = (\<lambda>u. Inr []), http_get = (\<lambda>u. TransportError)\<rparr> None 0
     \<lparr>hist = [\<lparr>track_identifier = ''A'', source = ''youtube'', spotify = False, artistId = [], track_id = []\<rparr>], upcoming = []\<rparr> =
   (Inr False, \<lparr>hist = [\<lparr>track_identifier = ''A'', source = ''youtube'', spotify = False, artistId = [], track_id = []\<rparr>], upcoming = []\<rparr>)"
proof -
  have h: "hist \<lparr>hist = [\<lparr>track_identifier = ''A'', source = ''youtube'', spotify = False, artistId = [], track_id = []\<rparr>], upcoming = []\<rparr> \<noteq> []"
    "\<forall>t \<in> set (last10 (hist \<lparr>hist = [\<lparr>track_identifier = ''A'', source = ''youtube'', spotify = False, artistId = [], track_id = []\<rparr>], upcoming = []\<rparr>)).
      \<not> spotify t"
    "(None :: string option) = None \<or> (None :: string option) = Some []"
    by (simp_all add: last10_def)
  show ?thesis using h similar_track_no_api_key [OF h] by blast
qed

theorem similar_track_empty_history_witness:
  "hist \<lparr>hist = [], upcoming = []\<rparr> = [] \<and>
   similar_track \<lparr>spotify_related = (\<lambda>a t. Inr []), get_tracks = (\<lambda>u. Inr []), http_get = (\<lambda>u. TransportError)\<rparr> (Some ''k'') 0
     \<lparr>hist = [], upcoming = []\<rparr> = (Inl IndexError, \<lparr>hist = [], upcoming = []\<rparr>)"
  using similar_track_empty_history [of "\<lparr>hist = [], upcoming = []\<rparr>"
      "\<lparr>spotify_related = (\<lambda>a t. Inr []), get_tracks = (\<lambda>u. Inr []), http_get = (\<lambda>u. TransportError)\<rparr>" "Some ''k''" 0]
  by simp

theorem similar_track_http_failure_witness:
  "hist \<lparr>hist = [\<lparr>track_identifier = ''A'', source = ''youtube'', spotify = False, artistId = [], track_id = []\<rparr>], upcoming = []\<rparr> \<noteq> [] \<and>
   \<lparr>track_identifier = ''A'', source = ''youtube'', spotify = False, artistId = [], track_id = []\<rparr> =
     pick 0 (last10 (hist \<lparr>hist = [\<lparr>track_identifier = ''A'', source = ''youtube'', spotify = False, artistId = [], track_id = []\<rparr>], upcoming = []\<rparr>)) \<and>
   (\<forall>body. http_get \<lparr>spotify_related = (\<lambda>a t. Inr []), get_tracks = (\<lambda>u. Inr []), http_get = (\<lambda>u. Response 404 None)\<rparr>
      (search_url ''A'' ''k'') \<noteq> Response 200 body) \<and>
   similar_track \<lparr>spotify_related = (\<lambda>a t. Inr []), get_tracks = (\<lambda>u. Inr []), http_get = (\<lambda>u. Response 404 None)\<rparr> (Some ''k'') 0
     \<lparr>hist = [\<lparr>track_identifier = ''A'', source = ''youtube'', spotify = False, artistId = [], track_id = []\<rparr>], upcoming = []\<rparr> =
   (Inr False, \<lparr>hist = [\<lparr>track_identifier = ''A'', source = ''youtube'', spotify = False, artistId = [], track_id = []\<rparr>], upcoming = []\<rparr>)"
proof -
  have h: "hist \<lparr>hist = [\<lparr>track_identifier = ''A'', source = ''youtube'', spotify = False, artistId = [], track_id = []\<rparr>], upcoming = []\<rparr> \<noteq> []"
    "\<lparr>track_identifier = ''A'', source = ''youtube'', spotify = False, artistId = [], track_id = []\<rparr> =
     pick 0 (last10 (hist \<lparr>hist = [\<lparr>track_identifier = ''A'', source = ''youtube'', spotify = False, artistId = [], track_id = []\<rparr>], upcoming = []\<rparr>))"
    "\<not> spotify \<lparr>track_identifier = ''A'', source = ''youtube'', spotify = False, artistId = [], track_id = []\<rparr>"
    "source \<lparr>track_identifier = ''A'', source = ''youtube'', spotify = False, artistId = [], track_id = []\<rparr> = ''youtube''"
    "Some ''k'' = Some ''k''" "''k'' \<noteq> []"
    "\<forall>body. http_get \<lparr>spotify_related = (\<lambda>a t. Inr []), get_tracks = (\<lambda>u. Inr []), http_get = (\<lambda>u. Response 404 None)\<rparr>
      (search_url (track_identifier \<lparr>track_identifier = ''A'', source = ''youtube'', spotify = False, artistId = [], track_id = []\<rparr>) ''k'') \<noteq> Response 200 body"
    by (simp_all add: last10_def pick_def)
  show ?thesis using h similar_track_http_failure [OF h] by simp
qed

theorem similar_track_spotify_no_dedup_witness:
  "hist \<lparr>hist = [\<lparr>track_identifier = ''S'', source = ''spotify'', spotify = True, artistId = [''art''], track_id = ''sp''\<rparr>], upcoming = []\<rparr> \<noteq> [] \<and>
   \<lparr>track_identifier = ''S'', source = ''spotify'', spotify = True, artistId = [''art''], track_id = ''sp''\<rparr> =
     pick 0 (last10 (hist \<lparr>hist = [\<lparr>track_identifier = ''S'', source = ''spotify'', spotify = True, artistId = [''art''], track_id = ''sp''\<rparr>], upcoming = []\<rparr>)) \<and>
   similar_track \<lparr>spotify_related = (\<lambda>a t. Inr [\<lparr>track_identifier = ''S'', source = ''spotify'', spotify = True, artistId = [''art''], track_id = ''sp''\<rparr>]),
                  get_tracks = (\<lambda>u. Inr []), http_get = (\<lambda>u. TransportError)\<rparr> None 0
     \<lparr>hist = [\<lparr>track_identifier = ''S'', source = ''spotify'', spotify = True, artistId = [''art''], track_id = ''sp''\<rparr>], upcoming = []\<rparr> =
   (Inr True, add_track [\<lparr>track_identifier = ''S'', source = ''spotify'', spotify = True, artistId = [''art''], track_id = ''sp''\<rparr>]
      \<lparr>hist = [\<lparr>track_identifier = ''S'', source = ''spotify'', spotify = True, artistId = [''art''], track_id = ''sp''\<rparr>], upcoming = []\<rparr>)"
proof -
  have h: "hist \<lparr>hist = [\<lparr>track_identifier = ''S'', source = ''spotify'', spotify = True, artistId = [''art''], track_id = ''sp''\<rparr>], upcoming = []\<rparr> \<noteq> []"
    "\<lparr>track_identifier = ''S'', source = ''spotify'', spotify = True, artistId = [''art''], track_id = ''sp''\<rparr> =
     pick 0 (last10 (hist \<lparr>hist = [\<lparr>track_identifier = ''S'', source = ''spotify'', spotify = True, artistId = [''art''], track_id = ''sp''\<rparr>], upcoming = []\<rparr>))"
    "spotify \<lparr>track_identifier = ''S'', source = ''spotify'', spotify = True, artistId = [''art''], track_id = ''sp''\<rparr>"
    "artistId \<lparr>track_identifier = ''S'', source = ''spotify'', spotify = True, artistId = [''art''], track_id = ''sp''\<rparr> = ''art'' # []"
    "spotify_related \<lparr>spotify_related = (\<lambda>a t. Inr [\<lparr>track_identifier = ''S'', source = ''spotify'', spotify = True, artistId = [''art''], track_id = ''sp''\<rparr>]),
                  get_tracks = (\<lambda>u. Inr []), http_get = (\<lambda>u. TransportError)\<rparr> ''art''
       (track_id \<lparr>track_identifier = ''S'', source = ''spotify'', spotify = True, artistId = [''art''], track_id = ''sp''\<rparr>) =
       Inr [\<lparr>track_identifier = ''S'', source = ''spotify'', spotify = True, artistId = [''art''], track_id = ''sp''\<rparr>]"
    "[\<lparr>track_identifier = ''S'', source = ''spotify'', spotify = True, artistId = [''art''], track_id = ''sp''\<rparr>] \<noteq> []"
    by (simp_all add: last10_def pick_def)
  show ?thesis using h similar_track_spotify_no_dedup [OF h, of None] by simp
qed

theorem similar_track_spotify_no_artist_witness:
  "hist \<lparr>hist = [\<lparr>track_identifier = ''S'', source = ''spotify'', spotify = True, artistId = [], track_id = ''sp''\<rparr>], upcoming = []\<rparr> \<noteq> [] \<and>
   spotify (pick 7 (last10 (hist \<lparr>hist = [\<lparr>track_identifier = ''S'', source = ''spotify'', spotify = True, artistId = [], track_id = ''sp''\<rparr>], upcoming = []\<rparr>))) \<and>
   artistId (pick 7 (last10 (hist \<lparr>hist = [\<lparr>track_identifier = ''S'', source = ''spotify'', spotify = True, artistId = [], track_id = ''sp''\<rparr>], upcoming = []\<rparr>))) = [] \<and>
   similar_track \<lparr>spotify_related = (\<lambda>a t. Inr []), get_tracks = (\<lambda>u. Inr []), http_get = (\<lambda>u. TransportError)\<rparr> None 7
     \<lparr>hist = [\<lparr>track_identifier = ''S'', source = ''spotify'', spotify = True, artistId = [], track_id = ''sp''\<rparr>], upcoming = []\<rparr> =
   (Inl IndexError, \<lparr>hist = [\<lparr>track_identifier = ''S'', source = ''spotify'', spotify = True, artistId = [], track_id = ''sp''\<rparr>], upcoming = []\<rparr>)"
proof -
  have h: "hist \<lparr>hist = [\<lparr>track_identifier = ''S'', source = ''spotify'', spotify = True, artistId = [], track_id = ''sp''\<rparr>], upcoming = []\<rparr> \<noteq> []"
    "spotify (pick 7 (last10 (hist \<lparr>hist = [\<lparr>track_identifier = ''S'', source = ''spotify'', spotify = True, artistId = [], track_id = ''sp''\<rparr>], upcoming = []\<rparr>)))"
    "artistId (pick 7 (last10 (hist \<lparr>hist = [\<lparr>track_identifier = ''S'', source = ''spotify'', spotify = True, artistId = [], track_id = ''sp''\<rparr>], upcoming = []\<rparr>))) = []"
    by (simp_all add: last10_def pick_def)
  show ?thesis using h similar_track_spotify_no_artist [OF h] by blast
qed

theorem similar_track_dedup_example_witness:
  "http_get \<lparr>spotify_related = (\<lambda>a t. Inr []), get_tracks = (\<lambda>u. Inr [\<lparr>track_identifier = ''B'', source = ''youtube'', spotify = False, artistId = [], track_id = []\<rparr>]),
             http_get = (\<lambda>u. Response 200 (Some (JObj [(''items'', JArr
               [JObj [(''id'', JObj [(''videoId'', JStr ''A'')]), (''snippet'', JObj [])],
                JObj [(''id'', JObj [(''videoId'', JStr ''B'')]), (''snippet'', JObj [])]])])))\<rparr>
     (search_url ''A'' ''k'') =
     Response 200 (Some (JObj [(''items'', JArr
               [JObj [(''id'', JObj [(''videoId'', JStr ''A'')]), (''snippet'', JObj [])],
                JObj [(''id'', JObj [(''videoId'', JStr ''B'')]), (''snippet'', JObj [])]])])) \<and>
   similar_track \<lparr>spotify_related = (\<lambda>a t. Inr []), get_tracks = (\<lambda>u. Inr [\<lparr>track_identifier = ''B'', source = ''youtube'', spotify = False, artistId = [], track_id = []\<rparr>]),
             http_get = (\<lambda>u. Response 200 (Some (JObj [(''items'', JArr
               [JObj [(''id'', JObj [(''videoId'', JStr ''A'')]), (''snippet'', JObj [])],
                JObj [(''id'', JObj [(''videoId'', JStr ''B'')]), (''snippet'', JObj [])]])])))\<rparr> (Some ''k'') 0
     \<lparr>hist = [\<lparr>track_identifier = ''A'', source = ''youtube'', spotify = False, artistId = [], track_id = []\<rparr>], upcoming = []\<rparr> =
   (Inr True, \<lparr>hist = [\<lparr>track_identifier = ''A'', source = ''youtube'', spotify = False, artistId = [], track_id = []\<rparr>],
               upcoming = [] @ [\<lparr>track_identifier = ''B'', source = ''youtube'', spotify = False, artistId = [], track_id = []\<rparr>]\<rparr>)"
  using similar_track_dedup_example [of "\<lparr>spotify_related = (\<lambda>a t. Inr []), get_tracks = (\<lambda>u. Inr [\<lparr>track_identifier = ''B'', source = ''youtube'', spotify = False, artistId = [], track_id = []\<rparr>]),
             http_get = (\<lambda>u. Response 200 (Some (JObj [(''items'', JArr
               [JObj [(''id'', JObj [(''videoId'', JStr ''A'')]), (''snippet'', JObj [])],
                JObj [(''id'', JObj [(''videoId'', JStr ''B'')]), (''snippet'', JObj [])]])])))\<rparr>" "''k''"
      "\<lparr>track_identifier = ''B'', source = ''youtube'', spotify = False, artistId = [], track_id = []\<rparr>" 0 "[]"]
  by simp

theorem similar_track_spec_example_no_snippet_witness:
  "http_get \<lparr>spotify_related = (\<lambda>a t. Inr []), get_tracks = (\<lambda>u. Inr [\<lparr>track_identifier = ''B'', source = ''youtube'', spotify = False, artistId = [], track_id = []\<rparr>]),
             http_get = (\<lambda>u. Response 200 (Some (JObj [(''items'', JArr
               [JObj [(''id'', JObj [(''videoId'', JStr ''A'')])],
                JObj [(''id'', JObj [(''videoId'', JStr ''B'')])]])])))\<rparr>
     (search_url ''A'' ''k'') =
     Response 200 (Some (JObj [(''items'', JArr
               [JObj [(''id'', JObj [(''videoId'', JStr ''A'')])],
                JObj [(''id'', JObj [(''videoId'', JStr ''B'')])]])])) \<and>
   similar_track \<lparr>spotify_related = (\<lambda>a t. Inr []), get_tracks = (\<lambda>u. Inr [\<lparr>track_identifier = ''B'', source = ''youtube'', spotify = False, artistId = [], track_id = []\<rparr>]),
             http_get = (\<lambda>u. Response 200 (Some (JObj [(''items'', JArr
               [JObj [(''id'', JObj [(''videoId'', JStr ''A'')])],
                JObj [(''id'', JObj [(''videoId'', JStr ''B'')])]])])))\<rparr> (Some ''k'') 0
     \<lparr>hist = [\<lparr>track_identifier = ''A'', source = ''youtube'', spotify = False, artistId = [], track_id = []\<rparr>], upcoming = []\<rparr> =
   (Inr False, \<lparr>hist = [\<lparr>track_identifier = ''A'', source = ''youtube'', spotify = False, artistId = [], track_id = []\<rparr>], upcoming = []\<rparr>)"
  using similar_track_spec_example_no_snippet [of "\<lparr>spotify_related = (\<lambda>a t. Inr []), get_tracks = (\<lambda>u. Inr [\<lparr>track_identifier = ''B'', source = ''youtube'', spotify = False, artistId = [], track_id = []\<rparr>]),
             http_get = (\<lambda>u. Response 200 (Some (JObj [(''items'', JArr
               [JObj [(''id'', JObj [(''videoId'', JStr ''A'')])],
                JObj [(''id'', JObj [(''videoId'', JStr ''B'')])]])])))\<rparr>" "''k''" 0 "[]"]
  by simp

end
