(* ===== verification/Report.thy ===== *)
theory Report
  imports Prelude
begin

text \<open>
  Reporting: \<^verbatim>\<open>gen_report\<close> of \<^verbatim>\<open>src/function.py\<close> (lines 265--276) over the
  module-level \<^verbatim>\<open>error_log\<close> (guild id to a dictionary from Unix timestamp to error
  text).  The code that fills \<^verbatim>\<open>error_log\<close> lives outside \<^verbatim>\<open>src/\<close>; \<open>log_error\<close>
  models it from the spec (section 4.5: per-guild accumulation, append-only).
  \<^verbatim>\<open>datetime.fromtimestamp\<close> depends on the local time zone and is the parameter
  \<open>fmt_time\<close>.  The \<^verbatim>\<open>discord.File\<close> is its file name and its content; strings are
  already byte strings in the model, so \<^verbatim>\<open>encode('utf-8')\<close> is the identity.
\<close>

type_synonym error_log = "(int, (int, string) pydict) pydict"

definition nl :: string where
  "nl = [CHR 0x0A]"

definition dashes :: string where
  "dashes = replicate 30 (CHR ''-'')"

text \<open>One entry of a guild's block, numbered from 1 (line 271).\<close>

definition report_entry :: "(int \<Rightarrow> string) \<Rightarrow> nat \<Rightarrow> int \<Rightarrow> string \<Rightarrow> string" where
  "report_entry fmt_time i key value =
     ''Error No: '' @ string_of_nat i @ '', Time: '' @ fmt_time key @ nl @ value @ dashes @ nl @ nl"

fun report_entries :: "(int \<Rightarrow> string) \<Rightarrow> nat \<Rightarrow> (int, string) pydict \<Rightarrow> string" where
  "report_entries fmt_time i [] = []"
| "report_entries fmt_time i ((key, value) # rest) =
     report_entry fmt_time i key value @ report_entries fmt_time (Suc i) rest"

text \<open>One guild's block (lines 269--271).\<close>

definition report_block :: "(int \<Rightarrow> string) \<Rightarrow> int \<Rightarrow> (int, string) pydict \<Rightarrow> string" where
  "report_block fmt_time guild_id errs =
     ''Guild ID: '' @ string_of_int guild_id @ nl @ dashes @ nl @ report_entries fmt_time 1 errs"

definition gen_report :: "(int \<Rightarrow> string) \<Rightarrow> error_log \<Rightarrow> (string \<times> string) option" where
  "gen_report fmt_time error_log =
     (if error_log \<noteq> []
      then Some (''report.txt'', concat (map (\<lambda>(g, errs). report_block fmt_time g errs) error_log))
      else None)"

text \<open>Recording an error of a guild at a timestamp (outside \<^verbatim>\<open>src/\<close>, from the spec).\<close>

definition log_error :: "int \<Rightarrow> int \<Rightarrow> string \<Rightarrow> error_log \<Rightarrow> error_log" where
  "log_error guild_id ts text log =
     dset guild_id (dset ts text (case map_of log guild_id of None \<Rightarrow> [] | Some errs \<Rightarrow> errs)) log"

text \<open>Occurrences of a word in a text, at every position (used to state what the
  report contains).\<close>

fun occurrences :: "string \<Rightarrow> string \<Rightarrow> nat" where
  "occurrences w [] = (if w = [] then 1 else 0)"
| "occurrences w (c # s) = (if prefix w (c # s) then 1 else 0) + occurrences w s"

section \<open>Properties\<close>

lemma in_set_dset: "(k, v) \<in> set (dset k v d)"
  by (induction d rule: dset.induct) auto

lemma sublist_in_left: "sublist x ys \<Longrightarrow> sublist x (zs @ ys)"
  using sublist_order.order.trans [OF _ sublist_append_leftI] by blast

lemma sublist_in_right: "sublist x ys \<Longrightarrow> sublist x (ys @ zs)"
  using sublist_order.order.trans [OF _ sublist_append_rightI] by blast

lemma sublist_concat: "x \<in> set xs \<Longrightarrow> sublist x (concat xs)"
proof (induction xs)
  case (Cons y ys)
  then show ?case
    by (auto intro: sublist_in_left)
qed simp

lemma sublist_report_entries:
  "(k, v) \<in> set errs \<Longrightarrow> sublist v (report_entries fmt i errs)"
proof (induction fmt i errs rule: report_entries.induct)
  case (2 fmt i key val rest)
  show ?case
  proof (cases "(k, v) = (key, val)")
    case True
    then have "sublist v (report_entry fmt i key val)"
      unfolding report_entry_def
      using sublist_appendI [of v "''Error No: '' @ string_of_nat i @ '', Time: '' @ fmt key @ nl"
          "dashes @ nl @ nl"] by simp
    then show ?thesis by (auto intro: sublist_in_right)
  next
    case False
    with "2.prems" have "(k, v) \<in> set rest" by auto
    with "2.IH" show ?thesis by (auto intro: sublist_in_left)
  qed
qed simp

text \<open>\<^verbatim>\<open>gen_report\<close> signals ``nothing to report'' (\<^verbatim>\<open>None\<close>) exactly when the
  error log is empty.\<close>

theorem gen_report_none_iff: "gen_report fmt log = None \<longleftrightarrow> log = []"
  by (simp add: gen_report_def)

text \<open>C34. Every recorded error is exported: after recording \<open>msg\<close> for a guild, the report
  exists and contains \<open>msg\<close> and the guild's header \<^verbatim>\<open>Guild ID: g\<close>.\<close>

theorem logged_error_reported:
  "\<exists>text. gen_report fmt (log_error g ts msg log) = Some (''report.txt'', text) \<and>
          sublist msg text \<and> sublist (''Guild ID: '' @ string_of_int g) text"
proof -
  let ?errs = "dset ts msg (case map_of log g of None \<Rightarrow> [] | Some errs \<Rightarrow> errs)"
  let ?text = "concat (map (\<lambda>(g, errs). report_block fmt g errs) (log_error g ts msg log))"
  have mem: "(g, ?errs) \<in> set (log_error g ts msg log)"
    by (simp add: log_error_def in_set_dset)
  then have blk: "sublist (report_block fmt g ?errs) ?text"
    by (force intro: sublist_concat)
  have "sublist msg (report_block fmt g ?errs)"
    using sublist_report_entries [OF in_set_dset [of ts msg]]
    unfolding report_block_def
    using sublist_in_left [of msg "report_entries fmt 1 ?errs" "''Guild ID: '' @ string_of_int g @ nl @ dashes @ nl"]
    by simp
  moreover have "sublist (''Guild ID: '' @ string_of_int g) (report_block fmt g ?errs)"
    by (auto simp: report_block_def)
  moreover have "gen_report fmt (log_error g ts msg log) = Some (''report.txt'', ?text)"
    using mem by (auto simp: gen_report_def)
  ultimately show ?thesis using blk by (meson sublist_order.order.trans)
qed

text \<open>The spec's example: with two guilds holding one error each, the report file
  \<^verbatim>\<open>report.txt\<close> names both guilds and contains two \<^verbatim>\<open>Error No: 1\<close> headers.\<close>

theorem gen_report_two_guilds_example:
  "(case gen_report (\<lambda>_. ''T'') [(1, [(0, ''boom'' @ nl)]), (2, [(60, ''bang'' @ nl)])] of
      None \<Rightarrow> False
    | Some (name, text) \<Rightarrow>
        name = ''report.txt'' \<and> sublist ''Guild ID: 1'' text \<and> sublist ''Guild ID: 2'' text \<and>
        occurrences ''Error No: 1'' text = 2)"
  by code_simp

end
