(* ===== verification/Format.thy ===== *)
theory Format
  imports Prelude
begin

text \<open>
  Small helpers of \<^verbatim>\<open>src/function.py\<close>: \<^verbatim>\<open>time\<close> (lines 239--246), \<^verbatim>\<open>emoji_source\<close>
  (262--263), \<^verbatim>\<open>cooldown_check\<close> (278--284) and \<^verbatim>\<open>get_aliases\<close> (286--287).  The
  module-level tables they read (\<^verbatim>\<open>emoji_source_raw\<close>, \<^verbatim>\<open>bot_access_user\<close>,
  \<^verbatim>\<open>cooldowns_settings\<close>, \<^verbatim>\<open>aliases_settings\<close>) are parameters.

  \<^verbatim>\<open>time\<close> computes with floats: \<^verbatim>\<open>(millis/1000)%60\<close> and so on, rendered with
  \<^verbatim>\<open>%02d\<close>, which truncates.  For a non-negative float \<open>x mod c\<close> truncation is the
  floor, and \<open>\<lfloor>(m/1000) mod 60\<rfloor> = (m div 1000) mod 60\<close> in exact arithmetic; the test
  \<^verbatim>\<open>hours > 1\<close> is \<open>m mod 86400000 > 3600000\<close>.  The model is this exact arithmetic,
  which the floats reproduce for \<open>|m| < 2^43\<close> milliseconds (no rounding can reach an
  integer boundary there).
\<close>

definition pad2 :: "nat \<Rightarrow> string" where
  "pad2 n = (if n < 10 then CHR ''0'' # string_of_nat n else string_of_nat n)"

definition time_fmt :: "int \<Rightarrow> string" where
  "time_fmt millis =
     (let seconds = nat ((millis div 1000) mod 60);
          minutes = nat ((millis div 60000) mod 60);
          hours = nat ((millis div 3600000) mod 24)
      in if millis mod 86400000 > 3600000
         then pad2 hours @ '':'' @ pad2 minutes @ '':'' @ pad2 seconds
         else pad2 minutes @ '':'' @ pad2 seconds)"

text \<open>\<^verbatim>\<open>str.lower()\<close> on ASCII letters; other bytes are kept.\<close>

definition ascii_lower :: "string \<Rightarrow> string" where
  "ascii_lower s =
     map (\<lambda>c. if (65::nat) \<le> of_char c \<and> of_char c \<le> (90::nat) then char_of (of_char c + (32::nat)) else c) s"

text \<open>The default is the link emoji U+1F517, as its UTF-8 bytes.\<close>

definition emoji_source :: "(string, string) pydict \<Rightarrow> string \<Rightarrow> string" where
  "emoji_source emoji_source_raw emoji =
     (case map_of emoji_source_raw (ascii_lower emoji) of
        Some e \<Rightarrow> e
      | None \<Rightarrow> [CHR 0xF0, CHR 0x9F, CHR 0x94, CHR 0x97])"

definition get_aliases :: "(string, string list) pydict \<Rightarrow> string \<Rightarrow> string list" where
  "get_aliases aliases_settings name =
     (case map_of aliases_settings name of Some l \<Rightarrow> l | None \<Rightarrow> [])"

text \<open>\<^verbatim>\<open>cooldown_check\<close>: exempt users have no cooldown; otherwise the entry of
  \<^verbatim>\<open>"parent name"\<close> (a subcommand) or \<^verbatim>\<open>"name"\<close>; a missing or falsy entry is no
  cooldown; \<^verbatim>\<open>cooldown[0]\<close>, \<^verbatim>\<open>cooldown[1]\<close> raise on a short list.  The result is
  the \<^verbatim>\<open>(rate, per)\<close> pair of the \<^verbatim>\<open>commands.Cooldown\<close>.  A truthy entry that
  is not a list (the settings file gives lists) is modelled as raising \<^verbatim>\<open>TypeError\<close>.\<close>

definition cooldown_check ::
  "int list \<Rightarrow> (string, jval) pydict \<Rightarrow> int \<Rightarrow> string option \<Rightarrow> string \<Rightarrow> py_exc + (jval \<times> jval) option" where
  "cooldown_check bot_access_user cooldowns_settings author parent name =
     (if author \<in> set bot_access_user then Inr None
      else (let key = (case parent of Some p \<Rightarrow> p @ '' '' @ name | None \<Rightarrow> name) in
            case map_of cooldowns_settings key of
              None \<Rightarrow> Inr None
            | Some cd \<Rightarrow>
                (if \<not> py_truthy cd then Inr None
                 else (case cd of
                         JArr (rate # per # _) \<Rightarrow> Inr (Some (rate, per))
                       | JArr _ \<Rightarrow> Inl IndexError
                       | _ \<Rightarrow> Inl TypeError))))"

section \<open>Properties\<close>

lemma string_of_nat_small: "n < 10 \<Longrightarrow> string_of_nat n = [char_of (48 + n)]"
  by (simp add: string_of_nat.simps)

lemma length_string_of_nat_lt100: "n < 100 \<Longrightarrow> length (string_of_nat n) = (if n < 10 then 1 else 2)"
  by (subst string_of_nat.simps) (auto simp: string_of_nat_small)

lemma length_pad2: "n < 100 \<Longrightarrow> length (pad2 n) = 2"
  by (simp add: pad2_def length_string_of_nat_lt100)

lemma nat_mod_lt100: "0 < (c::int) \<Longrightarrow> c \<le> 100 \<Longrightarrow> nat (x mod c) < 100"
proof -
  assume "0 < c" "c \<le> 100"
  then have "x mod c < 100" using pos_mod_bound [of c x] by linarith
  then show ?thesis by simp
qed

lemma div_mod_shift: "(c::int) \<noteq> 0 \<Longrightarrow> (m + k * d * c) div c mod d = m div c mod d"
  by simp

lemma ascii_lower_char_idem:
  "(if (65::nat) \<le> of_char c' \<and> of_char c' \<le> (90::nat) then char_of (of_char c' + (32::nat)) else c') = c'"
  if "c' = (if (65::nat) \<le> of_char c \<and> of_char c \<le> (90::nat) then char_of (of_char c + (32::nat)) else c)"
  for c c'
proof (cases "(65::nat) \<le> of_char c \<and> of_char c \<le> (90::nat)")
  case True
  then have "of_char c' = (of_char c + 32 :: nat)"
    using that by (simp add: of_char_of)
  with True show ?thesis by simp
next
  case False
  with that have "c' = c" by simp
  then show ?thesis by (simp only: if_not_P [OF False])
qed

text \<open>C35. Where the hour field appears: for every duration, \<^verbatim>\<open>time\<close> prints the
  eight characters \<^verbatim>\<open>HH:MM:SS\<close> exactly when the time of day is above one hour, and
  \<^verbatim>\<open>MM:SS\<close> otherwise.  The test \<^verbatim>\<open>hours > 1\<close> is strict, so a time of day of exactly
  one hour loses its hour field.\<close>

theorem time_fmt_hour_field: "length (time_fmt m) = 8 \<longleftrightarrow> 3600000 < m mod 86400000"
  by (simp add: time_fmt_def Let_def length_pad2 nat_mod_lt100)

text \<open>The boundary itself: one hour is printed \<^verbatim>\<open>00:00\<close>, as zero is.\<close>

theorem time_fmt_one_hour: "time_fmt 3600000 = ''00:00''"
  by code_simp

text \<open>Below one hour \<^verbatim>\<open>time\<close> prints the zero-padded minutes and seconds.\<close>

theorem time_fmt_under_hour:
  "0 \<le> m \<Longrightarrow> m < 3600000 \<Longrightarrow>
   time_fmt m = pad2 (nat (m div 60000)) @ '':'' @ pad2 (nat ((m div 1000) mod 60))"
  by (simp add: time_fmt_def Let_def)

text \<open>\<^verbatim>\<open>time\<close> always prints \<^verbatim>\<open>MM:SS\<close> or \<^verbatim>\<open>HH:MM:SS\<close>: five or eight
  characters, every field two digits.\<close>

theorem time_fmt_length: "length (time_fmt m) = 5 \<or> length (time_fmt m) = 8"
  by (simp add: time_fmt_def Let_def length_pad2 nat_mod_lt100)

text \<open>C36. \<^verbatim>\<open>time\<close> has no day field: a duration and the same duration plus 24 hours
  print the same text.\<close>

theorem time_fmt_day_periodic: "time_fmt (m + 86400000) = time_fmt m"
proof -
  have s: "(m + 86400000) div 1000 mod 60 = m div 1000 mod 60"
    using div_mod_shift [of 1000 m 1440 60] by simp
  have mi: "(m + 86400000) div 60000 mod 60 = m div 60000 mod 60"
    using div_mod_shift [of 60000 m 24 60] by simp
  have h: "(m + 86400000) div 3600000 mod 24 = m div 3600000 mod 24"
    using div_mod_shift [of 3600000 m 1 24] by simp
  show ?thesis by (simp add: time_fmt_def Let_def s mi h)
qed

text \<open>\<^verbatim>\<open>emoji_source\<close> is case-insensitive: the name is lowered before the lookup.\<close>

theorem emoji_source_case_insensitive:
  "emoji_source raw (ascii_lower e) = emoji_source raw e"
proof -
  have "ascii_lower (ascii_lower e) = ascii_lower e"
    unfolding ascii_lower_def by (simp add: ascii_lower_char_idem)
  then show ?thesis by (simp add: emoji_source_def)
qed

text \<open>A user of \<^verbatim>\<open>bot_access_user\<close> never has a cooldown, whatever the settings.\<close>

theorem cooldown_check_exempt:
  "author \<in> set bot_access_user \<Longrightarrow> cooldown_check bot_access_user cds author parent name = Inr None"
  by (simp add: cooldown_check_def)

text \<open>A subcommand's cooldown is looked up under \<^verbatim>\<open>"parent name"\<close>; a truthy entry with
  fewer than two items raises \<^verbatim>\<open>IndexError\<close> instead of giving a cooldown.\<close>

theorem cooldown_check_short_entry:
  "author \<notin> set bot_access_user \<Longrightarrow> map_of cds (p @ '' '' @ name) = Some (JArr [x]) \<Longrightarrow>
   cooldown_check bot_access_user cds author (Some p) name = Inl IndexError"
  by (simp add: cooldown_check_def)

lemma time_fmt_under_hour_witness:
  "0 \<le> (185000::int) \<and> (185000::int) < 3600000 \<and>
   time_fmt 185000 = pad2 (nat (185000 div 60000)) @ '':'' @ pad2 (nat ((185000 div 1000) mod 60))"
  using time_fmt_under_hour [of 185000] by simp

lemma cooldown_check_exempt_witness:
  "(7::int) \<in> set [7] \<and> cooldown_check [7] [(''play'', JArr [JInt 1, JInt 5])] 7 None ''play'' = Inr None"
  using cooldown_check_exempt [of 7 "[7]" "[(''play'', JArr [JInt 1, JInt 5])]" None "''play''"] by simp

lemma cooldown_check_short_entry_witness:
  "(8::int) \<notin> set [7] \<and> map_of [(''play now'', JArr [JInt 1])] (''play'' @ '' '' @ ''now'') = Some (JArr [JInt 1]) \<and>
   cooldown_check [7] [(''play now'', JArr [JInt 1])] 8 (Some ''play'') ''now'' = Inl IndexError"
proof -
  have h: "(8::int) \<notin> set [7]" "map_of [(''play now'', JArr [JInt 1])] (''play'' @ '' '' @ ''now'') = Some (JArr [JInt 1])"
    by simp_all
  show ?thesis using h cooldown_check_short_entry [OF h] by blast
qed

end
