(* ===== verification/TimeParse.thy ===== *)
theory TimeParse
  imports Format
begin

text \<open>
  \<^verbatim>\<open>formatTime\<close> of \<^verbatim>\<open>src/function.py\<close> (lines 248--259) and the part of
  \<^verbatim>\<open>time.strptime\<close> it relies on.  CPython's \<^verbatim>\<open>_strptime\<close> turns the format into a
  regular expression (\<^verbatim>\<open>%H\<close> is \<^verbatim>\<open>2[0-3]|[0-1]\d|\d\<close>, \<^verbatim>\<open>%M\<close> is
  \<^verbatim>\<open>[0-5]\d|\d\<close>, \<^verbatim>\<open>%S\<close> is \<^verbatim>\<open>6[0-1]|[0-5]\d|\d\<close>, other characters literal),
  takes the first match at the start of the string in backtracking order, and raises
  \<^verbatim>\<open>ValueError\<close> when there is none or when unconverted data remains.  \<open>match_fmt\<close>
  is that search: the alternatives of a directive are tried in order and the first one
  with which the rest of the format matches wins.  Strings are byte strings, so
  \<^verbatim>\<open>\d\<close> is an ASCII digit (Python also accepts other Unicode digits).
\<close>

datatype fmt_item = FLit char | FDir char

fun compile_fmt :: "string \<Rightarrow> fmt_item list" where
  "compile_fmt [] = []"
| "compile_fmt (c # d # rest) =
     (if c = CHR ''%'' then FDir d # compile_fmt rest else FLit c # compile_fmt (d # rest))"
| "compile_fmt [c] = [FLit c]"

definition digit_in :: "nat \<Rightarrow> nat \<Rightarrow> char \<Rightarrow> bool" where
  "digit_in lo hi c \<longleftrightarrow> 48 + lo \<le> (of_char c :: nat) \<and> (of_char c :: nat) \<le> 48 + hi"

definition digit_val :: "char \<Rightarrow> nat" where
  "digit_val c = of_char c - 48"

text \<open>The alternative \<^verbatim>\<open>[a-b][c-d]\<close> and the alternative \<^verbatim>\<open>\d\<close>.\<close>

fun alt2 :: "nat \<times> nat \<Rightarrow> nat \<times> nat \<Rightarrow> string \<Rightarrow> (nat \<times> string) list" where
  "alt2 (lo1, hi1) (lo2, hi2) (a # b # r) =
     (if digit_in lo1 hi1 a \<and> digit_in lo2 hi2 b then [(10 * digit_val a + digit_val b, r)] else [])"
| "alt2 _ _ _ = []"

fun alt1 :: "string \<Rightarrow> (nat \<times> string) list" where
  "alt1 (a # r) = (if digit_in 0 9 a then [(digit_val a, r)] else [])"
| "alt1 [] = []"

definition dir_alts :: "char \<Rightarrow> string \<Rightarrow> (nat \<times> string) list" where
  "dir_alts d s =
     (if d = CHR ''H'' then alt2 (2, 2) (0, 3) s @ alt2 (0, 1) (0, 9) s @ alt1 s
      else if d = CHR ''M'' then alt2 (0, 5) (0, 9) s @ alt1 s
      else if d = CHR ''S'' then alt2 (6, 6) (0, 1) s @ alt2 (0, 5) (0, 9) s @ alt1 s
      else [])"

fun first_some :: "'a option list \<Rightarrow> 'a option" where
  "first_some [] = None"
| "first_some (Some x # _) = Some x"
| "first_some (None # xs) = first_some xs"

fun match_fmt :: "fmt_item list \<Rightarrow> string \<Rightarrow> ((char \<times> nat) list \<times> string) option" where
  "match_fmt [] s = Some ([], s)"
| "match_fmt (FLit c # ps) s =
     (case s of
        c' # s' \<Rightarrow> (if c' = c then match_fmt ps s' else None)
      | [] \<Rightarrow> None)"
| "match_fmt (FDir d # ps) s =
     first_some (map (\<lambda>(v, s'). map_option (\<lambda>(vs, r). ((d, v) # vs, r)) (match_fmt ps s')) (dir_alts d s))"

text \<open>\<^verbatim>\<open>strptime\<close>: the fields found, or \<^verbatim>\<open>ValueError\<close>; the fields of the
  \<^verbatim>\<open>struct_time\<close> not in the format are 0.\<close>

definition strptime :: "string \<Rightarrow> string \<Rightarrow> py_exc + (char \<times> nat) list" where
  "strptime s fmt =
     (case match_fmt (compile_fmt fmt) s of
        Some (vs, []) \<Rightarrow> Inr vs
      | _ \<Rightarrow> Inl ValueError)"

definition tm_field :: "(char \<times> nat) list \<Rightarrow> char \<Rightarrow> nat" where
  "tm_field vs d = (case map_of vs d of Some v \<Rightarrow> v | None \<Rightarrow> 0)"

definition formatTime :: "string \<Rightarrow> int option" where
  "formatTime number =
     (case (case strptime number ''%M:%S'' of
              Inr num \<Rightarrow> Inr num
            | Inl _ \<Rightarrow> (case strptime number ''%S'' of
                          Inr num \<Rightarrow> Inr num
                        | Inl _ \<Rightarrow> strptime number ''%H:%M:%S'')) of
        Inl _ \<Rightarrow> None
      | Inr num \<Rightarrow>
          Some ((int (tm_field num CHR ''H'') * 3600 + int (tm_field num CHR ''M'') * 60 +
                 int (tm_field num CHR ''S'')) * 1000))"

text \<open>The largest value each directive's regular expression accepts (used to state
  bounds).\<close>

definition dir_max :: "char \<Rightarrow> nat" where
  "dir_max d = (if d = CHR ''H'' then 23 else if d = CHR ''M'' then 59 else if d = CHR ''S'' then 61 else 0)"

text \<open>The digit character of a number below ten.\<close>

abbreviation dchar :: "nat \<Rightarrow> char" where
  "dchar k \<equiv> char_of (48 + k)"

section \<open>Evaluation lemmas\<close>


lemma char_of_48: "char_of (48 :: nat) = CHR ''0''"
  by code_simp

lemma pad2_digits: "n < 100 \<Longrightarrow> pad2 n = [dchar (n div 10), dchar (n mod 10)]"
proof -
  assume "n < 100"
  then have "n div 10 < 10" by linarith
  then show ?thesis by (simp add: pad2_def string_of_nat.simps char_of_48)
qed

lemma of_char_dchar: "k < 10 \<Longrightarrow> (of_char (dchar k) :: nat) = 48 + k"
  by (simp add: of_char_of)

lemma digit_in_dchar [simp]: "k < 10 \<Longrightarrow> digit_in lo hi (dchar k) \<longleftrightarrow> lo \<le> k \<and> k \<le> hi"
  by (auto simp: digit_in_def of_char_dchar)

lemma digit_val_dchar [simp]: "k < 10 \<Longrightarrow> digit_val (dchar k) = k"
  by (simp add: digit_val_def of_char_dchar)

lemma dchar_colon [simp]: "k < 10 \<Longrightarrow> dchar k \<noteq> CHR '':''"
proof
  assume "k < 10" "dchar k = CHR '':''"
  then have "(of_char (dchar k) :: nat) = of_char CHR '':''" by simp
  with \<open>k < 10\<close> show False by (simp add: of_char_dchar)
qed

lemma alt2_dchar:
  "a < 10 \<Longrightarrow> b < 10 \<Longrightarrow> alt2 (lo1, hi1) (lo2, hi2) (dchar a # dchar b # r) =
     (if lo1 \<le> a \<and> a \<le> hi1 \<and> lo2 \<le> b \<and> b \<le> hi2 then [(10 * a + b, r)] else [])"
  by simp

lemma alt1_dchar: "a < 10 \<Longrightarrow> alt1 (dchar a # r) = [(a, r)]"
  by simp

lemma dir_alts_M: "a \<le> 5 \<Longrightarrow> b < 10 \<Longrightarrow> dir_alts CHR ''M'' (dchar a # dchar b # r) = [(10 * a + b, r), (a, dchar b # r)]"
  by (simp add: dir_alts_def)

lemma dir_alts_S: "a \<le> 5 \<Longrightarrow> b < 10 \<Longrightarrow> dir_alts CHR ''S'' (dchar a # dchar b # r) = [(10 * a + b, r), (a, dchar b # r)]"
  by (simp add: dir_alts_def)

lemma dir_alts_H:
  "a \<le> 2 \<Longrightarrow> b < 10 \<Longrightarrow> (a = 2 \<longrightarrow> b \<le> 3) \<Longrightarrow> \<exists>rest. dir_alts CHR ''H'' (dchar a # dchar b # r) = (10 * a + b, r) # rest"
  by (cases "a \<le> 1") (simp_all add: dir_alts_def)

lemma first_some_map_Cons:
  "first_some (map f (x # xs)) = (case f x of Some y \<Rightarrow> Some y | None \<Rightarrow> first_some (map f xs))"
  by (cases "f x") simp_all

lemma strptime_ms:
  assumes "a1 \<le> 5" "b1 < 10" "a2 \<le> 5" "b2 < 10"
  shows "strptime [dchar a1, dchar b1, CHR '':'', dchar a2, dchar b2] ''%M:%S'' =
           Inr [(CHR ''M'', 10 * a1 + b1), (CHR ''S'', 10 * a2 + b2)]"
  using assms by (simp add: strptime_def dir_alts_M dir_alts_S first_some_map_Cons)

lemma strptime_ms_on_hms:
  assumes "a0 \<le> 2" "b0 < 10" "a1 \<le> 5" "b1 < 10" "a2 < 10" "b2 < 10"
  shows "strptime [dchar a0, dchar b0, CHR '':'', dchar a1, dchar b1, CHR '':'', dchar a2, dchar b2] ''%M:%S'' = Inl ValueError"
  using assms by (simp add: strptime_def dir_alts_M dir_alts_S first_some_map_Cons)

lemma strptime_s_on_hms:
  assumes "a0 \<le> 2" "b0 < 10" "a1 < 10" "b1 < 10" "a2 < 10" "b2 < 10"
  shows "strptime [dchar a0, dchar b0, CHR '':'', dchar a1, dchar b1, CHR '':'', dchar a2, dchar b2] ''%S'' = Inl ValueError"
  using assms by (simp add: strptime_def dir_alts_S first_some_map_Cons)

lemma strptime_hms:
  assumes "a0 \<le> 2" "b0 < 10" "a0 = 2 \<longrightarrow> b0 \<le> 3" "a1 \<le> 5" "b1 < 10" "a2 \<le> 5" "b2 < 10"
  shows "strptime [dchar a0, dchar b0, CHR '':'', dchar a1, dchar b1, CHR '':'', dchar a2, dchar b2] ''%H:%M:%S'' =
           Inr [(CHR ''H'', 10 * a0 + b0), (CHR ''M'', 10 * a1 + b1), (CHR ''S'', 10 * a2 + b2)]"
proof -
  obtain rest where h: "dir_alts CHR ''H'' (dchar a0 # dchar b0 # CHR '':'' # dchar a1 # dchar b1 # CHR '':'' # dchar a2 # dchar b2 # []) =
      (10 * a0 + b0, CHR '':'' # dchar a1 # dchar b1 # CHR '':'' # dchar a2 # dchar b2 # []) # rest"
    using dir_alts_H assms(1-3) by blast
  show ?thesis
    using assms by (simp add: strptime_def h dir_alts_M dir_alts_S first_some_map_Cons)
qed


lemma formatTime_ms_pad:
  assumes "m < 60" "s < 60"
  shows "formatTime (pad2 m @ '':'' @ pad2 s) = Some ((int m * 60 + int s) * 1000)"
proof -
  have d: "m div 10 \<le> 5" "m mod 10 < 10" "s div 10 \<le> 5" "s mod 10 < 10" using assms by simp_all
  have "10 * (m div 10) + m mod 10 = m" "10 * (s div 10) + s mod 10 = s" by simp_all
  with d show ?thesis
    using assms by (simp add: pad2_digits formatTime_def strptime_ms tm_field_def)
qed

lemma formatTime_hms_pad:
  assumes "h < 24" "m < 60" "s < 60"
  shows "formatTime (pad2 h @ '':'' @ pad2 m @ '':'' @ pad2 s) =
           Some ((int h * 3600 + int m * 60 + int s) * 1000)"
proof -
  have d: "h div 10 \<le> 2" "h mod 10 < 10" "h div 10 = 2 \<longrightarrow> h mod 10 \<le> 3"
    "m div 10 \<le> 5" "m mod 10 < 10" "s div 10 \<le> 5" "s mod 10 < 10"
    using assms by (simp_all add: less_Suc_eq_le [symmetric]) presburger
  have "10 * (h div 10) + h mod 10 = h" "10 * (m div 10) + m mod 10 = m" "10 * (s div 10) + s mod 10 = s"
    by simp_all
  moreover have "h div 10 < 10" "m div 10 < 10" "s div 10 < 10" using d by simp_all
  ultimately show ?thesis
    using strptime_ms_on_hms [of "h div 10" "h mod 10" "m div 10" "m mod 10" "s div 10" "s mod 10"]
      strptime_s_on_hms [of "h div 10" "h mod 10" "m div 10" "m mod 10" "s div 10" "s mod 10"]
      strptime_hms [of "h div 10" "h mod 10" "m div 10" "m mod 10" "s div 10" "s mod 10"] d
    by (simp add: pad2_digits formatTime_def tm_field_def)
qed

lemma time_parts:
  fixes x :: int
  assumes "0 \<le> x" "x < 86400000"
  shows "(x div 3600000 mod 24) * 3600 + (x div 60000 mod 60) * 60 + x div 1000 mod 60 = x div 1000"
    and "x < 3600000 \<Longrightarrow> (x div 60000 mod 60) * 60 + x div 1000 mod 60 = x div 1000"
proof -
  let ?q = "x div 1000"
  have q1: "x div 60000 = ?q div 60" and q2: "x div 3600000 = ?q div 60 div 60"
    by (simp_all add: zdiv_zmult2_eq [symmetric])
  have "?q < 86400" using assms by simp
  have e1: "?q = ?q div 60 * 60 + ?q mod 60" and e2: "?q div 60 = ?q div 60 div 60 * 60 + ?q div 60 mod 60"
    by simp_all
  have "0 \<le> ?q div 60 div 60" "0 \<le> ?q mod 60" "0 \<le> ?q div 60 mod 60" using assms by simp_all
  then have "?q div 60 div 60 < 24" using e1 e2 \<open>?q < 86400\<close> by linarith
  then have h: "?q div 60 div 60 mod 24 = ?q div 60 div 60"
    using \<open>0 \<le> ?q div 60 div 60\<close> by (simp add: mod_pos_pos_trivial)
  show "(x div 3600000 mod 24) * 3600 + (x div 60000 mod 60) * 60 + x div 1000 mod 60 = x div 1000"
    unfolding q1 q2 h using e1 e2 by linarith
  assume "x < 3600000"
  then have "?q div 60 < 60" using assms by simp
  then have "?q div 60 mod 60 = ?q div 60" using assms by simp
  then show "(x div 60000 mod 60) * 60 + x div 1000 mod 60 = x div 1000"
    unfolding q1 using e1 by linarith
qed


lemma digit_val_le: "digit_in lo hi c \<Longrightarrow> digit_val c \<le> hi"
  unfolding digit_in_def digit_val_def by linarith

lemma alt2_bound: "(v, r) \<in> set (alt2 (lo1, hi1) (lo2, hi2) s) \<Longrightarrow> v \<le> 10 * hi1 + hi2"
  by (induction "(lo1, hi1)" "(lo2, hi2)" s rule: alt2.induct)
     (auto split: if_splits dest!: digit_val_le)

lemma alt1_bound: "(v, r) \<in> set (alt1 s) \<Longrightarrow> v \<le> 9"
  by (cases s) (auto split: if_splits dest!: digit_val_le)

lemma dir_alts_bound: "(v, r) \<in> set (dir_alts d s) \<Longrightarrow> v \<le> dir_max d"
  by (auto simp: dir_alts_def dir_max_def split: if_splits dest!: alt2_bound alt1_bound)

lemma first_some_in: "first_some xs = Some y \<Longrightarrow> Some y \<in> set xs"
  by (induction xs rule: first_some.induct) auto

lemma match_fmt_bound:
  "match_fmt ps s = Some (vs, r) \<Longrightarrow> (d, v) \<in> set vs \<Longrightarrow> v \<le> dir_max d"
proof (induction ps s arbitrary: vs r rule: match_fmt.induct)
  case (2 c ps s)
  then show ?case by (auto split: list.splits if_splits)
next
  case (3 d' ps s)
  from "3.prems"(1) have "first_some (map (\<lambda>(v, s'). map_option (\<lambda>(vs, r). ((d', v) # vs, r)) (match_fmt ps s'))
      (dir_alts d' s)) = Some (vs, r)" by simp
  from first_some_in [OF this] obtain v' s' where alt: "(v', s') \<in> set (dir_alts d' s)"
    and eq: "Some (vs, r) = map_option (\<lambda>(vs, y). ((d', v') # vs, y)) (match_fmt ps s')"
    by auto
  then obtain vs' where m: "match_fmt ps s' = Some (vs', r)" and vs: "vs = (d', v') # vs'"
    by (cases "match_fmt ps s'") auto
  show ?case
  proof (cases "(d, v) = (d', v')")
    case True
    with alt show ?thesis by (auto dest: dir_alts_bound)
  next
    case False
    with "3.prems"(2) vs have "(d, v) \<in> set vs'" by auto
    with "3.IH" [OF alt] m show ?thesis by blast
  qed
qed simp

lemma strptime_bound: "strptime s fmt = Inr vs \<Longrightarrow> tm_field vs d \<le> dir_max d"
  by (auto simp: strptime_def tm_field_def split: option.splits list.splits prod.splits
           dest: map_of_SomeD match_fmt_bound)

section \<open>Properties\<close>

text \<open>C29. Round trip of the two time helpers: for a duration of less than a day,
  \<^verbatim>\<open>formatTime(time(x))\<close> gives back \<open>x\<close> truncated to whole seconds, with the one
  exception of exactly one hour, which \<^verbatim>\<open>time\<close> prints as \<^verbatim>\<open>00:00\<close>.\<close>

theorem formatTime_time_roundtrip:
  assumes "0 \<le> x" "x < 86400000" "x \<noteq> 3600000"
  shows "formatTime (time_fmt x) = Some (x div 1000 * 1000)"
proof -
  let ?h = "nat (x div 3600000 mod 24)" and ?m = "nat (x div 60000 mod 60)" and ?s = "nat (x div 1000 mod 60)"
  have b: "?h < 24" "?m < 60" "?s < 60"
    by (simp_all add: nat_less_iff)
  show ?thesis
  proof (cases "x mod 86400000 > 3600000")
    case True
    then have "time_fmt x = pad2 ?h @ '':'' @ pad2 ?m @ '':'' @ pad2 ?s"
      by (simp add: time_fmt_def Let_def)
    then have "formatTime (time_fmt x) = Some ((int ?h * 3600 + int ?m * 60 + int ?s) * 1000)"
      using formatTime_hms_pad [OF b] by (rule ssubst)
    moreover have "int ?h * 3600 + int ?m * 60 + int ?s = x div 1000"
      using time_parts(1) [OF assms(1,2)] by (simp only: int_nat_eq pos_mod_sign zero_less_numeral if_True)
    ultimately show ?thesis by (simp only:)
  next
    case False
    then have "time_fmt x = pad2 ?m @ '':'' @ pad2 ?s"
      by (simp add: time_fmt_def Let_def)
    then have "formatTime (time_fmt x) = Some ((int ?m * 60 + int ?s) * 1000)"
      using formatTime_ms_pad [OF b(2,3)] by (rule ssubst)
    moreover from False assms have "x < 3600000" by simp
    then have "int ?m * 60 + int ?s = x div 1000"
      using time_parts(2) [OF assms(1,2)] by (simp only: int_nat_eq pos_mod_sign zero_less_numeral if_True)
    ultimately show ?thesis by (simp only:)
  qed
qed


text \<open>C30. Whatever the input, a time \<^verbatim>\<open>formatTime\<close> returns is a whole number of seconds
  between 0 and 23:59:61, the largest the three formats accept.\<close>

theorem formatTime_bounded:
  "formatTime s = Some n \<Longrightarrow> 0 \<le> n \<and> n \<le> 86401000 \<and> n mod 1000 = 0"
proof -
  assume f: "formatTime s = Some n"
  then obtain vs where st: "strptime s ''%M:%S'' = Inr vs \<or> strptime s ''%S'' = Inr vs \<or>
                          strptime s ''%H:%M:%S'' = Inr vs"
    and n: "n = (int (tm_field vs CHR ''H'') * 3600 + int (tm_field vs CHR ''M'') * 60 +
                 int (tm_field vs CHR ''S'')) * 1000"
    by (auto simp: formatTime_def split: sum.splits)
  have hb: "\<And>d. tm_field vs d \<le> dir_max d" using st strptime_bound by blast
  from hb [of "CHR ''H''"] hb [of "CHR ''M''"] hb [of "CHR ''S''"]
  have "tm_field vs CHR ''H'' \<le> 23" "tm_field vs CHR ''M'' \<le> 59" "tm_field vs CHR ''S'' \<le> 61"
    by (simp_all add: dir_max_def)
  then show ?thesis unfolding n by simp
qed

text \<open>\<^verbatim>\<open>formatTime\<close> on concrete inputs: minutes and seconds with one or two
  digits, hours; seconds beyond 61 (\<^verbatim>\<open>"90"\<close>) and hours beyond 23 are rejected, and so is
  the empty string.\<close>

theorem formatTime_examples:
  "formatTime ''5:7'' = Some 307000 \<and> formatTime ''1:02:03'' = Some 3723000 \<and>
   formatTime ''61'' = Some 61000 \<and> formatTime ''90'' = None \<and>
   formatTime ''24:00:00'' = None \<and> formatTime '''' = None"
  by code_simp

section \<open>Witnesses\<close>

theorem formatTime_time_roundtrip_witness:
  "0 \<le> (5400000::int) \<and> (5400000::int) < 86400000 \<and> (5400000::int) \<noteq> 3600000 \<and>
   formatTime (time_fmt 5400000) = Some (5400000 div 1000 * 1000)"
  using formatTime_time_roundtrip [of 5400000] by simp

theorem formatTime_bounded_witness:
  "formatTime ''1:02:03'' = Some 3723000 \<and> 0 \<le> (3723000::int) \<and> (3723000::int) \<le> 86401000 \<and>
   (3723000::int) mod 1000 = 0"
proof -
  have h: "formatTime ''1:02:03'' = Some 3723000" by code_simp
  show ?thesis using h formatTime_bounded [OF h] by blast
qed

end
