(* ===== verification/Setup.thy ===== *)
theory Setup
  imports Prelude
begin

text \<open>
  Start-up configuration of \<^verbatim>\<open>src/function.py\<close>: \<^verbatim>\<open>settings_setup\<close> (lines 102--118)
  and \<^verbatim>\<open>langs_setup\<close> (lines 88--100).  The parsed \<^verbatim>\<open>settings.json\<close> is the input
  \<open>raw\<close> (file reading is not modelled); the module-level tables it assigns are the
  record \<open>bot_config\<close>, starting from the values of lines 40 and 49--61.  The
  assignments are sequential, so an exception in \<^verbatim>\<open>int(..., 16)\<close> leaves the tables
  assigned before it updated and the later ones untouched: the result is the exception
  (or unit) and the configuration reached.  \<^verbatim>\<open>langs_setup\<close> takes each directory as
  the list \<^verbatim>\<open>os.listdir\<close> returns, each file with the outcome of \<^verbatim>\<open>json.load\<close>.
\<close>

section \<open>Hexadecimal integers: \<^verbatim>\<open>int(s, 16)\<close>\<close>

text \<open>CPython's rules for a string in base 16: surrounding ASCII whitespace is
  stripped; an optional sign; an optional \<^verbatim>\<open>0x\<close>/\<^verbatim>\<open>0X\<close> prefix, which may be
  followed by one underscore; then at least one digit, with single underscores allowed
  between digits.  Anything else raises \<^verbatim>\<open>ValueError\<close> (\<open>None\<close> here).\<close>

definition hex_val :: "char \<Rightarrow> nat option" where
  "hex_val c =
     (let n = (of_char c :: nat) in
      if 48 \<le> n \<and> n \<le> 57 then Some (n - 48)
      else if 97 \<le> n \<and> n \<le> 102 then Some (n - 87)
      else if 65 \<le> n \<and> n \<le> 70 then Some (n - 55)
      else None)"

fun hex_digits :: "string \<Rightarrow> nat list option"
and hex_rest :: "string \<Rightarrow> nat list option" where
  "hex_digits [] = None"
| "hex_digits (c # cs) =
     (case hex_val c of None \<Rightarrow> None | Some d \<Rightarrow> map_option (Cons d) (hex_rest cs))"
| "hex_rest [] = Some []"
| "hex_rest (c # cs) =
     (if c = CHR ''_'' then hex_digits cs
      else (case hex_val c of None \<Rightarrow> None | Some d \<Rightarrow> map_option (Cons d) (hex_rest cs)))"

definition digits_value :: "nat list \<Rightarrow> nat" where
  "digits_value ds = foldl (\<lambda>acc d. 16 * acc + d) 0 ds"

text \<open>The ASCII characters \<^verbatim>\<open>str.isspace\<close> accepts, which \<^verbatim>\<open>int()\<close> strips: tab to
  carriage return (9--13), the separators \<^verbatim>\<open>\x1c\<close> to \<^verbatim>\<open>\x1f\<close> (28--31) and space (32).\<close>

definition is_space :: "char \<Rightarrow> bool" where
  "is_space c \<longleftrightarrow> (9 \<le> (of_char c :: nat) \<and> (of_char c :: nat) \<le> 13) \<or>
                   (28 \<le> (of_char c :: nat) \<and> (of_char c :: nat) \<le> 32)"

definition py_strip :: "string \<Rightarrow> string" where
  "py_strip s = rev (dropWhile is_space (rev (dropWhile is_space s)))"

definition hex_unsigned :: "string \<Rightarrow> nat option" where
  "hex_unsigned s =
     (case s of
        c0 # cx # rest \<Rightarrow>
          (if c0 = CHR ''0'' \<and> (cx = CHR ''x'' \<or> cx = CHR ''X'')
           then map_option digits_value
                  (if rest \<noteq> [] \<and> hd rest = CHR ''_'' then hex_digits (tl rest) else hex_digits rest)
           else map_option digits_value (hex_digits s))
      | _ \<Rightarrow> map_option digits_value (hex_digits s))"

definition int16 :: "string \<Rightarrow> int option" where
  "int16 s =
     (let t = py_strip s in
      if t \<noteq> [] \<and> hd t = CHR ''-'' then map_option (\<lambda>n. - int n) (hex_unsigned (tl t))
      else if t \<noteq> [] \<and> hd t = CHR ''+'' then map_option int (hex_unsigned (tl t))
      else map_option int (hex_unsigned t))"

text \<open>\<^verbatim>\<open>int(x, 16)\<close> on a JSON value: a string is parsed; any other value raises
  \<^verbatim>\<open>TypeError\<close> (an explicit base needs a string).\<close>

fun py_int16 :: "jval \<Rightarrow> py_exc + int" where
  "py_int16 (JStr s) = (case int16 s of Some i \<Rightarrow> Inr i | None \<Rightarrow> Inl ValueError)"
| "py_int16 _ = Inl TypeError"

section \<open>settings_setup\<close>

record bot_config =
  nodes :: jval
  max_queue :: jval
  bot_prefix :: jval
  embed_color :: jval
  bot_access_user :: jval
  emoji_source_raw :: jval
  cooldowns_settings :: jval
  aliases_settings :: jval
  controller_settings :: jval

definition initial_config :: bot_config where
  "initial_config =
     \<lparr>nodes = JObj [], max_queue = JInt 1000, bot_prefix = JStr ''?'', embed_color = JNull,
      bot_access_user = JArr [], emoji_source_raw = JObj [], cooldowns_settings = JObj [],
      aliases_settings = JObj [], controller_settings = JObj []\<rparr>"

definition get_default :: "(string, jval) pydict \<Rightarrow> string \<Rightarrow> jval \<Rightarrow> jval" where
  "get_default d k dflt = (case map_of d k of Some v \<Rightarrow> v | None \<Rightarrow> dflt)"

definition default_controller :: jval where
  "default_controller =
     JArr [JArr [JStr ''back'', JStr ''resume'', JStr ''skip'', JObj [(''stop'', JStr ''red'')], JStr ''add''],
           JArr [JStr ''tracks'']]"

definition settings_setup :: "(string, jval) pydict \<Rightarrow> bot_config \<Rightarrow> (py_exc + unit) \<times> bot_config" where
  "settings_setup raw cfg =
     (let cfg1 = cfg\<lparr>nodes := get_default raw ''nodes'' (JObj [])\<rparr>;
          new_max_queue = get_default raw ''default_max_queue'' (max_queue cfg1);
          cfg2 = (if py_truthy new_max_queue then cfg1\<lparr>max_queue := new_max_queue\<rparr> else cfg1);
          cfg3 = cfg2\<lparr>bot_prefix := get_default raw ''prefix'' (JStr '''')\<rparr>
      in case py_int16 (get_default raw ''embed_color'' (JStr ''0xb3b3b3'')) of
           Inl e \<Rightarrow> (Inl e, cfg3)
         | Inr color \<Rightarrow>
             (Inr (), cfg3\<lparr>embed_color := JInt color,
                          bot_access_user := get_default raw ''bot_access_user'' (JArr []),
                          emoji_source_raw := get_default raw ''emoji_source_raw'' (JObj []),
                          cooldowns_settings := get_default raw ''cooldowns'' (JObj []),
                          aliases_settings := get_default raw ''aliases'' (JObj []),
                          controller_settings := get_default raw ''controller'' default_controller\<rparr>))"

section \<open>langs_setup\<close>

record lang_state =
  langs_table :: "(string, jval) pydict"
  local_langs_table :: "(string, jval) pydict"

text \<open>One directory: every \<^verbatim>\<open>.json\<close> file is loaded under its name without the
  extension (\<^verbatim>\<open>language[:-5]\<close>); a failing \<^verbatim>\<open>json.load\<close> stops the loop.\<close>

fun load_lang_dir ::
  "(string \<times> (py_exc + jval)) list \<Rightarrow> (string, jval) pydict \<Rightarrow> (py_exc + unit) \<times> (string, jval) pydict" where
  "load_lang_dir [] d = (Inr (), d)"
| "load_lang_dir ((f, r) # rest) d =
     (if suffix ''.json'' f
      then (case r of
              Inl e \<Rightarrow> (Inl e, d)
            | Inr j \<Rightarrow> load_lang_dir rest (dset (take (length f - 5) f) j d))
      else load_lang_dir rest d)"

definition langs_setup ::
  "(string \<times> (py_exc + jval)) list \<Rightarrow> (string \<times> (py_exc + jval)) list \<Rightarrow> lang_state \<Rightarrow>
   (py_exc + unit) \<times> lang_state" where
  "langs_setup lang_files local_files st =
     (case load_lang_dir lang_files (langs_table st) of
        (Inl e, l) \<Rightarrow> (Inl e, st\<lparr>langs_table := l\<rparr>)
      | (Inr _, l) \<Rightarrow>
          (case load_lang_dir local_files (local_langs_table st) of
             (r, ll) \<Rightarrow> (r, st\<lparr>langs_table := l, local_langs_table := ll\<rparr>)))"

section \<open>Reference printer\<close>

text \<open>Python's \<^verbatim>\<open>hex()\<close>: lower-case digits after \<^verbatim>\<open>0x\<close>, a minus sign before it.
  It is not called by the code; it states what \<open>int16\<close> reads back.\<close>

fun hex_nat_digits :: "nat \<Rightarrow> nat list" where
  "hex_nat_digits n = (if n < 16 then [n] else hex_nat_digits (n div 16) @ [n mod 16])"

definition hex_char :: "nat \<Rightarrow> char" where
  "hex_char d = char_of (if d < 10 then 48 + d else 87 + d)"

definition py_hex :: "int \<Rightarrow> string" where
  "py_hex i = (if i < 0 then ''-0x'' else ''0x'') @ map hex_char (hex_nat_digits (nat \<bar>i\<bar>))"

section \<open>Lemmas\<close>

declare hex_nat_digits.simps [simp del]

lemma hex_nat_digits_lt: "d \<in> set (hex_nat_digits n) \<Longrightarrow> d < 16"
  by (induction n rule: hex_nat_digits.induct) (subst (asm) hex_nat_digits.simps, auto split: if_splits)

lemma hex_nat_digits_ne: "hex_nat_digits n \<noteq> []"
  by (subst hex_nat_digits.simps) simp

lemma digits_value_snoc: "digits_value (ds @ [d]) = 16 * digits_value ds + d"
  by (simp add: digits_value_def)

lemma digits_value_hex: "digits_value (hex_nat_digits n) = n"
  by (induction n rule: hex_nat_digits.induct)
     (subst hex_nat_digits.simps, simp add: digits_value_snoc digits_value_def)

lemma of_char_hex_char: "d < 16 \<Longrightarrow> (of_char (hex_char d) :: nat) = (if d < 10 then 48 + d else 87 + d)"
  by (simp add: hex_char_def of_char_of)

lemma hex_val_hex_char: "d < 16 \<Longrightarrow> hex_val (hex_char d) = Some d"
  by (simp add: hex_val_def of_char_hex_char Let_def)

lemma hex_char_not_underscore: "d < 16 \<Longrightarrow> hex_char d \<noteq> CHR ''_''"
proof
  assume "d < 16" "hex_char d = CHR ''_''"
  then have "(of_char (hex_char d) :: nat) = of_char CHR ''_''" by simp
  with \<open>d < 16\<close> show False by (simp add: of_char_hex_char split: if_splits)
qed

lemma hex_char_not_space: "d < 16 \<Longrightarrow> \<not> is_space (hex_char d)"
proof -
  assume d: "d < 16"
  then have o: "(of_char (hex_char d) :: nat) \<ge> 48" by (simp add: of_char_hex_char)
  have "hex_char d \<noteq> CHR '' ''"
  proof
    assume "hex_char d = CHR '' ''"
    then have "(of_char (hex_char d) :: nat) = of_char CHR '' ''" by simp
    with o show False by simp
  qed
  with o show ?thesis by (simp add: is_space_def)
qed

lemma hex_rest_digits: "\<forall>d \<in> set ds. d < 16 \<Longrightarrow> hex_rest (map hex_char ds) = Some ds"
  by (induction ds) (simp_all add: hex_val_hex_char hex_char_not_underscore)

lemma hex_digits_digits: "ds \<noteq> [] \<Longrightarrow> \<forall>d \<in> set ds. d < 16 \<Longrightarrow> hex_digits (map hex_char ds) = Some ds"
  by (cases ds) (simp_all add: hex_val_hex_char hex_rest_digits)

lemma py_strip_id: "s \<noteq> [] \<Longrightarrow> \<not> is_space (hd s) \<Longrightarrow> \<not> is_space (last s) \<Longrightarrow> py_strip s = s"
proof -
  assume a: "s \<noteq> []" "\<not> is_space (hd s)" "\<not> is_space (last s)"
  then have "dropWhile is_space s = s" by (cases s) simp_all
  moreover have "dropWhile is_space (rev s) = rev s"
    using a by (cases "rev s") (simp_all add: hd_rev [symmetric])
  ultimately show ?thesis by (simp add: py_strip_def)
qed

lemma hex_unsigned_0x: "hex_unsigned (''0x'' @ map hex_char (hex_nat_digits n)) = Some n"
proof -
  let ?ds = "hex_nat_digits n"
  obtain d ds where ds: "?ds = d # ds" using hex_nat_digits_ne by (cases ?ds) auto
  have lt: "\<forall>d \<in> set ?ds. d < 16" using hex_nat_digits_lt by blast
  then have "hex_char d \<noteq> CHR ''_''" using ds by (simp add: hex_char_not_underscore)
  moreover have "digits_value (d # ds) = n" using digits_value_hex [of n] ds by simp
  ultimately show ?thesis
    using hex_digits_digits [OF hex_nat_digits_ne lt] ds
    by (simp add: hex_unsigned_def)
qed

lemma int16_default_color: "int16 ''0xb3b3b3'' = Some 11776947"
  by (simp add: int16_def py_strip_def is_space_def hex_unsigned_def hex_val_def digits_value_def Let_def)

lemma load_lang_dir_ok:
  "list_all (\<lambda>(f, r). suffix ''.json'' f \<longrightarrow> \<not> isl r) files \<Longrightarrow>
   fst (load_lang_dir files d) = Inr () \<and>
   set (map fst (snd (load_lang_dir files d))) =
     set (map fst d) \<union> {take (length f - 5) f | f. f \<in> set (map fst files) \<and> suffix ''.json'' f}"
proof (induction files arbitrary: d)
  case (Cons fr rest)
  obtain f r where fr: "fr = (f, r)" by fastforce
  show ?case
  proof (cases "suffix ''.json'' f")
    case True
    with Cons.prems fr obtain j where r: "r = Inr j" by (cases r) auto
    have "set (map fst (dset (take (length f - 5) f) j d)) = insert (take (length f - 5) f) (set (map fst d))"
      by (rule keys_dset)
    with Cons.IH [of "dset (take (length f - 5) f) j d"] Cons.prems fr r True show ?thesis
      by auto
  next
    case False
    with Cons.IH [of d] Cons.prems fr show ?thesis by auto
  qed
qed simp

lemma int16_py_hex_raw: "int16 (py_hex i) = Some i"
proof -
  let ?s = "map hex_char (hex_nat_digits (nat \<bar>i\<bar>))"
  have ne: "?s \<noteq> []" by (simp add: hex_nat_digits_ne)
  have "last (hex_nat_digits (nat \<bar>i\<bar>)) < 16"
    by (rule hex_nat_digits_lt, rule last_in_set, rule hex_nat_digits_ne)
  then have "\<not> is_space (last ?s)"
    by (simp add: last_map hex_nat_digits_ne hex_char_not_space)
  then have lastc: "\<not> is_space (last (p @ ?s))" for p using ne by simp
  have sp: "\<not> is_space CHR ''0''" "\<not> is_space CHR ''-''" by (simp_all add: is_space_def)
  show ?thesis
  proof (cases "i < 0")
    case True
    then have "py_strip (py_hex i) = ''-0x'' @ ?s"
      using py_strip_id [of "''-0x'' @ ?s"] lastc [of "''-0x''"] sp by (simp add: py_hex_def)
    with True show ?thesis using hex_unsigned_0x [of "nat (- i)"] by (simp add: int16_def)
  next
    case False
    then have "py_strip (py_hex i) = ''0x'' @ ?s"
      using py_strip_id [of "''0x'' @ ?s"] lastc [of "''0x''"] sp by (simp add: py_hex_def)
    with False show ?thesis using hex_unsigned_0x [of "nat i"] by (simp add: int16_def)
  qed
qed

section \<open>Properties\<close>

text \<open>\<^verbatim>\<open>int(hex(i), 16) == i\<close>: the parser of \<^verbatim>\<open>embed_color\<close> reads back every
  integer in Python's hexadecimal notation, negative ones included.\<close>

theorem int16_py_hex: "py_int16 (JStr (py_hex i)) = Inr i"
  by (simp add: int16_py_hex_raw)

text \<open>C25. \<^verbatim>\<open>default_max_queue\<close> is taken only when truthy: a missing entry, \<^verbatim>\<open>0\<close> or
  \<^verbatim>\<open>null\<close> keeps the previous \<^verbatim>\<open>max_queue\<close> (the walrus test of line 110).\<close>

theorem settings_setup_max_queue:
  "max_queue (snd (settings_setup raw cfg)) =
     (case map_of raw ''default_max_queue'' of
        Some v \<Rightarrow> (if py_truthy v then v else max_queue cfg)
      | None \<Rightarrow> max_queue cfg)"
  by (simp add: settings_setup_def get_default_def Let_def split: option.splits sum.splits)


text \<open>C26. An \<^verbatim>\<open>embed_color\<close> that is not a hexadecimal string makes \<^verbatim>\<open>settings_setup\<close>
  raise \<^verbatim>\<open>ValueError\<close> half-way: the prefix is already replaced, while
  \<^verbatim>\<open>bot_access_user\<close> and the colour keep their old values.\<close>

theorem settings_setup_bad_color:
  assumes "map_of raw ''embed_color'' = Some (JStr s)" "int16 s = None"
  shows "fst (settings_setup raw cfg) = Inl ValueError \<and>
         bot_prefix (snd (settings_setup raw cfg)) = get_default raw ''prefix'' (JStr '''') \<and>
         bot_access_user (snd (settings_setup raw cfg)) = bot_access_user cfg \<and>
         embed_color (snd (settings_setup raw cfg)) = embed_color cfg"
  using assms by (simp add: settings_setup_def get_default_def Let_def)

text \<open>The default colour \<^verbatim>\<open>0xb3b3b3\<close> is parsed to 11776947.\<close>

theorem settings_setup_default_color:
  "map_of raw ''embed_color'' = None \<Longrightarrow>
   fst (settings_setup raw cfg) = Inr () \<and> embed_color (snd (settings_setup raw cfg)) = JInt 11776947"
  by (simp add: settings_setup_def get_default_def Let_def int16_default_color)

text \<open>C28. When every \<^verbatim>\<open>.json\<close> file loads, \<^verbatim>\<open>langs_setup\<close> succeeds and the language
  tables gain exactly the file names without their extension, in both directories; other
  files are ignored.\<close>

theorem langs_setup_loads:
  assumes "list_all (\<lambda>(f, r). suffix ''.json'' f \<longrightarrow> \<not> isl r) lang_files"
    and "list_all (\<lambda>(f, r). suffix ''.json'' f \<longrightarrow> \<not> isl r) local_files"
  shows "fst (langs_setup lang_files local_files st) = Inr () \<and>
    set (map fst (langs_table (snd (langs_setup lang_files local_files st)))) =
      set (map fst (langs_table st)) \<union> {take (length f - 5) f | f. f \<in> set (map fst lang_files) \<and> suffix ''.json'' f} \<and>
    set (map fst (local_langs_table (snd (langs_setup lang_files local_files st)))) =
      set (map fst (local_langs_table st)) \<union> {take (length f - 5) f | f. f \<in> set (map fst local_files) \<and> suffix ''.json'' f}"
proof -
  from load_lang_dir_ok [OF assms(1), of "langs_table st"] obtain l where
    l: "load_lang_dir lang_files (langs_table st) = (Inr (), l)"
    "set (map fst l) = set (map fst (langs_table st)) \<union> {take (length f - 5) f | f. f \<in> set (map fst lang_files) \<and> suffix ''.json'' f}"
    by (cases "load_lang_dir lang_files (langs_table st)") auto
  from load_lang_dir_ok [OF assms(2), of "local_langs_table st"] obtain ll where
    ll: "load_lang_dir local_files (local_langs_table st) = (Inr (), ll)"
    "set (map fst ll) = set (map fst (local_langs_table st)) \<union> {take (length f - 5) f | f. f \<in> set (map fst local_files) \<and> suffix ''.json'' f}"
    by (cases "load_lang_dir local_files (local_langs_table st)") auto
  show ?thesis using l ll by (simp add: langs_setup_def)
qed

section \<open>Witnesses\<close>


theorem settings_setup_bad_color_witness:
  "map_of [(''embed_color'', JStr ''red'')] ''embed_color'' = Some (JStr ''red'') \<and> int16 ''red'' = None \<and>
   fst (settings_setup [(''embed_color'', JStr ''red'')] initial_config) = Inl ValueError \<and>
   bot_prefix (snd (settings_setup [(''embed_color'', JStr ''red'')] initial_config)) =
     get_default [(''embed_color'', JStr ''red'')] ''prefix'' (JStr '''') \<and>
   bot_access_user (snd (settings_setup [(''embed_color'', JStr ''red'')] initial_config)) = bot_access_user initial_config \<and>
   embed_color (snd (settings_setup [(''embed_color'', JStr ''red'')] initial_config)) = embed_color initial_config"
proof -
  have h: "map_of [(''embed_color'', JStr ''red'')] ''embed_color'' = Some (JStr ''red'')" "int16 ''red'' = None"
    by (simp_all add: int16_def py_strip_def is_space_def hex_unsigned_def hex_val_def Let_def)
  show ?thesis using h settings_setup_bad_color [OF h] by blast
qed

theorem langs_setup_loads_witness:
  "list_all (\<lambda>(f, r). suffix ''.json'' f \<longrightarrow> \<not> isl r) [(''EN.json'', Inr (JObj [])), (''x.txt'', Inl ValueError)] \<and>
   list_all (\<lambda>(f, r). suffix ''.json'' f \<longrightarrow> \<not> isl r) ([] :: (string \<times> (py_exc + jval)) list) \<and>
   fst (langs_setup [(''EN.json'', Inr (JObj [])), (''x.txt'', Inl ValueError)] [] \<lparr>langs_table = [], local_langs_table = []\<rparr>) = Inr ()"
proof -
  have h: "list_all (\<lambda>(f, r). suffix ''.json'' f \<longrightarrow> \<not> isl r) [(''EN.json'', Inr (JObj [])), (''x.txt'', Inl ValueError)]"
    "list_all (\<lambda>(f, r). suffix ''.json'' f \<longrightarrow> \<not> isl r) ([] :: (string \<times> (py_exc + jval)) list)"
    by (simp_all add: suffix_def)
  show ?thesis using h langs_setup_loads [OF h, of "\<lparr>langs_table = [], local_langs_table = []\<rparr>"] by blast
qed

end
