(* ===== verification/Connect.thy ===== *)
theory Connect
  imports Settings
begin

text \<open>
  \<^verbatim>\<open>connect_channel\<close> of \<^verbatim>\<open>src/function.py\<close> (lines 222--237).  The Discord objects
  are inputs: the channel passed in (or none), the author's voice state (\<open>Inl\<close> when
  \<^verbatim>\<open>ctx.author.voice\<close> is \<^verbatim>\<open>None\<close>, so that \<^verbatim>\<open>.channel\<close> raises), the bot's permissions
  in the channel, its members, and the outcome of \<^verbatim>\<open>channel.connect\<close>.  The two calls on
  external objects, \<^verbatim>\<open>channel.connect\<close> and \<^verbatim>\<open>player.send_ws\<close>, are recorded in order in
  an event log.  \<^verbatim>\<open>VoicelinkException(msg)\<close> is \<open>ExtError msg\<close>; the message comes from
  \<^verbatim>\<open>get_lang\<close>, whose own exceptions and effect on the settings state are kept.
\<close>

record vchannel =
  ch_id :: int
  can_connect :: bool
  can_speak :: bool
  ch_members :: "int list"

datatype voice_event = Connect int | SendWs string "int list"

type_synonym connect_state = "settings_state \<times> voice_event list"

text \<open>\<^verbatim>\<open>raise voicelink.VoicelinkException(get_lang(ctx.guild.id, key))\<close>.\<close>

definition raise_lang ::
  "lang_tables \<Rightarrow> int \<Rightarrow> string \<Rightarrow> connect_state \<Rightarrow> (py_exc + int) \<times> connect_state" where
  "raise_lang langs gid key st =
     (case get_lang langs gid key (fst st) of
        (Inl e, s') \<Rightarrow> (Inl e, (s', snd st))
      | (Inr msg, s') \<Rightarrow> (Inl (ExtError msg), (s', snd st)))"

definition connect_channel ::
  "lang_tables \<Rightarrow> int \<Rightarrow> vchannel option \<Rightarrow> py_exc + vchannel option \<Rightarrow> py_exc + unit \<Rightarrow>
   py_exc + unit \<Rightarrow> connect_state \<Rightarrow> (py_exc + int) \<times> connect_state" where
  "connect_channel langs gid channel author_voice connect_res send_res st =
     (case (case channel of Some c \<Rightarrow> Inr (Some c) | None \<Rightarrow> author_voice) of
        Inl _ \<Rightarrow> raise_lang langs gid ''noChannel'' st
      | Inr None \<Rightarrow> (Inl (ExtError ''AttributeError''), st)
      | Inr (Some c) \<Rightarrow>
          (if \<not> can_connect c \<or> \<not> can_speak c then raise_lang langs gid ''noPermission'' st
           else (case connect_res of
                   Inl e \<Rightarrow> (Inl e, (fst st, snd st @ [Connect (ch_id c)]))
                 | Inr _ \<Rightarrow>
                     (case send_res of
                        Inl e \<Rightarrow> (Inl e, (fst st, snd st @ [Connect (ch_id c), SendWs ''createPlayer'' (ch_members c)]))
                      | Inr _ \<Rightarrow> (Inr (ch_id c),
                                 (fst st, snd st @ [Connect (ch_id c), SendWs ''createPlayer'' (ch_members c)]))))))"

text \<open>A channel where the bot may connect but not speak.\<close>

definition demo_channel :: vchannel where
  "demo_channel = \<lparr>ch_id = 9, can_connect = True, can_speak = False, ch_members = [1, 2]\<rparr>"

section \<open>Lemmas\<close>

lemma raise_lang_events: "snd (snd (raise_lang langs gid key st)) = snd st"
  by (simp add: raise_lang_def split: prod.splits sum.splits)

lemma raise_lang_raises: "\<exists>e. fst (raise_lang langs gid key st) = Inl e"
  by (simp add: raise_lang_def split: prod.splits sum.splits)

section \<open>Properties\<close>

text \<open>C31. Without the permission to connect or to speak, \<^verbatim>\<open>connect_channel\<close> raises (the
  localized \<^verbatim>\<open>noPermission\<close> message, or the error of \<^verbatim>\<open>get_lang\<close>) and makes no call on the
  channel: the event log is unchanged.\<close>

theorem connect_channel_no_permission:
  assumes "channel = Some c \<or> (channel = None \<and> author_voice = Inr (Some c))"
    and "\<not> can_connect c \<or> \<not> can_speak c"
  shows "(\<exists>e. fst (connect_channel langs gid channel author_voice res sres st) = Inl e) \<and>
         snd (snd (connect_channel langs gid channel author_voice res sres st)) = snd st"
  using assms by (auto simp: connect_channel_def raise_lang_events raise_lang_raises)

text \<open>C32. With both permissions, \<^verbatim>\<open>connect_channel\<close> connects to the channel and then sends
  \<^verbatim>\<open>createPlayer\<close> with the ids of the channel's members, in this order, and returns the
  player of that channel; the settings state is untouched.\<close>

theorem connect_channel_connects:
  assumes "channel = Some c \<or> (channel = None \<and> author_voice = Inr (Some c))"
    and "can_connect c" "can_speak c"
  shows "connect_channel langs gid channel author_voice (Inr ()) (Inr ()) (s, ev) =
           (Inr (ch_id c), (s, ev @ [Connect (ch_id c), SendWs ''createPlayer'' (ch_members c)]))"
  using assms by (auto simp: connect_channel_def)

text \<open>C33. A failing \<^verbatim>\<open>send_ws\<close> is not undone: with both permissions and a successful
  \<^verbatim>\<open>channel.connect\<close>, an exception of \<^verbatim>\<open>player.send_ws\<close> propagates to the caller, no
  player is returned, and the connection made by \<^verbatim>\<open>channel.connect\<close> stays in place.\<close>

theorem connect_channel_send_fails:
  assumes "channel = Some c \<or> (channel = None \<and> author_voice = Inr (Some c))"
    and "can_connect c" "can_speak c"
  shows "connect_channel langs gid channel author_voice (Inr ()) (Inl e) (s, ev) =
           (Inl e, (s, ev @ [Connect (ch_id c), SendWs ''createPlayer'' (ch_members c)]))"
  using assms by (auto simp: connect_channel_def)

text \<open>An author who is not in a voice channel, with no channel given, gets the localized
  \<^verbatim>\<open>noChannel\<close> message as a \<^verbatim>\<open>VoicelinkException\<close>; nothing is connected.\<close>

theorem connect_channel_no_voice:
  assumes "get_lang langs gid ''noChannel'' s = (Inr msg, s')"
  shows "connect_channel langs gid None (Inl e) res sres (s, ev) = (Inl (ExtError msg), (s', ev))"
  using assms by (simp add: connect_channel_def raise_lang_def)

section \<open>Witnesses\<close>

theorem connect_channel_no_permission_witness:
  "(Some demo_channel = Some demo_channel \<or> (Some demo_channel = None \<and> Inl KeyError = Inr (Some demo_channel))) \<and>
   \<not> can_speak demo_channel \<and>
   (\<exists>e. fst (connect_channel [] 1 (Some demo_channel) (Inl KeyError) (Inr ()) (Inr ())
             (\<lparr>guild_settings = [], settings_coll = [], store_log = []\<rparr>, [])) = Inl e) \<and>
   snd (snd (connect_channel [] 1 (Some demo_channel) (Inl KeyError) (Inr ()) (Inr ())
             (\<lparr>guild_settings = [], settings_coll = [], store_log = []\<rparr>, []))) = []"
proof -
  have h: "Some demo_channel = Some demo_channel \<or> (Some demo_channel = None \<and> Inl KeyError = Inr (Some demo_channel))"
    "\<not> can_connect demo_channel \<or> \<not> can_speak demo_channel"
    by (simp_all add: demo_channel_def)
  show ?thesis
    using connect_channel_no_permission [OF h, of "[]" 1 "Inr ()" "Inr ()" "(\<lparr>guild_settings = [], settings_coll = [], store_log = []\<rparr>, [])"]
    by (simp add: demo_channel_def)
qed

theorem connect_channel_connects_witness:
  "(None = Some (demo_channel\<lparr>can_speak := True\<rparr>) \<or>
     (None = None \<and> (Inr (Some (demo_channel\<lparr>can_speak := True\<rparr>)) :: py_exc + vchannel option) = Inr (Some (demo_channel\<lparr>can_speak := True\<rparr>)))) \<and>
   can_connect (demo_channel\<lparr>can_speak := True\<rparr>) \<and> can_speak (demo_channel\<lparr>can_speak := True\<rparr>) \<and>
   connect_channel [] 1 None (Inr (Some (demo_channel\<lparr>can_speak := True\<rparr>))) (Inr ()) (Inr ())
     (\<lparr>guild_settings = [], settings_coll = [], store_log = []\<rparr>, []) =
   (Inr 9, (\<lparr>guild_settings = [], settings_coll = [], store_log = []\<rparr>, [Connect 9, SendWs ''createPlayer'' [1, 2]]))"
proof -
  have h: "None = Some (demo_channel\<lparr>can_speak := True\<rparr>) \<or>
     (None = None \<and> (Inr (Some (demo_channel\<lparr>can_speak := True\<rparr>)) :: py_exc + vchannel option) = Inr (Some (demo_channel\<lparr>can_speak := True\<rparr>)))"
    "can_connect (demo_channel\<lparr>can_speak := True\<rparr>)" "can_speak (demo_channel\<lparr>can_speak := True\<rparr>)"
    by (simp_all add: demo_channel_def)
  show ?thesis
    using h connect_channel_connects [OF h, of "[]" 1 "\<lparr>guild_settings = [], settings_coll = [], store_log = []\<rparr>" "[]"]
    by (simp add: demo_channel_def)
qed

theorem connect_channel_no_voice_witness:
  "get_lang [(''EN'', [(''noChannel'', ''Join a voice channel'')])] 1 ''noChannel''
     \<lparr>guild_settings = [(1, [(''lang'', JStr ''EN'')])], settings_coll = [], store_log = []\<rparr> =
     (Inr ''Join a voice channel'', \<lparr>guild_settings = [(1, [(''lang'', JStr ''EN'')])], settings_coll = [], store_log = []\<rparr>) \<and>
   connect_channel [(''EN'', [(''noChannel'', ''Join a voice channel'')])] 1 None (Inl KeyError) (Inr ()) (Inr ())
     (\<lparr>guild_settings = [(1, [(''lang'', JStr ''EN'')])], settings_coll = [], store_log = []\<rparr>, []) =
   (Inl (ExtError ''Join a voice channel''),
     (\<lparr>guild_settings = [(1, [(''lang'', JStr ''EN'')])], settings_coll = [], store_log = []\<rparr>, []))"
proof -
  have h: "get_lang [(''EN'', [(''noChannel'', ''Join a voice channel'')])] 1 ''noChannel''
     \<lparr>guild_settings = [(1, [(''lang'', JStr ''EN'')])], settings_coll = [], store_log = []\<rparr> =
     (Inr ''Join a voice channel'', \<lparr>guild_settings = [(1, [(''lang'', JStr ''EN'')])], settings_coll = [], store_log = []\<rparr>)"
    by (simp add: get_lang_def get_settings_def dget_def)
  show ?thesis using h connect_channel_no_voice [OF h] by blast
qed


theorem connect_channel_send_fails_witness:
  "(Some (demo_channel\<lparr>can_speak := True\<rparr>) = Some (demo_channel\<lparr>can_speak := True\<rparr>) \<or>
     (Some (demo_channel\<lparr>can_speak := True\<rparr>) = None \<and>
      (Inl KeyError :: py_exc + vchannel option) = Inr (Some (demo_channel\<lparr>can_speak := True\<rparr>)))) \<and>
   can_connect (demo_channel\<lparr>can_speak := True\<rparr>) \<and> can_speak (demo_channel\<lparr>can_speak := True\<rparr>) \<and>
   connect_channel [] 1 (Some (demo_channel\<lparr>can_speak := True\<rparr>)) (Inl KeyError) (Inr ()) (Inl (ExtError ''WebSocketClosure''))
     (\<lparr>guild_settings = [], settings_coll = [], store_log = []\<rparr>, []) =
   (Inl (ExtError ''WebSocketClosure''),
     (\<lparr>guild_settings = [], settings_coll = [], store_log = []\<rparr>, [Connect 9, SendWs ''createPlayer'' [1, 2]]))"
proof -
  have h: "Some (demo_channel\<lparr>can_speak := True\<rparr>) = Some (demo_channel\<lparr>can_speak := True\<rparr>) \<or>
     (Some (demo_channel\<lparr>can_speak := True\<rparr>) = None \<and>
      (Inl KeyError :: py_exc + vchannel option) = Inr (Some (demo_channel\<lparr>can_speak := True\<rparr>)))"
    "can_connect (demo_channel\<lparr>can_speak := True\<rparr>)" "can_speak (demo_channel\<lparr>can_speak := True\<rparr>)"
    by (simp_all add: demo_channel_def)
  show ?thesis
    using h connect_channel_send_fails [OF h, of "[]" 1 "ExtError ''WebSocketClosure''"
        "\<lparr>guild_settings = [], settings_coll = [], store_log = []\<rparr>" "[]"]
    by (simp add: demo_channel_def)
qed

end
