(* ===== verification/Init.thy ===== *)
theory Init
  imports Setup
begin

text \<open>
  Module initialisation of \<^verbatim>\<open>src/function.py\<close> (lines 17--45), as a function of its
  environment: whether \<^verbatim>\<open>settings.json\<close> exists, the environment variables after
  \<^verbatim>\<open>load_dotenv()\<close> (a lookup function), and whether \<^verbatim>\<open>mongodb.server_info()\<close> answers.
  Each \<^verbatim>\<open>raise Exception(...)\<close> of the import is an \<open>ExtError\<close> with its message; a
  successful import yields the values the later code reads: the database name, the
  YouTube API key and \<^verbatim>\<open>report_channel_id\<close> (\<^verbatim>\<open>int(os.getenv(...))\<close>, 0 on any
  exception).  Python's \<^verbatim>\<open>int(s)\<close> in base 10 is modelled like \<open>int16\<close> in \<open>Setup\<close>:
  stripped, an optional sign, decimal digits with single underscores between them.
\<close>

section \<open>Decimal integers: \<^verbatim>\<open>int(s)\<close>\<close>

definition dec_val :: "char \<Rightarrow> nat option" where
  "dec_val c = (let n = (of_char c :: nat) in if 48 \<le> n \<and> n \<le> 57 then Some (n - 48) else None)"

fun dec_digits :: "string \<Rightarrow> nat list option"
and dec_rest :: "string \<Rightarrow> nat list option" where
  "dec_digits [] = None"
| "dec_digits (c # cs) =
     (case dec_val c of None \<Rightarrow> None | Some d \<Rightarrow> map_option (Cons d) (dec_rest cs))"
| "dec_rest [] = Some []"
| "dec_rest (c # cs) =
     (if c = CHR ''_'' then dec_digits cs
      else (case dec_val c of None \<Rightarrow> None | Some d \<Rightarrow> map_option (Cons d) (dec_rest cs)))"

definition dec_value :: "nat list \<Rightarrow> nat" where
  "dec_value ds = foldl (\<lambda>acc d. 10 * acc + d) 0 ds"

definition int10 :: "string \<Rightarrow> int option" where
  "int10 s =
     (let t = py_strip s in
      if t \<noteq> [] \<and> hd t = CHR ''-'' then map_option (\<lambda>ds. - int (dec_value ds)) (dec_digits (tl t))
      else if t \<noteq> [] \<and> hd t = CHR ''+'' then map_option (\<lambda>ds. int (dec_value ds)) (dec_digits (tl t))
      else map_option (\<lambda>ds. int (dec_value ds)) (dec_digits t))"

section \<open>The import of the module\<close>

record init_env =
  settings_exists :: bool
  getenv :: "string \<Rightarrow> string option"
  mongo_answers :: bool

record module_state =
  mongodb_name :: string
  youtube_api_key :: "string option"
  report_channel_id :: int

text \<open>\<^verbatim>\<open>not (MONGODB_NAME and MONGODB_URL)\<close>: \<^verbatim>\<open>None\<close> and the empty string are falsy.\<close>

definition env_truthy :: "string option \<Rightarrow> bool" where
  "env_truthy v \<longleftrightarrow> (case v of Some s \<Rightarrow> s \<noteq> [] | None \<Rightarrow> False)"

text \<open>\<^verbatim>\<open>int(os.getenv("BUG_REPORT_CHANNEL_ID"))\<close> under a bare \<^verbatim>\<open>except\<close>: \<^verbatim>\<open>int(None)\<close>
  raises \<^verbatim>\<open>TypeError\<close> and a malformed string \<^verbatim>\<open>ValueError\<close>, both give 0.\<close>

definition channel_id_of :: "string option \<Rightarrow> int" where
  "channel_id_of v = (case v of Some s \<Rightarrow> (case int10 s of Some i \<Rightarrow> i | None \<Rightarrow> 0) | None \<Rightarrow> 0)"

definition module_init :: "init_env \<Rightarrow> py_exc + module_state" where
  "module_init env =
     (if \<not> settings_exists env then Inl (ExtError ''Settings file not set!'')
      else if \<not> (env_truthy (getenv env ''MONGODB_NAME'') \<and> env_truthy (getenv env ''MONGODB_URL''))
      then Inl (ExtError ''MONGODB_NAME and MONGODB_URL can't not be empty in .env'')
      else if \<not> mongo_answers env then Inl (ExtError ''Not able to connect MongoDB! Reason:'')
      else Inr \<lparr>mongodb_name = the (getenv env ''MONGODB_NAME''),
                youtube_api_key = getenv env ''YOUTUBE_API_KEY'',
                report_channel_id = channel_id_of (getenv env ''BUG_REPORT_CHANNEL_ID'')\<rparr>)"

text \<open>The decimal digits \<^verbatim>\<open>str(n)\<close> prints, as numbers.\<close>

fun dec_nat_digits :: "nat \<Rightarrow> nat list" where
  "dec_nat_digits n = (if n < 10 then [n] else dec_nat_digits (n div 10) @ [n mod 10])"

declare dec_nat_digits.simps [simp del]

section \<open>Lemmas\<close>

lemma dec_val_digit: "(d::nat) < 10 \<Longrightarrow> dec_val (char_of (48 + d)) = Some d"
  by (simp add: dec_val_def of_char_of Let_def)

lemma digit_char_not_underscore: "(d::nat) < 10 \<Longrightarrow> char_of (48 + d) \<noteq> CHR ''_''"
proof
  assume "d < 10" "char_of (48 + d) = CHR ''_''"
  then have "(of_char (char_of (48 + d)) :: nat) = of_char CHR ''_''" by simp
  with \<open>d < 10\<close> show False by (simp add: of_char_of)
qed

lemma digit_char_not_space: "(d::nat) < 10 \<Longrightarrow> \<not> is_space (char_of (48 + d))"
proof
  assume d: "d < 10" and "is_space (char_of (48 + d))"
  then have "char_of (48 + d) = CHR '' '' \<or> (of_char (char_of (48 + d)) :: nat) \<le> 13"
    by (auto simp: is_space_def)
  moreover have "char_of (48 + d) \<noteq> CHR '' ''"
  proof
    assume "char_of (48 + d) = CHR '' ''"
    then have "(of_char (char_of (48 + d)) :: nat) = of_char CHR '' ''" by simp
    with d show False by (simp add: of_char_of)
  qed
  ultimately show False using d by (simp add: of_char_of)
qed

lemma string_of_nat_digits: "string_of_nat n = map (\<lambda>d. char_of (48 + d)) (dec_nat_digits n)"
  by (induction n rule: dec_nat_digits.induct) (simp add: string_of_nat.simps dec_nat_digits.simps)

lemma dec_nat_digits_lt: "d \<in> set (dec_nat_digits n) \<Longrightarrow> d < 10"
  by (induction n rule: dec_nat_digits.induct) (subst (asm) dec_nat_digits.simps, auto split: if_splits)

lemma dec_nat_digits_ne: "dec_nat_digits n \<noteq> []"
  by (subst dec_nat_digits.simps) simp

lemma dec_value_digits: "dec_value (dec_nat_digits n) = n"
proof (induction n rule: dec_nat_digits.induct)
  case (1 n)
  show ?case
  proof (cases "n < 10")
    case False
    with "1.IH" have "dec_value (dec_nat_digits (n div 10)) = n div 10" by simp
    then show ?thesis using False by (simp add: dec_nat_digits.simps [of n] dec_value_def)
  qed (simp add: dec_nat_digits.simps [of n] dec_value_def)
qed

lemma dec_rest_digits: "\<forall>d \<in> set ds. (d::nat) < 10 \<Longrightarrow> dec_rest (map (\<lambda>d. char_of (48 + d)) ds) = Some ds"
  by (induction ds) (simp_all add: dec_val_digit digit_char_not_underscore)

lemma dec_digits_string_of_nat: "dec_digits (string_of_nat n) = Some (dec_nat_digits n)"
proof -
  obtain d ds where ds: "dec_nat_digits n = d # ds" using dec_nat_digits_ne by (cases "dec_nat_digits n") auto
  have "\<forall>d \<in> set (dec_nat_digits n). d < 10" using dec_nat_digits_lt by blast
  with ds show ?thesis by (simp add: string_of_nat_digits dec_val_digit dec_rest_digits)
qed

lemma py_strip_string_of_nat: "py_strip (p @ string_of_nat n) = p @ string_of_nat n"
  if "p = [] \<or> p = ''-''"
proof -
  have ne: "string_of_nat n \<noteq> []" by (simp add: string_of_nat_digits dec_nat_digits_ne)
  have "last (dec_nat_digits n) < 10" by (rule dec_nat_digits_lt, rule last_in_set, rule dec_nat_digits_ne)
  then have "\<not> is_space (last (string_of_nat n))"
    by (simp add: string_of_nat_digits last_map dec_nat_digits_ne digit_char_not_space)
  moreover have "hd (dec_nat_digits n) < 10" by (rule dec_nat_digits_lt, rule hd_in_set, rule dec_nat_digits_ne)
  then have "\<not> is_space (hd (string_of_nat n))"
    by (simp add: string_of_nat_digits hd_map dec_nat_digits_ne digit_char_not_space)
  ultimately show ?thesis
    using that ne py_strip_id [of "p @ string_of_nat n"] by (auto simp: is_space_def)
qed

lemma digit_char_ne: "(d::nat) < 10 \<Longrightarrow> (of_char c :: nat) < 48 \<Longrightarrow> char_of (48 + d) \<noteq> c"
proof
  assume "d < 10" "(of_char c :: nat) < 48" "char_of (48 + d) = c"
  then have "(of_char (char_of (48 + d)) :: nat) = of_char c" by simp
  with \<open>d < 10\<close> \<open>(of_char c :: nat) < 48\<close> show False by (simp add: of_char_of)
qed

lemma hd_string_of_nat_not_sign:
  "hd (string_of_nat n) \<noteq> CHR ''-'' \<and> hd (string_of_nat n) \<noteq> CHR ''+''"
proof -
  have "hd (dec_nat_digits n) < 10" by (rule dec_nat_digits_lt, rule hd_in_set, rule dec_nat_digits_ne)
  then show ?thesis
    by (simp add: string_of_nat_digits hd_map dec_nat_digits_ne digit_char_ne)
qed

lemma string_of_nat_ne: "string_of_nat n \<noteq> []"
  by (simp add: string_of_nat_digits dec_nat_digits_ne)

lemma int10_string_of_nat_raw: "int10 (string_of_nat n) = Some (int n)"
  using py_strip_string_of_nat [of "[]" n] hd_string_of_nat_not_sign [of n] string_of_nat_ne [of n]
  by (simp add: int10_def Let_def dec_digits_string_of_nat dec_value_digits)

section \<open>Properties\<close>

text \<open>\<^verbatim>\<open>int(str(i)) == i\<close>: a channel id written as Python prints integers is read
  back as itself by the \<^verbatim>\<open>int()\<close> of line 43, negative ids included.\<close>

theorem int10_string_of_int: "int10 (string_of_int i) = Some i"
proof (cases "i < 0")
  case True
  then show ?thesis
    using py_strip_string_of_nat [of "''-''" "nat (- i)"]
    by (simp add: string_of_int_def int10_def Let_def dec_digits_string_of_nat dec_value_digits)
next
  case False
  then show ?thesis using int10_string_of_nat_raw [of "nat i"] by (simp add: string_of_int_def)
qed

text \<open>The import succeeds exactly when \<^verbatim>\<open>settings.json\<close> exists, both MongoDB variables
  are set and non-empty, and the server answers; a missing or malformed
  \<^verbatim>\<open>BUG_REPORT_CHANNEL_ID\<close> never makes it fail.\<close>

theorem module_init_succeeds_iff:
  "\<not> isl (module_init env) \<longleftrightarrow>
     settings_exists env \<and> env_truthy (getenv env ''MONGODB_NAME'') \<and>
     env_truthy (getenv env ''MONGODB_URL'') \<and> mongo_answers env"
  by (auto simp: module_init_def)

end
