(* ===== verification/Spec2Isabelle.thy ===== *)
theory Spec2Isabelle
  imports Settings Playlist Recommend Report Format TimeParse Setup Connect Init
begin

text \<open>
  A verification development for \<^verbatim>\<open>src/function.py\<close> of Vocard, the shared module of
  a Discord music bot.  The module holds process-wide tables (the settings cache
  \<^verbatim>\<open>guild_settings\<close>, \<^verbatim>\<open>error_log\<close>, the tables read from \<^verbatim>\<open>settings.json\<close>),
  two MongoDB collections (\<^verbatim>\<open>Settings\<close>, one document per guild, and \<^verbatim>\<open>Playlist\<close>,
  one document per user) and the functions the bot's commands call.  The parts and
  the theories that model them:

  \<^item> \<open>Prelude\<close>: Python values as the JSON datatype \<open>jval\<close>; dictionaries as
    insertion-ordered association lists (\<open>dget\<close>, \<open>dset\<close>, \<open>ddel\<close>); the exceptions
    \<open>py_exc\<close>; truthiness \<open>py_truthy\<close>, equality \<open>py_eq\<close> (\<^verbatim>\<open>True == 1\<close>, dictionaries
    compared as maps), \<^verbatim>\<open>dict.get\<close>, \<^verbatim>\<open>d[k]\<close>, \<^verbatim>\<open>in\<close>, \<^verbatim>\<open>str\<close>/\<^verbatim>\<open>repr\<close> of
    numbers; the well-formedness \<open>wf_jval\<close> (no duplicate keys).
  \<^item> \<open>Mongo\<close>: the pymongo calls the code makes (a library, not code of the
    repository, modelled from MongoDB's documented semantics): \<open>find_one\<close>,
    \<open>insert_one\<close> (\<^verbatim>\<open>DuplicateKeyError\<close> on an existing \<^verbatim>\<open>_id\<close>), \<open>update_one\<close>
    without upsert, applying \<^verbatim>\<open>$set\<close>, \<^verbatim>\<open>$unset\<close>, \<^verbatim>\<open>$push\<close> (with \<^verbatim>\<open>$each\<close>) and
    \<^verbatim>\<open>$pull\<close> on dotted paths (\<open>modify_path\<close>) atomically: an error leaves the
    document unchanged.  Lemmas: read after modify, well-formedness, atomicity.
  \<^item> \<open>Settings\<close> (ConfigStore): \<^verbatim>\<open>get_settings\<close>, \<^verbatim>\<open>update_settings\<close>
    (\<^verbatim>\<open>Set\<close>, \<^verbatim>\<open>Delete\<close>, other modes) and \<^verbatim>\<open>get_lang\<close> as state passing over
    \<open>settings_state\<close>: the cache, the \<^verbatim>\<open>Settings\<close> collection and a log of the store
    calls made, so that ``no store call'' is a statement.  The coherence invariant
    \<open>settings_inv\<close>: every non-empty cache entry agrees (Python equality, key by key,
    \<^verbatim>\<open>_id\<close> aside) with the stored document.  Lemmas: the three outcomes of
    \<^verbatim>\<open>get_settings\<close> (hit, load, fresh insert), preservation of the invariant by
    \<^verbatim>\<open>Set\<close> with plain keys, its failure under \<^verbatim>\<open>Delete\<close>, and the order of the two
    writes of \<^verbatim>\<open>Set\<close> (cache first, so a rejected store write leaves them apart).
    \<open>store_view\<close> is the specification's ConfigStore (a tenant's stored bag, empty when
    there is none), and \<open>get_settings_refines\<close> shows that the cached \<^verbatim>\<open>get_settings\<close>
    implements it: it returns that bag and leaves the abstract store unchanged.
  \<^item> \<open>Playlist\<close> (PlaylistStore, AccountProvisioner): \<^verbatim>\<open>create_account\<close> (the
    confirmation dialog's \<^verbatim>\<open>view.value\<close> is an input), \<^verbatim>\<open>get_playlist\<close>,
    \<^verbatim>\<open>update_playlist\<close>, \<^verbatim>\<open>update_inbox\<close>, \<^verbatim>\<open>checkroles\<close> over the \<^verbatim>\<open>Playlist\<close>
    collection.  The flags of \<^verbatim>\<open>update_playlist\<close> are Python values: \<^verbatim>\<open>mode is True\<close> is
    an identity test and \<^verbatim>\<open>if push\<close>, \<^verbatim>\<open>if pull\<close> test truthiness.
  \<^item> \<open>Recommend\<close> (RecommendationEngine, HTTP fetcher): \<^verbatim>\<open>requests_api\<close> and
    \<^verbatim>\<open>similar_track\<close>.  The player, its tracks, \<^verbatim>\<open>spotifyRelatedTrack\<close>,
    \<^verbatim>\<open>get_tracks\<close> and the HTTP transport are the record \<open>caps\<close> of functions;
    \<^verbatim>\<open>random.choice\<close> is an index argument, and the theorems quantify over it.
    The loop over the search items is \<open>scan_items\<close>, by structural recursion over the
    items, \<^verbatim>\<open>continue\<close> and \<^verbatim>\<open>break\<close> as in the code; \<open>scan_items_refines\<close> relates
    it to a \<open>find\<close> over the documented item shape.
  \<^item> \<open>Report\<close> (Reporting): \<^verbatim>\<open>gen_report\<close> over \<^verbatim>\<open>error_log\<close>; the accumulation,
    done outside \<^verbatim>\<open>src/\<close>, is \<open>log_error\<close> from the spec.
  \<^item> \<open>Format\<close>: \<^verbatim>\<open>time\<close>, \<^verbatim>\<open>emoji_source\<close>, \<^verbatim>\<open>cooldown_check\<close>,
    \<^verbatim>\<open>get_aliases\<close>.
  \<^item> \<open>TimeParse\<close>: \<^verbatim>\<open>formatTime\<close> with the part of \<^verbatim>\<open>time.strptime\<close> it uses
    (CPython's directive regular expressions, first match in backtracking order, the
    unconverted-data check), modelled from CPython; the round trip
    \<^verbatim>\<open>formatTime(time(x))\<close> and the bound on its results.
  \<^item> \<open>Setup\<close>: \<^verbatim>\<open>settings_setup\<close> (sequential assignment of the module tables from the
    parsed \<^verbatim>\<open>settings.json\<close>, with \<^verbatim>\<open>int(s, 16)\<close> modelled from CPython's rules) and \<^verbatim>\<open>langs_setup\<close> (the two directory loops over
    the listings, each file with its \<^verbatim>\<open>json.load\<close> outcome).
  \<^item> \<open>Connect\<close>: \<^verbatim>\<open>connect_channel\<close>: the choice of channel and its caught exception,
    the permission guard, the localized \<^verbatim>\<open>VoicelinkException\<close> through \<^verbatim>\<open>get_lang\<close>,
    and the calls \<^verbatim>\<open>channel.connect\<close> then \<^verbatim>\<open>send_ws\<close> as an ordered event log; the
    Discord objects and the outcomes of both calls are inputs, so a \<^verbatim>\<open>send_ws\<close> that
    raises after a successful connection is a case of the model.
  \<^item> \<open>Init\<close>: the import of the module (lines 17--45): the three checks that raise
    (settings file, MongoDB variables, server answer) and the values computed, with
    \<^verbatim>\<open>int()\<close> of \<^verbatim>\<open>BUG_REPORT_CHANNEL_ID\<close> under its bare \<^verbatim>\<open>except\<close>.
  \<^item> This theory: modelled from the concurrency contract of the specification
    (section 5) rather than from particular lines, the service as one state (\<open>service\<close>: settings state, playlist
    collection, error log), a datatype \<open>service_op\<close> of the calls the commands make
    and their step function \<open>service_step\<close>, the reachable states
    \<open>service_reach\<close> (an inductive relation: any schedule of whole calls from a
    coherent start) and the invariant \<open>service_inv\<close> proved by rule induction; the
    composition of the settings cache with \<^verbatim>\<open>get_lang\<close> and \<^verbatim>\<open>connect_channel\<close>
    (\<open>set_lang_connect_message\<close>: the language a guild sets is the language of its
    voice errors).

  Concurrency.  The bot runs on one asyncio event loop, and the store calls of
  \<^verbatim>\<open>get_settings\<close> and \<^verbatim>\<open>update_settings\<close> are synchronous pymongo calls: no
  \<^verbatim>\<open>await\<close> occurs inside them, so no other task runs between a cache check and a
  store write.  An interleaving of tasks is therefore a sequence of whole calls,
  which is what \<open>service_reach\<close> ranges over.  \<^verbatim>\<open>similar_track\<close> and
  \<^verbatim>\<open>create_account\<close> do suspend, but only on the player, the dialog and the network,
  which are inputs of the model.

  Numbers.  Python ints are \<open>int\<close>.  \<^verbatim>\<open>time\<close> computes in floats; the model is the
  exact arithmetic, which the floats reproduce for durations below \<open>2^43\<close> ms
  (about 278 years), where no rounding reaches an integer boundary.  No loop of the
  code is unbounded (every loop runs over a finite list), so every loop is structural
  recursion and no fuel is needed.

  Not modelled: the imports and \<^verbatim>\<open>root_dir\<close> (lines 1--15: module loading and a
  path computation, whose only use is to name the files read at start-up), the file
  reading of \<^verbatim>\<open>settings_setup\<close> and \<^verbatim>\<open>langs_setup\<close>
  (\<^verbatim>\<open>open\<close>, \<^verbatim>\<open>os.listdir\<close>, \<^verbatim>\<open>json.load\<close>: their results are inputs),
  the Discord objects behind \<^verbatim>\<open>connect_channel\<close> (their answers are inputs), the file system,
  the environment and the MongoDB server behind the import (their answers are inputs of
  \<open>module_init\<close>), the Discord UI objects, and the network errors pymongo itself may
  raise from \<^verbatim>\<open>find_one\<close>, \<^verbatim>\<open>insert_one\<close> and \<^verbatim>\<open>update_one\<close> (only the errors of
  the documented semantics, such as \<^verbatim>\<open>DuplicateKeyError\<close> and write errors, are
  modelled).  Strings are byte
  strings: Python's Unicode digits and whitespace beyond ASCII are not modelled in
  \<^verbatim>\<open>strptime\<close> and \<^verbatim>\<open>int\<close>.
\<close>

section \<open>The service: one state, its calls and their schedules\<close>

text \<open>\<open>service_op\<close> lists the calls of \<^verbatim>\<open>src/function.py\<close> that change state and that
  the commands make on the store and the tables: \<^verbatim>\<open>get_settings\<close>, \<^verbatim>\<open>update_settings\<close>
  in \<^verbatim>\<open>Set\<close> mode, \<^verbatim>\<open>get_lang\<close>, \<^verbatim>\<open>create_account\<close>, \<^verbatim>\<open>update_playlist\<close> (all four
  shapes), \<^verbatim>\<open>update_inbox\<close>, \<^verbatim>\<open>connect_channel\<close> (whose error messages read the
  settings through \<^verbatim>\<open>get_lang\<close>, and whose calls on the channel are the log \<open>voice\<close>),
  and the recording of an error.  \<open>op_ok\<close> is what the callers guarantee: the keys written
  by \<^verbatim>\<open>Set\<close> are plain (no dot, not \<^verbatim>\<open>_id\<close>) and distinct, the values well formed.
  \<^verbatim>\<open>Delete\<close> is left out: it does not preserve coherence (\<open>Settings.delete_breaks_coherence\<close>).\<close>

record service =
  cfg :: settings_state
  pls :: playlists
  errs :: error_log
  voice :: "voice_event list"

datatype service_op =
    GetSettings int
  | SetSettings int "(string \<times> jval) list"
  | GetLang lang_tables int string
  | CreateAccount "int option" jval
  | UpdatePlaylist int "(string \<times> jval) list" jval jval jval
  | UpdateInbox int jval
  | ConnectChannel lang_tables int "vchannel option" "py_exc + vchannel option" "py_exc + unit" "py_exc + unit"
  | LogError int int string

fun service_step :: "service_op \<Rightarrow> service \<Rightarrow> service" where
  "service_step (GetSettings gid) s = s\<lparr>cfg := snd (get_settings gid (cfg s))\<rparr>"
| "service_step (SetSettings gid data) s = s\<lparr>cfg := snd (update_settings gid data ''Set'' (cfg s))\<rparr>"
| "service_step (GetLang langs gid key) s = s\<lparr>cfg := snd (get_lang langs gid key (cfg s))\<rparr>"
| "service_step (CreateAccount author v) s = s\<lparr>pls := create_account author v (pls s)\<rparr>"
| "service_step (UpdatePlaylist uid data push pull mode) s =
     s\<lparr>pls := snd (update_playlist uid data push pull mode (pls s))\<rparr>"
| "service_step (UpdateInbox uid data) s = s\<lparr>pls := snd (update_inbox uid data (pls s))\<rparr>"
| "service_step (ConnectChannel langs gid channel author_voice res sres) s =
     (case snd (connect_channel langs gid channel author_voice res sres (cfg s, voice s)) of
        (c', v') \<Rightarrow> s\<lparr>cfg := c', voice := v'\<rparr>)"
| "service_step (LogError gid ts text) s = s\<lparr>errs := log_error gid ts text (errs s)\<rparr>"

fun op_ok :: "service_op \<Rightarrow> bool" where
  "op_ok (SetSettings gid data) =
     (list_all (\<lambda>(k, v). simple_key k \<and> wf_jval v) data \<and> distinct (map fst data))"
| "op_ok _ = True"

definition playlists_ok :: "playlists \<Rightarrow> bool" where
  "playlists_ok c \<longleftrightarrow> distinct (map fst c)"

definition service_init :: "int collection \<Rightarrow> playlists \<Rightarrow> service" where
  "service_init c p = \<lparr>cfg = \<lparr>guild_settings = [], settings_coll = c, store_log = []\<rparr>, pls = p, errs = [], voice = []\<rparr>"

text \<open>The reachable states: from an empty cache over a store whose documents carry their
  own \<^verbatim>\<open>_id\<close>, any sequence of whole calls.\<close>

inductive service_reach :: "service \<Rightarrow> bool" where
  init: "store_ok c \<Longrightarrow> playlists_ok p \<Longrightarrow> service_reach (service_init c p)"
| step: "service_reach s \<Longrightarrow> op_ok op \<Longrightarrow> service_reach (service_step op s)"

definition service_inv :: "service \<Rightarrow> bool" where
  "service_inv s \<longleftrightarrow> settings_inv (cfg s) \<and> playlists_ok (pls s)"

text \<open>A run of three calls from the empty state: a \<^verbatim>\<open>Set\<close> of the language,
  a provisioned account and an inbox message.\<close>

definition demo_service :: service where
  "demo_service = service_step (UpdateInbox 5 (JStr ''hi''))
     (service_step (CreateAccount (Some 5) (JBool True))
       (service_step (SetSettings 1 [(''lang'', JStr ''FR'')]) (service_init [] [])))"

text \<open>Two language tables, each with its \<^verbatim>\<open>noPermission\<close> message.\<close>

definition demo_langs :: lang_tables where
  "demo_langs = [(''EN'', [(''noPermission'', ''No permission'')]),
                 (''FR'', [(''noPermission'', ''Pas de permission'')])]"

section \<open>The invariant of the service\<close>

lemma get_lang_state: "snd (get_lang langs gid key s) = snd (get_settings gid s)"
  by (simp add: get_lang_def split: prod.splits sum.splits option.splits jval.splits)

lemma settings_inv_get: "settings_inv s \<Longrightarrow> settings_inv (snd (get_settings gid s))"
proof -
  assume inv: "settings_inv s"
  then have "store_ok (settings_coll s)" by (simp add: settings_inv_def)
  then obtain b s1 where "get_settings gid s = (Inr b, s1)"
    by (cases rule: get_settings_cases [of s gid]) auto
  with inv show ?thesis using get_settings_inv by fastforce
qed

lemma settings_inv_set:
  "settings_inv s \<Longrightarrow> op_ok (SetSettings gid data) \<Longrightarrow> settings_inv (snd (update_settings gid data ''Set'' s))"
proof -
  assume inv: "settings_inv s" and ok: "op_ok (SetSettings gid data)"
  then have "\<forall>k \<in> set (map fst data). simple_key k" "distinct (map fst data)"
    "\<forall>v \<in> set (map snd data). wf_jval v"
    by (auto simp: list_all_iff)
  from update_settings_set_inv [OF inv this prod.collapse [symmetric]] show ?thesis ..
qed

lemma playlists_ok_update_one: "playlists_ok c \<Longrightarrow> playlists_ok (snd (update_one i op data c))"
  by (simp add: playlists_ok_def update_one_def distinct_dset split: option.splits sum.splits)

lemma raise_lang_cfg: "fst (snd (raise_lang langs gid key (s, ev))) = snd (get_settings gid s)"
  using get_lang_state [of langs gid key s]
  by (cases "get_lang langs gid key s" rule: prod.exhaust) (simp add: raise_lang_def split: sum.splits)

lemma connect_channel_cfg:
  "fst (snd (connect_channel langs gid channel author_voice res sres (s, ev))) = s \<or>
   fst (snd (connect_channel langs gid channel author_voice res sres (s, ev))) = snd (get_settings gid s)"
  by (simp add: connect_channel_def raise_lang_cfg split: option.splits sum.splits)

lemma playlists_ok_create: "playlists_ok c \<Longrightarrow> playlists_ok (create_account a v c)"
  by (simp add: playlists_ok_def create_account_def insert_one_def split: option.splits)

lemma settings_inv_connect:
  "settings_inv s \<Longrightarrow> settings_inv (fst (snd (connect_channel langs gid channel author_voice res sres (s, ev))))"
  using connect_channel_cfg [of langs gid channel author_voice res sres s ev] settings_inv_get by metis

lemma service_step_inv: "service_inv s \<Longrightarrow> op_ok op \<Longrightarrow> service_inv (service_step op s)"
proof (cases op)
  case (ConnectChannel langs gid channel author_voice res sres)
  assume "service_inv s"
  then show ?thesis
    using ConnectChannel settings_inv_connect [of "cfg s" langs gid channel author_voice res sres "voice s"]
    by (auto simp: service_inv_def split: prod.splits)
qed (simp_all add: service_inv_def settings_inv_get settings_inv_set get_lang_state
       playlists_ok_create update_inbox_def update_playlist_state playlists_ok_update_one)

lemma service_init_inv: "store_ok c \<Longrightarrow> playlists_ok p \<Longrightarrow> service_inv (service_init c p)"
  by (simp add: service_inv_def service_init_def settings_inv_def dget_def)

lemma reach_settings_inv: "service_reach s \<Longrightarrow> settings_inv (cfg s)"
proof -
  assume "service_reach s"
  then have "service_inv s"
    by (induction rule: service_reach.induct) (simp_all add: service_init_inv service_step_inv)
  then show ?thesis by (simp add: service_inv_def)
qed

text \<open>C1. Coherence under every schedule: in every state reached by any sequence of calls,
  each non-empty cached settings dictionary agrees with the stored document of its
  guild, every stored document carries its \<^verbatim>\<open>_id\<close>, and the playlist collection has one
  document per user.\<close>

theorem service_reach_inv: "service_reach s \<Longrightarrow> service_inv s"
  by (induction rule: service_reach.induct) (simp_all add: service_init_inv service_step_inv)

section \<open>No lost update\<close>

lemma set_single_effect:
  assumes inv: "settings_inv s" and k: "simple_key k" and v: "wf_jval v"
  shows "\<exists>b d. dget (guild_settings (snd (update_settings g [(k, v)] ''Set'' s))) g = Some b \<and>
           dget (settings_coll (snd (update_settings g [(k, v)] ''Set'' s))) g = Some d \<and>
           py_eq (py_get b k) v \<and> py_get d k = v"
proof -
  from inv have "store_ok (settings_coll s)" by (simp add: settings_inv_def)
  then obtain b s1 where gs: "get_settings g s = (Inr b, s1)"
    by (cases rule: get_settings_cases [of s g]) auto
  with inv obtain d where d: "dget (settings_coll s1) g = Some d"
    using get_settings_inv by blast
  let ?s' = "snd (update_settings g [(k, v)] ''Set'' s)"
  have c: "guild_settings ?s' = dset g (set_loop [(k, v)] b) (guild_settings s1)"
    and st: "settings_coll ?s' = dset g (fold (\<lambda>(k, v). dset k v) [(k, v)] d) (settings_coll s1)"
    using gs d k by (simp_all add: update_settings_def store_update_set_simple)
  have "py_eq (py_get (set_loop [(k, v)] b) k) v"
    using v by (simp add: py_get_dset py_eq_refl)
  moreover have "py_get (fold (\<lambda>(k, v). dset k v) [(k, v)] d) k = v"
    by (simp add: py_get_dset)
  ultimately show ?thesis by (simp add: c st dget_dset)
qed

text \<open>C2. Last write wins, in the cache and in the store: in any reachable state, after
  \<^verbatim>\<open>update_settings(g, {k: v}, "Set")\<close> the cached dictionary of \<open>g\<close> holds a value
  Python-equal to \<open>v\<close> at \<open>k\<close>, and the stored document holds \<open>v\<close>.  Two tasks writing
  the same key therefore end with the value of the later call in both places.\<close>

theorem service_set_last_wins:
  assumes "service_reach s" "simple_key k" "wf_jval v"
  shows "\<exists>b d. dget (guild_settings (cfg (service_step (SetSettings g [(k, v)]) s))) g = Some b \<and>
           dget (settings_coll (cfg (service_step (SetSettings g [(k, v)]) s))) g = Some d \<and>
           py_eq (py_get b k) v \<and> py_get d k = v"
  using set_single_effect [OF reach_settings_inv [OF assms(1)] assms(2,3)] by simp

section \<open>Settings and voice connections\<close>

text \<open>C3. The settings and the voice connection agree on the language: in any reachable
  state, after \<^verbatim>\<open>update_settings(g, {"lang": L}, "Set")\<close>, a \<^verbatim>\<open>connect_channel\<close> for \<open>g\<close>
  to a channel where the bot may not connect or speak raises the \<^verbatim>\<open>noPermission\<close>
  message of table \<open>L\<close>, read from the cache without a store call.  The \<^verbatim>\<open>EN\<close> table
  must exist, since \<^verbatim>\<open>get_lang\<close> evaluates \<^verbatim>\<open>langs["EN"]\<close> first.\<close>

theorem set_lang_connect_message:
  assumes "service_reach s"
    and "dget langs ''EN'' = Some en" "dget langs L = Some t" "dget t ''noPermission'' = Some msg"
    and "\<not> can_connect c \<or> \<not> can_speak c"
  shows "fst (connect_channel langs g (Some c) av res sres
           (cfg (service_step (SetSettings g [(''lang'', JStr L)]) s), ev)) = Inl (ExtError msg)"
proof -
  let ?s' = "cfg (service_step (SetSettings g [(''lang'', JStr L)]) s)"
  obtain b where b: "dget (guild_settings ?s') g = Some b" and eq: "py_eq (py_get b ''lang'') (JStr L)"
    using set_single_effect [OF reach_settings_inv [OF assms(1)], of "''lang''" "JStr L" g]
    by (auto simp: simple_key_def)
  have lang: "dget b ''lang'' = Some (JStr L)"
    using eq by (simp add: py_get_def dget_def py_eq_JStr_right split: option.splits)
  then have "b \<noteq> []" by (auto simp: dget_def)
  with b have "get_settings g ?s' = (Inr b, ?s')" by (simp add: get_settings_def)
  then have "get_lang langs g ''noPermission'' ?s' = (Inr msg, ?s')"
    using lang assms(2-4) by (simp add: get_lang_def)
  then show ?thesis using assms(5) by (auto simp: connect_channel_def raise_lang_def)
qed

lemma demo_service_reach: "service_reach demo_service"
  unfolding demo_service_def
  by (intro service_reach.step service_reach.init)
     (simp_all add: store_ok_def playlists_ok_def simple_key_def dget_def)

section \<open>Witnesses\<close>

theorem service_reach_inv_witness: "service_reach demo_service \<and> service_inv demo_service"
  using demo_service_reach service_reach_inv [OF demo_service_reach] by blast

theorem service_set_last_wins_witness:
  "service_reach demo_service \<and> simple_key ''volume'' \<and> wf_jval (JInt 50) \<and>
   (\<exists>b d. dget (guild_settings (cfg (service_step (SetSettings 1 [(''volume'', JInt 50)]) demo_service))) 1 = Some b \<and>
      dget (settings_coll (cfg (service_step (SetSettings 1 [(''volume'', JInt 50)]) demo_service))) 1 = Some d \<and>
      py_eq (py_get b ''volume'') (JInt 50) \<and> py_get d ''volume'' = JInt 50)"
proof -
  have h: "service_reach demo_service" "simple_key ''volume''" "wf_jval (JInt 50)"
    by (simp_all add: demo_service_reach simple_key_def)
  show ?thesis using h service_set_last_wins [OF h] by blast
qed

theorem set_lang_connect_message_witness:
  "service_reach demo_service \<and> dget demo_langs ''EN'' = Some [(''noPermission'', ''No permission'')] \<and>
   dget demo_langs ''FR'' = Some [(''noPermission'', ''Pas de permission'')] \<and>
   dget [(''noPermission'', ''Pas de permission'')] ''noPermission'' = Some ''Pas de permission'' \<and>
   \<not> can_speak demo_channel \<and>
   fst (connect_channel demo_langs 1 (Some demo_channel) (Inl KeyError) (Inr ()) (Inr ())
     (cfg (service_step (SetSettings 1 [(''lang'', JStr ''FR'')]) demo_service), [])) =
   Inl (ExtError ''Pas de permission'')"
proof -
  have h: "service_reach demo_service" "dget demo_langs ''EN'' = Some [(''noPermission'', ''No permission'')]"
    "dget demo_langs ''FR'' = Some [(''noPermission'', ''Pas de permission'')]"
    "dget [(''noPermission'', ''Pas de permission'')] ''noPermission'' = Some ''Pas de permission''"
    "\<not> can_connect demo_channel \<or> \<not> can_speak demo_channel"
    by (simp_all add: demo_service_reach demo_langs_def dget_def demo_channel_def)
  show ?thesis
    using h set_lang_connect_message [OF h, of 1 "Inl KeyError" "Inr ()" "Inr ()" "[]"]
    by (simp add: demo_channel_def)
qed

end
